(* ===== verification/Prelude.thy ===== *)
theory Prelude
  imports Complex_Main "HOL-Library.AList" "HOL-Library.Sublist" "HOL-Library.Word"
begin

text \<open>
  Shared vocabulary of the development: the Python exceptions the program can meet, the
  result type of a call that may raise, Python's insertion-ordered dictionaries as
  association lists with the three dictionary operations \<^verbatim>\<open>main.py\<close> uses
  (\<^verbatim>\<open>d[k]\<close>, \<^verbatim>\<open>d[k] = v\<close>, \<^verbatim>\<open>d[k].append(x)\<close>), and the order
  \<open>grows\<close> under which an append-only dictionary of lists evolves, with the weaker
  order \<open>embeds\<close> that compares the results of two scans. The fact collections
  declared here carry the component proofs: \<open>py_defs\<close> (definitions of the modelled
  library calls), \<open>frame\<close> (fields and keys an operation leaves alone), \<open>grow\<close>
  (append-only steps) and \<open>evaluate\<close> (the unfoldings with which the simplifier runs
  the model on concrete inputs, in the witnesses).
\<close>

section \<open>Fact collections\<close>

named_theorems py_defs \<open>definitions of the modelled library calls\<close>
named_theorems frame \<open>what an operation leaves unchanged\<close>
named_theorems grow \<open>append-only steps of the result dictionary\<close>
named_theorems evaluate \<open>unfoldings that evaluate the model on concrete inputs\<close>

lemmas evaluate_let [evaluate] = Let_def

section \<open>Exceptions and results\<close>

text \<open>
  Every exception class that reaches one of the program's \<^verbatim>\<open>try\<close> blocks or its top
  level. All of them derive from \<^verbatim>\<open>Exception\<close>, so \<^verbatim>\<open>except Exception\<close>
  catches each.
\<close>

datatype exn =
    OSError
  | ValueError
  | KeyError
  | UnidentifiedImageError
  | BackEndError
  | GetoptError
  | RuntimeError
  | IndexError
  | AttributeError

type_synonym 'a outcome = "exn + 'a"
type_synonym byte = "8 word"
type_synonym ('k, 'v) dict = "('k \<times> 'v) list"

abbreviation Raise :: "exn \<Rightarrow> 'a outcome" where
  "Raise \<equiv> Inl"

abbreviation Return :: "'a \<Rightarrow> 'a outcome" where
  "Return \<equiv> Inr"

section \<open>Dictionaries\<close>

text \<open>
  A Python \<^verbatim>\<open>dict\<close> keeps its keys in insertion order and assigning to a key that is
  present keeps the key's position: this is \<open>AList.update\<close>. Reading a missing key
  raises \<^verbatim>\<open>KeyError\<close>.
\<close>

definition dict_keys :: "('k, 'v) dict \<Rightarrow> 'k list" where
  "dict_keys d = map fst d"

definition dict_getitem :: "('k, 'v) dict \<Rightarrow> 'k \<Rightarrow> 'v outcome" where
  "dict_getitem d k = (case map_of d k of None \<Rightarrow> Raise KeyError | Some v \<Rightarrow> Return v)"

definition dict_setitem :: "'k \<Rightarrow> 'v \<Rightarrow> ('k, 'v) dict \<Rightarrow> ('k, 'v) dict" where
  "dict_setitem k v d = AList.update k v d"

definition dict_append :: "'k \<Rightarrow> 'a \<Rightarrow> ('k, 'a list) dict \<Rightarrow> ('k, 'a list) dict outcome" where
  "dict_append k x d =
     (case dict_getitem d k of
        Inl e \<Rightarrow> Raise e
      | Inr xs \<Rightarrow> Return (dict_setitem k (xs @ [x]) d))"

definition wf_dict :: "('k, 'v) dict \<Rightarrow> bool" where
  "wf_dict d \<longleftrightarrow> distinct (dict_keys d)"

text \<open>
  \<open>grows d d'\<close>: the two dictionaries have the same keys in the same order and every list
  of \<open>d\<close> is a prefix of the list \<open>d'\<close> holds under that key.
\<close>

definition grows :: "('k, 'a list) dict \<Rightarrow> ('k, 'a list) dict \<Rightarrow> bool" where
  "grows d d' \<longleftrightarrow> list_all2 (\<lambda>p q. fst p = fst q \<and> prefix (snd p) (snd q)) d d'"

text \<open>
  \<open>embeds d d'\<close>: the same keys in the same order, and every list of \<open>d\<close> is
  a subsequence of the list \<open>d'\<close> holds under that key.
\<close>

definition embeds :: "('k, 'a list) dict \<Rightarrow> ('k, 'a list) dict \<Rightarrow> bool" where
  "embeds d d' \<longleftrightarrow> list_all2 (\<lambda>p q. fst p = fst q \<and> subseq (snd p) (snd q)) d d'"

lemmas dict_defs [py_defs, evaluate] =
  dict_keys_def dict_getitem_def dict_setitem_def dict_append_def wf_dict_def

subsection \<open>Keys\<close>

lemma dict_keys_simps [simp]:
  "dict_keys [] = []"
  "dict_keys ((k, v) # d) = k # dict_keys d"
  by (simp_all add: dict_keys_def)

lemma dict_keys_append [simp]: "dict_keys (d @ d') = dict_keys d @ dict_keys d'"
  by (simp add: dict_keys_def)

lemma map_of_eq_None_keys: "map_of d k = None \<longleftrightarrow> k \<notin> set (dict_keys d)"
  by (simp add: dict_keys_def map_of_eq_None_iff)

lemma map_of_Some_keys [dest]: "map_of d k = Some v \<Longrightarrow> k \<in> set (dict_keys d)"
  by (auto simp: dict_keys_def dest!: map_of_SomeD intro: rev_image_eqI)

lemma map_of_keysE:
  assumes "k \<in> set (dict_keys d)"
  obtains v where "map_of d k = Some v"
  using assms by (cases "map_of d k") (auto simp: map_of_eq_None_keys)

lemma dict_keys_setitem [frame]:
  "dict_keys (dict_setitem k v d) =
     (if k \<in> set (dict_keys d) then dict_keys d else dict_keys d @ [k])"
  by (simp add: dict_keys_def dict_setitem_def update_keys)

lemma wf_dict_setitem [intro]: "wf_dict d \<Longrightarrow> wf_dict (dict_setitem k v d)"
  by (simp add: wf_dict_def dict_keys_def dict_setitem_def distinct_update)

lemma wf_dict_Nil [simp]: "wf_dict []"
  by (simp add: wf_dict_def)

subsection \<open>Reading and writing\<close>

lemma map_of_setitem [simp]:
  "map_of (dict_setitem k v d) k' = (if k' = k then Some v else map_of d k')"
  by (simp add: dict_setitem_def update_conv')

lemma dict_getitem_setitem [simp]:
  "dict_getitem (dict_setitem k v d) k' = (if k' = k then Return v else dict_getitem d k')"
  by (simp add: dict_getitem_def)

lemma dict_getitem_Return_iff [simp]: "dict_getitem d k = Return v \<longleftrightarrow> map_of d k = Some v"
  by (simp add: dict_getitem_def split: option.splits)

lemma dict_getitem_Raise_iff [simp]:
  "dict_getitem d k = Raise e \<longleftrightarrow> e = KeyError \<and> k \<notin> set (dict_keys d)"
  by (auto simp: dict_getitem_def map_of_eq_None_keys split: option.splits)

subsection \<open>Appending to the list under a key\<close>

lemma dict_append_Raise_iff [simp]:
  "dict_append k x d = Raise e \<longleftrightarrow> e = KeyError \<and> k \<notin> set (dict_keys d)"
  by (auto simp: dict_append_def split: sum.splits)

lemma dict_append_Return_iff:
  "dict_append k x d = Return d' \<longleftrightarrow>
     (\<exists>xs. map_of d k = Some xs \<and> d' = dict_setitem k (xs @ [x]) d)"
  by (auto simp: dict_append_def split: sum.splits)

lemma dict_append_present:
  assumes "k \<in> set (dict_keys d)"
  obtains d' where "dict_append k x d = Return d'"
  using assms by (cases "dict_append k x d") auto

lemma dict_append_keys [frame]:
  assumes "dict_append k x d = Return d'"
  shows "dict_keys d' = dict_keys d"
proof -
  from assms obtain xs where xs: "map_of d k = Some xs" and d': "d' = dict_setitem k (xs @ [x]) d"
    by (auto simp: dict_append_Return_iff)
  from xs have "k \<in> set (dict_keys d)" ..
  with d' show ?thesis by (simp add: dict_keys_setitem)
qed

lemma dict_append_map_of:
  assumes "dict_append k x d = Return d'"
  shows "map_of d' k' = (if k' = k then map_option (\<lambda>xs. xs @ [x]) (map_of d k) else map_of d k')"
  using assms by (auto simp: dict_append_Return_iff)

subsection \<open>The number of elements held\<close>

lemma sum_length_setitem:
  "map_of d k = Some xs \<Longrightarrow>
   sum_list (map (\<lambda>p. length (snd p)) (dict_setitem k ys d)) + length xs =
     sum_list (map (\<lambda>p. length (snd p)) d) + length ys"
  by (induction d) (auto simp: dict_setitem_def)

lemma sum_length_dict_append:
  assumes "dict_append k x d = Return d'"
  shows "sum_list (map (\<lambda>p. length (snd p)) d') = Suc (sum_list (map (\<lambda>p. length (snd p)) d))"
proof -
  from assms obtain xs where "map_of d k = Some xs" and "d' = dict_setitem k (xs @ [x]) d"
    by (auto simp: dict_append_Return_iff)
  with sum_length_setitem [of d k xs "xs @ [x]"] show ?thesis by simp
qed

lemma sum_length_setitem_Nil:
  "sum_list (map (\<lambda>p. length (snd p)) (dict_setitem k [] d)) \<le>
     sum_list (map (\<lambda>p. length (snd p)) d)"
  by (induction d) (auto simp: dict_setitem_def)

lemma list_all_setitem:
  "list_all P d \<Longrightarrow> P (k, v) \<Longrightarrow> list_all P (dict_setitem k v d)"
  by (induction d) (auto simp: dict_setitem_def)

subsection \<open>The append-only order\<close>

lemma grows_refl [simp, grow]: "grows d d"
  by (simp add: grows_def list_all2_same)

lemma grows_trans [trans]:
  assumes "grows d d'" and "grows d' d''"
  shows "grows d d''"
  unfolding grows_def
  by (rule list_all2_trans [OF _ assms(1) [unfolded grows_def] assms(2) [unfolded grows_def]])
    auto

lemma grows_keys: "grows d d' \<Longrightarrow> dict_keys d' = dict_keys d"
  unfolding grows_def dict_keys_def
  by (induction d d' rule: list_all2_induct) auto

lemma grows_map_of:
  "grows d d' \<Longrightarrow> map_of d k = Some xs \<Longrightarrow> \<exists>ys. map_of d' k = Some ys \<and> prefix xs ys"
  unfolding grows_def
  by (induction d d' rule: list_all2_induct) (auto split: if_splits)

lemma grows_setitem_append [grow]:
  "map_of d k = Some xs \<Longrightarrow> grows d (dict_setitem k (xs @ ys) d)"
  unfolding grows_def dict_setitem_def
  by (induction d) (auto simp: list_all2_same split: if_splits)

lemma grows_dict_append [grow]: "dict_append k x d = Return d' \<Longrightarrow> grows d d'"
  by (auto simp: dict_append_Return_iff intro: grows_setitem_append)

subsection \<open>The subsequence order\<close>

lemma embeds_refl [simp]: "embeds d d"
  by (simp add: embeds_def list_all2_same)

lemma embeds_keys: "embeds d d' \<Longrightarrow> dict_keys d' = dict_keys d"
  unfolding embeds_def dict_keys_def
  by (induction d d' rule: list_all2_induct) auto

lemma embeds_map_of:
  "embeds d d' \<Longrightarrow> map_of d k = Some xs \<Longrightarrow> \<exists>ys. map_of d' k = Some ys \<and> subseq xs ys"
  unfolding embeds_def
  by (induction d d' rule: list_all2_induct) (auto split: if_splits)

lemma grows_embeds: "grows d d' \<Longrightarrow> embeds d d'"
  unfolding grows_def embeds_def
  by (erule list_all2_mono) (auto simp: prefix_def)

end
