(* ===== verification/Py_Path.thy ===== *)
theory Py_Path
  imports Prelude
begin

text \<open>
  The string and path calls of the Python standard library that the candidate filter, the
  reference loader and the exporter of \<^verbatim>\<open>main.py\<close> rely on:
  \<^verbatim>\<open>str.lower\<close>, \<^verbatim>\<open>str.endswith\<close> with a tuple of suffixes,
  \<^verbatim>\<open>os.path.splitext\<close> and \<^verbatim>\<open>os.path.join\<close> (POSIX flavour, two
  arguments). A \<open>string\<close> is the UTF-8 byte sequence of the Python string, so only
  the ASCII letters change under \<open>str_lower\<close>; \<open>rfind\<close> returns an \<open>int\<close>
  with \<open>-1\<close> for "not found", as \<^verbatim>\<open>str.rfind\<close> does. The lemmas give the
  shape of an extension returned by \<open>splitext\<close> (empty, or one dot followed by
  characters that are neither a dot nor a separator), the round trip
  \<open>root @ ext = p\<close>, how a path that ends in a dot and a suffix without dot or
  separator splits (\<open>splitext_dot\<close>), and how \<open>endswith\<close> relates to the
  library's \<open>suffix\<close>.
\<close>

section \<open>Definitions\<close>

definition ascii_uppercase :: string where
  "ascii_uppercase = ''ABCDEFGHIJKLMNOPQRSTUVWXYZ''"

definition ascii_lowercase :: string where
  "ascii_lowercase = ''abcdefghijklmnopqrstuvwxyz''"

definition lower_char :: "char \<Rightarrow> char" where
  "lower_char c =
     (case map_of (zip ascii_uppercase ascii_lowercase) c of None \<Rightarrow> c | Some l \<Rightarrow> l)"

text \<open>\<^verbatim>\<open>s.lower()\<close>, on the ASCII letters.\<close>

definition str_lower :: "string \<Rightarrow> string" where
  "str_lower s = map lower_char s"

text \<open>\<^verbatim>\<open>s.endswith((suf1, suf2, ...))\<close>: some suffix of the tuple ends \<open>s\<close>.\<close>

definition endswith :: "string \<Rightarrow> string list \<Rightarrow> bool" where
  "endswith s sufs =
     list_ex (\<lambda>suf. length suf \<le> length s \<and> drop (length s - length suf) s = suf) sufs"

text \<open>\<^verbatim>\<open>s.rfind(c)\<close> for a one-character \<open>c\<close>: the highest index, or \<open>-1\<close>.\<close>

fun rfind :: "string \<Rightarrow> char \<Rightarrow> int" where
  "rfind [] c = - 1"
| "rfind (x # xs) c =
     (let r = rfind xs c in if 0 \<le> r then r + 1 else if x = c then 0 else - 1)"

text \<open>
  \<^verbatim>\<open>posixpath.splitext(p)\<close>: the extension starts at the last dot of the last path
  component, unless that component has only dots before it (a leading-dot name such as
  \<^verbatim>\<open>.bashrc\<close> has no extension).
\<close>

definition splitext :: "string \<Rightarrow> string \<times> string" where
  "splitext p =
     (let sepIndex = rfind p CHR ''/''; dotIndex = rfind p CHR ''.'' in
      if sepIndex < dotIndex then
        (let filenameIndex = sepIndex + 1 in
         if list_ex (\<lambda>c. c \<noteq> CHR ''.'')
              (take (nat (dotIndex - filenameIndex)) (drop (nat filenameIndex) p))
         then (take (nat dotIndex) p, drop (nat dotIndex) p)
         else (p, []))
      else (p, []))"

text \<open>\<^verbatim>\<open>posixpath.join(a, b)\<close>: an absolute \<open>b\<close> discards \<open>a\<close>.\<close>

definition path_join :: "string \<Rightarrow> string \<Rightarrow> string" where
  "path_join a b =
     (if take 1 b = ''/'' then b
      else if a = [] \<or> last a = CHR ''/'' then a @ b
      else a @ ''/'' @ b)"



text \<open>The last component of a path: what follows its last separator.\<close>

definition basename :: "string \<Rightarrow> string" where
  "basename p = drop (nat (rfind p CHR ''/'' + 1)) p"

lemmas path_defs [py_defs, evaluate] =
  ascii_uppercase_def ascii_lowercase_def lower_char_def str_lower_def endswith_def
  splitext_def path_join_def basename_def

section \<open>Lower case\<close>

lemma ascii_cases_disjoint: "set ascii_lowercase \<inter> set ascii_uppercase = {}"
  by (simp add: ascii_uppercase_def ascii_lowercase_def)

lemma length_ascii_cases: "length ascii_uppercase = length ascii_lowercase"
  by (simp add: ascii_uppercase_def ascii_lowercase_def)

lemma lower_char_cases:
  obtains (same) "c \<notin> set ascii_uppercase" "lower_char c = c"
  | (letter) "c \<in> set ascii_uppercase" "lower_char c \<in> set ascii_lowercase"
proof (cases "map_of (zip ascii_uppercase ascii_lowercase) c")
  case None
  then have "c \<notin> set ascii_uppercase"
    by (simp add: map_of_zip_is_None [OF length_ascii_cases])
  with None same show ?thesis by (simp add: lower_char_def)
next
  case (Some l)
  then have "(c, l) \<in> set (zip ascii_uppercase ascii_lowercase)"
    by (rule map_of_SomeD)
  then have "c \<in> set ascii_uppercase" and "l \<in> set ascii_lowercase"
    by (auto dest: set_zip_leftD set_zip_rightD)
  with Some letter show ?thesis by (simp add: lower_char_def)
qed

lemma lower_char_fixed: "c \<notin> set ascii_uppercase \<Longrightarrow> lower_char c = c"
  by (cases c rule: lower_char_cases) auto

lemma lower_char_idem [simp]: "lower_char (lower_char c) = lower_char c"
  using ascii_cases_disjoint by (cases c rule: lower_char_cases) (auto intro: lower_char_fixed)

lemma lower_char_eq_nonletter:
  assumes "d \<notin> set ascii_uppercase" and "d \<notin> set ascii_lowercase"
  shows "lower_char c = d \<longleftrightarrow> c = d"
  using assms by (cases c rule: lower_char_cases) auto

lemma lower_char_dot [simp]: "lower_char c = CHR ''.'' \<longleftrightarrow> c = CHR ''.''"
  by (rule lower_char_eq_nonletter) (simp_all add: ascii_uppercase_def ascii_lowercase_def)

lemma lower_char_sep [simp]: "lower_char c = CHR ''/'' \<longleftrightarrow> c = CHR ''/''"
  by (rule lower_char_eq_nonletter) (simp_all add: ascii_uppercase_def ascii_lowercase_def)

lemma str_lower_simps [simp]:
  "str_lower [] = []"
  "str_lower (c # s) = lower_char c # str_lower s"
  "str_lower (s @ t) = str_lower s @ str_lower t"
  "length (str_lower s) = length s"
  by (simp_all add: str_lower_def)

lemma str_lower_idem [simp]: "str_lower (str_lower s) = str_lower s"
  by (simp add: str_lower_def)


lemma lower_char_dot_self [simp]: "lower_char CHR ''.'' = CHR ''.''" "lower_char CHR ''/'' = CHR ''/''"
  by (simp_all add: lower_char_fixed ascii_uppercase_def)

lemma str_lower_member: "c \<in> set s \<Longrightarrow> lower_char c \<in> set (str_lower s)"
  by (simp add: str_lower_def)

lemma str_lower_eq_Cons: "str_lower s = c # t \<longleftrightarrow> (\<exists>d u. s = d # u \<and> lower_char d = c \<and> str_lower u = t)"
  by (cases s) auto

section \<open>Suffix tests\<close>

lemma suffix_iff_drop:
  "suffix suf s \<longleftrightarrow> length suf \<le> length s \<and> drop (length s - length suf) s = suf"
proof
  assume "suffix suf s"
  then obtain zs where "s = zs @ suf" by (auto simp: suffix_def)
  then show "length suf \<le> length s \<and> drop (length s - length suf) s = suf" by simp
next
  assume "length suf \<le> length s \<and> drop (length s - length suf) s = suf"
  then have "suf = drop (length s - length suf) s" by simp
  then show "suffix suf s" by (metis suffix_drop)
qed

lemma endswith_iff: "endswith s sufs \<longleftrightarrow> (\<exists>suf \<in> set sufs. suffix suf s)"
  by (simp add: endswith_def list_ex_iff suffix_iff_drop)

lemma suffix_str_lower_iff:
  "suffix suf (str_lower s) \<longleftrightarrow> (\<exists>stem ext. s = stem @ ext \<and> str_lower ext = suf)"
  by (auto simp: suffix_def str_lower_def map_eq_append_conv)

section \<open>Searching from the right\<close>

lemma rfind_neg_iff: "rfind s c < 0 \<longleftrightarrow> c \<notin> set s"
  by (induction s) (auto simp: Let_def)

lemma rfind_bounds: "- 1 \<le> rfind s c \<and> rfind s c < int (length s)"
  by (induction s) (auto simp: Let_def)

lemma rfind_notin: "c \<notin> set s \<Longrightarrow> rfind s c = - 1"
  by (induction s) (auto simp: Let_def)

lemma rfind_in: "c \<in> set s \<Longrightarrow> 0 \<le> rfind s c"
  using rfind_neg_iff [of s c] by simp

lemma rfind_append:
  "rfind (pre @ post) c =
     (if c \<in> set post then int (length pre) + rfind post c else rfind pre c)"
proof (induction pre)
  case Nil
  then show ?case by (simp add: rfind_notin)
next
  case (Cons x pre)
  then show ?case using rfind_in [of c post] by (auto simp: Let_def)
qed

lemma rfind_Cons_last: "c \<notin> set post \<Longrightarrow> rfind (c # post) c = 0"
  by (simp add: Let_def rfind_neg_iff not_le)

lemma rfind_append_Cons: "c \<notin> set post \<Longrightarrow> rfind (pre @ c # post) c = int (length pre)"
  by (simp add: rfind_append rfind_Cons_last del: rfind.simps)

lemma rfind_decomp:
  assumes "0 \<le> rfind s c"
  obtains pre post where "s = pre @ c # post" and "c \<notin> set post"
    and "rfind s c = int (length pre)"
proof -
  from assms have "c \<in> set s"
    using rfind_neg_iff [of s c] by simp
  then obtain pre post where "s = pre @ c # post" and "c \<notin> set post"
    by (auto dest: split_list_last)
  then show ?thesis using that by (simp add: rfind_append_Cons del: rfind.simps)
qed

lemma rfind_take:
  assumes "rfind p c < int n"
  shows "rfind (take n p) c = rfind p c"
proof (cases "0 \<le> rfind p c")
  case True
  then obtain pre post where p: "p = pre @ c # post" and post: "c \<notin> set post"
    and r: "rfind p c = int (length pre)"
    by (rule rfind_decomp)
  from assms r have "length pre < n" by simp
  then have "take n p = pre @ c # take (n - Suc (length pre)) post"
    by (simp add: p take_Cons')
  moreover from post have "c \<notin> set (take (n - Suc (length pre)) post)"
    by (auto dest: in_set_takeD)
  ultimately show ?thesis
    using r by (simp add: rfind_append_Cons del: rfind.simps)
next
  case False
  then have "c \<notin> set p" using rfind_neg_iff [of p c] by simp
  then have "c \<notin> set (take n p)" by (auto dest: in_set_takeD)
  with \<open>c \<notin> set p\<close> show ?thesis by (simp add: rfind_notin)
qed

section \<open>Splitting off the extension\<close>

lemma splitext_append [simp]: "fst (splitext p) @ snd (splitext p) = p"
  by (simp add: splitext_def Let_def)

lemma splitext_suffix: "suffix (snd (splitext p)) p"
  by (metis splitext_append suffixI)

lemma splitext_ext_shape:
  assumes "snd (splitext p) \<noteq> []"
  obtains e where "snd (splitext p) = CHR ''.'' # e"
    and "CHR ''.'' \<notin> set e" and "CHR ''/'' \<notin> set e"
proof -
  let ?dot = "rfind p CHR ''.''" and ?sep = "rfind p CHR ''/''"
  from assms have lt: "?sep < ?dot" and ext: "snd (splitext p) = drop (nat ?dot) p"
    by (auto simp: splitext_def Let_def split: if_splits)
  from lt rfind_bounds [of p "CHR ''/''"] have "0 \<le> ?dot" by simp
  then obtain pre post where p: "p = pre @ CHR ''.'' # post" and nodot: "CHR ''.'' \<notin> set post"
    and dot: "?dot = int (length pre)"
    by (rule rfind_decomp)
  have "CHR ''/'' \<notin> set post"
  proof
    assume "CHR ''/'' \<in> set post"
    then have "int (length pre) + 1 + rfind post CHR ''/'' = ?sep"
      by (simp add: p rfind_append [of "pre @ [CHR ''.'']" post, simplified])
    moreover from \<open>CHR ''/'' \<in> set post\<close> have "0 \<le> rfind post CHR ''/''"
      using rfind_neg_iff [of post "CHR ''/''"] by simp
    ultimately show False using lt dot by simp
  qed
  with that [of post] ext dot p nodot show ?thesis by simp
qed

lemma splitext_Some:
  assumes "snd (splitext p) \<noteq> []"
  shows "list_ex (\<lambda>c. c \<noteq> CHR ''.'') (basename (fst (splitext p)))"
proof -
  let ?dot = "rfind p CHR ''.''" and ?sep = "rfind p CHR ''/''"
  from assms have lt: "?sep < ?dot"
    and ex: "list_ex (\<lambda>c. c \<noteq> CHR ''.'') (take (nat (?dot - (?sep + 1))) (drop (nat (?sep + 1)) p))"
    and stem: "fst (splitext p) = take (nat ?dot) p"
    by (auto simp: splitext_def Let_def split: if_splits)
  from lt rfind_bounds [of p "CHR ''/''"] have "?sep < int (nat ?dot)" by simp
  then have "rfind (take (nat ?dot) p) CHR ''/'' = ?sep"
    by (rule rfind_take)
  moreover have "drop (nat (?sep + 1)) (take (nat ?dot) p) =
      take (nat (?dot - (?sep + 1))) (drop (nat (?sep + 1)) p)"
    using lt rfind_bounds [of p "CHR ''/''"] by (simp add: drop_take nat_diff_distrib)
  ultimately show ?thesis
    using ex by (simp add: stem basename_def)
qed

lemma splitext_dot:
  assumes "CHR ''.'' \<notin> set e" and "CHR ''/'' \<notin> set e"
  shows "splitext (stem @ CHR ''.'' # e) =
     (if list_ex (\<lambda>c. c \<noteq> CHR ''.'') (basename stem) then (stem, CHR ''.'' # e)
      else (stem @ CHR ''.'' # e, []))"
proof -
  let ?p = "stem @ CHR ''.'' # e"
  from assms(1) have dot: "rfind ?p CHR ''.'' = int (length stem)"
    by (rule rfind_append_Cons)
  from assms(2) have sep: "rfind ?p CHR ''/'' = rfind stem CHR ''/''"
    by (simp add: rfind_append del: rfind.simps)
  from rfind_bounds [of stem "CHR ''/''"]
  have b: "- 1 \<le> rfind stem CHR ''/''" "rfind stem CHR ''/'' < int (length stem)"
    by simp_all
  then have "take (nat (int (length stem) - (rfind stem CHR ''/'' + 1)))
      (drop (nat (rfind stem CHR ''/'' + 1)) ?p) = basename stem"
    by (simp add: basename_def nat_diff_distrib)
  with b show ?thesis
    by (simp add: splitext_def Let_def dot sep del: rfind.simps)
qed

lemma splitext_stem_ext:
  assumes "CHR ''.'' \<notin> set e" and "CHR ''/'' \<notin> set e"
    and "list_ex (\<lambda>c. c \<noteq> CHR ''.'') (basename stem)"
  shows "splitext (stem @ CHR ''.'' # e) = (stem, CHR ''.'' # e)"
  using assms by (simp add: splitext_dot)

section \<open>Joining\<close>

lemma path_join_suffix: "suffix b (path_join a b)"
  by (simp add: path_join_def suffix_def)

lemma path_join_inject:
  assumes "take 1 b \<noteq> ''/''" and "take 1 b' \<noteq> ''/''"
  shows "path_join a b = path_join a b' \<longleftrightarrow> b = b'"
  using assms by (auto simp: path_join_def)

end
