(* ===== verification/Imaging.thy ===== *)
theory Imaging
  imports Prelude
begin

text \<open>
  The image library as \<^verbatim>\<open>main.py\<close> sees it. The program never looks inside an
  image: it obtains images from \<^verbatim>\<open>PIL.Image.open\<close>, hands two of them to
  \<^verbatim>\<open>ImageChops.difference\<close>, turns the difference into an array with
  \<^verbatim>\<open>numpy.array\<close>, takes \<^verbatim>\<open>numpy.mean\<close> of it and writes matched
  candidates with \<^verbatim>\<open>Image.save\<close>. The record \<open>pil\<close> is that interface, over
  an arbitrary type of images; every call that can raise returns an \<open>outcome\<close>. What
  the program itself computes on is concrete: the array of 8-bit samples (\<open>byte list\<close>,
  the shape is irrelevant to a mean over all axes), its mean \<open>np_mean\<close> as a
  \<open>float64\<close> and the comparison \<open>float_lt\<close> with the integer threshold.
  \<^verbatim>\<open>ImageChops.difference\<close> accepts images of 8-bit samples only, so the
  array of a difference holds 8-bit samples, or the booleans of a bilevel image, which
  are the samples 0 and 1 here.

  \<open>float64\<close> idealises IEEE doubles by exact rationals plus \<open>NaN\<close>, the mean of an
  empty array. The sum of fewer than \<open>2^45\<close> samples is below \<open>2^53\<close> and therefore
  exact in a double, and for such arrays the correctly rounded quotient compares with an
  integer threshold as the exact quotient does unless the exact mean lies within one unit
  in the last place of the threshold; the model decides every comparison exactly.

  Every call of the interface is a function of its arguments: the image library and the
  files it reads do not change while the program runs. In particular, whether a save
  raises depends on the image and the path only, so a candidate that was saved once is
  saved again without an exception.

  \<open>grid_pil\<close> is the codec of the specification (a decoded image is its grid of
  8-bit samples, here flattened): the difference is the sample-wise absolute difference,
  and two images of different dimensions are not compared, the difference raises and the
  candidate is skipped, which is the policy the specification sets. This is not what
  Pillow does: for two images of the same mode \<^verbatim>\<open>ImageChops.difference\<close>
  returns the difference on the region that both images cover, and it raises
  \<^verbatim>\<open>ValueError\<close> when the numbers of bands differ. \<open>grid_pil\<close>
  instantiates the interface for the theorem about identical images and for the
  witnesses; no property of the development rests on what it does with two images of
  different dimensions.
\<close>

section \<open>Definitions\<close>

text \<open>The result of \<^verbatim>\<open>numpy.mean\<close>.\<close>

datatype float64 = NaN | Finite rat

text \<open>\<^verbatim>\<open>numpy.mean\<close> of an array of \<^verbatim>\<open>uint8\<close>, over all of its elements.\<close>

definition np_mean :: "byte list \<Rightarrow> float64" where
  "np_mean a =
     (if a = [] then NaN
      else Finite (of_nat (sum_list (map unat a)) / of_nat (length a)))"

text \<open>\<^verbatim>\<open>mean_diff < similarity_threshold\<close>; any comparison with \<open>NaN\<close> is false.\<close>

fun float_lt :: "float64 \<Rightarrow> int \<Rightarrow> bool" where
  "float_lt NaN t = False"
| "float_lt (Finite q) t = (q < of_int t)"

text \<open>
  The calls into Pillow and numpy. \<open>Image_open\<close> reads a path of the local file
  system, \<open>Image_open_bytes\<close> a \<^verbatim>\<open>BytesIO\<close>; \<open>Image_save img path\<close> is
  the exception \<^verbatim>\<open>img.save(path)\<close> raises, if it raises.
\<close>

record 'img pil =
  Image_open :: "string \<Rightarrow> 'img outcome"
  Image_open_bytes :: "byte list \<Rightarrow> 'img outcome"
  ImageChops_difference :: "'img \<Rightarrow> 'img \<Rightarrow> 'img outcome"
  np_array :: "'img \<Rightarrow> byte list"
  Image_save :: "'img \<Rightarrow> string \<Rightarrow> exn option"

text \<open>The pixel-grid codec.\<close>

type_synonym grid = "byte list"

definition absdiff :: "byte \<Rightarrow> byte \<Rightarrow> byte" where
  "absdiff x y = (if x \<le> y then y - x else x - y)"

definition grid_difference :: "grid \<Rightarrow> grid \<Rightarrow> grid outcome" where
  "grid_difference a b =
     (if length a \<noteq> length b then Raise ValueError else Return (map2 absdiff a b))"

definition grid_open_bytes :: "byte list \<Rightarrow> grid outcome" where
  "grid_open_bytes content =
     (if content = [] then Raise UnidentifiedImageError else Return content)"

definition grid_pil :: "(string \<Rightarrow> grid outcome) \<Rightarrow> (string \<Rightarrow> bool) \<Rightarrow> grid pil" where
  "grid_pil local writable =
     \<lparr>Image_open = local,
      Image_open_bytes = grid_open_bytes,
      ImageChops_difference = grid_difference,
      np_array = (\<lambda>img. img),
      Image_save = (\<lambda>img path. if writable path then None else Some OSError)\<rparr>"

lemmas imaging_defs [py_defs, evaluate] =
  np_mean_def absdiff_def grid_difference_def grid_open_bytes_def grid_pil_def

section \<open>Mean of an array of 8-bit samples\<close>

lemma unat_byte_le: "unat (x :: byte) \<le> 255"
  using unsigned_less [of x, where 'a = nat] by simp

lemma sum_list_unat_le: "sum_list (map unat (a :: byte list)) \<le> 255 * length a"
  by (induction a) (auto intro: add_mono unat_byte_le)

lemma np_mean_eq_NaN [simp]: "np_mean a = NaN \<longleftrightarrow> a = []"
  by (simp add: np_mean_def)

lemma np_mean_Finite:
  "np_mean a = Finite q \<longleftrightarrow> a \<noteq> [] \<and> q = of_nat (sum_list (map unat a)) / of_nat (length a)"
  by (auto simp: np_mean_def)

lemma np_mean_range:
  assumes "np_mean a = Finite q"
  shows "0 \<le> q \<and> q \<le> 255"
proof -
  from assms have ne: "a \<noteq> []"
    and q: "q = of_nat (sum_list (map unat a)) / of_nat (length a)"
    by (simp_all add: np_mean_Finite)
  have "(of_nat (sum_list (map unat a)) :: rat) \<le> of_nat (255 * length a)"
    using sum_list_unat_le [of a] by (simp only: of_nat_le_iff)
  with ne q show ?thesis by (simp add: divide_le_eq)
qed

lemma sum_list_unat_zero: "sum_list (map unat (a :: byte list)) = 0 \<longleftrightarrow> list_all (\<lambda>x. x = 0) a"
  by (induction a) (auto simp: unat_eq_0)

lemma np_mean_zero_iff: "np_mean a = Finite 0 \<longleftrightarrow> a \<noteq> [] \<and> list_all (\<lambda>x. x = 0) a"
  by (auto simp: np_mean_Finite sum_list_unat_zero [symmetric])

section \<open>Comparison with the threshold\<close>

lemma float_lt_mono: "t \<le> t' \<Longrightarrow> float_lt m t \<Longrightarrow> float_lt m t'"
  by (cases m) (auto elim: less_le_trans)

lemma float_lt_irrefl [simp]: "\<not> float_lt (Finite (of_int t)) t"
  by simp

lemma float_lt_np_mean_nonpos: "t \<le> 0 \<Longrightarrow> \<not> float_lt (np_mean a) t"
proof (cases "np_mean a")
  case NaN
  then show ?thesis by (simp del: np_mean_eq_NaN)
next
  case (Finite q)
  assume "t \<le> 0"
  then have "(of_int t :: rat) \<le> 0" by simp
  with np_mean_range [OF Finite] Finite show ?thesis by simp
qed

lemma float_lt_np_mean_large: "255 < t \<Longrightarrow> a \<noteq> [] \<Longrightarrow> float_lt (np_mean a) t"
proof (cases "np_mean a")
  case NaN
  assume "a \<noteq> []"
  with NaN show ?thesis by simp
next
  case (Finite q)
  assume "255 < t"
  then have "(255 :: rat) < of_int t" by linarith
  with np_mean_range [OF Finite] Finite show ?thesis by simp
qed

section \<open>The pixel-grid codec\<close>

lemma absdiff_self [simp]: "absdiff x x = 0"
  by (simp add: absdiff_def)

lemma absdiff_commute: "absdiff x y = absdiff y x"
  by (auto simp: absdiff_def)

lemma absdiff_eq_0 [simp]: "absdiff x y = 0 \<longleftrightarrow> x = y"
  by (auto simp: absdiff_def)

lemma map2_absdiff_self: "list_all (\<lambda>x. x = 0) (map2 absdiff a a)"
  by (induction a) auto

lemma map2_absdiff_commute: "map2 absdiff a b = map2 absdiff b a"
proof (induction a arbitrary: b)
  case Nil
  then show ?case by simp
next
  case (Cons x a)
  then show ?case by (cases b) (simp_all add: absdiff_commute)
qed

lemma map2_absdiff_zero:
  "length a = length b \<Longrightarrow> list_all (\<lambda>x. x = 0) (map2 absdiff a b) \<longleftrightarrow> a = b"
  by (induction a b rule: list_induct2) auto

lemma grid_difference_commute: "grid_difference a b = grid_difference b a"
  by (auto simp: grid_difference_def map2_absdiff_commute)

lemma grid_pil_simps [simp]:
  "Image_open (grid_pil local writable) = local"
  "Image_open_bytes (grid_pil local writable) = grid_open_bytes"
  "ImageChops_difference (grid_pil local writable) = grid_difference"
  "np_array (grid_pil local writable) = (\<lambda>img. img)"
  "Image_save (grid_pil local writable) = (\<lambda>img path. if writable path then None else Some OSError)"
  by (simp_all add: grid_pil_def)

end
