(* ===== verification/Scorer.thy ===== *)
theory Scorer
  imports Imaging
begin

text \<open>
  The Similarity Scorer: \<^verbatim>\<open>img_similarity_check\<close> of \<^verbatim>\<open>main.py\<close>, line for
  line, over the interface \<open>pil\<close>. \<open>score\<close> is its contract (the mean absolute
  difference of candidate and reference, or the exception of the difference), and
  \<open>img_similarity_check_score\<close> says that the function returns that score together
  with its strict comparison against the threshold. The theorems are the properties of
  the comparison (strictness, monotonicity in the threshold, the range of a score) for
  every image library, and the properties of scores (identical images, symmetry) for the
  pixel-grid codec.
\<close>

section \<open>Definitions\<close>

text \<open>The contract: what the comparison of a candidate with a reference yields.\<close>

definition score :: "'img pil \<Rightarrow> 'img \<Rightarrow> 'img \<Rightarrow> float64 outcome" where
  "score pil candidate reference =
     (case ImageChops_difference pil reference candidate of
        Inl e \<Rightarrow> Raise e
      | Inr diff \<Rightarrow> Return (np_mean (np_array pil diff)))"

text \<open>\<^verbatim>\<open>img_similarity_check(img1, img2, similarity_threshold)\<close>.\<close>

definition img_similarity_check ::
  "'img pil \<Rightarrow> 'img \<Rightarrow> 'img \<Rightarrow> int \<Rightarrow> (bool \<times> float64) outcome" where
  "img_similarity_check pil img1 img2 similarity_threshold =
     (case ImageChops_difference pil img2 img1 of
        Inl e \<Rightarrow> Raise e
      | Inr diff \<Rightarrow>
          (let diff_array = np_array pil diff;
               mean_diff = np_mean diff_array;
               is_similar = float_lt mean_diff similarity_threshold
           in Return (is_similar, mean_diff)))"

lemmas scorer_defs [evaluate] = score_def img_similarity_check_def

section \<open>The check against the score\<close>

lemma img_similarity_check_score:
  "img_similarity_check pil img1 img2 t =
     (case score pil img1 img2 of
        Inl e \<Rightarrow> Raise e
      | Inr mean_diff \<Rightarrow> Return (float_lt mean_diff t, mean_diff))"
  by (simp add: img_similarity_check_def score_def split: sum.splits)

lemma img_similarity_check_Raise_iff [simp]:
  "img_similarity_check pil img1 img2 t = Raise e \<longleftrightarrow> score pil img1 img2 = Raise e"
  by (simp add: img_similarity_check_score split: sum.splits)

lemma img_similarity_check_Return_iff:
  "img_similarity_check pil img1 img2 t = Return (is_similar, mean_diff) \<longleftrightarrow>
     score pil img1 img2 = Return mean_diff \<and> is_similar = float_lt mean_diff t"
  by (auto simp: img_similarity_check_score split: sum.splits)

lemma score_range:
  assumes "score pil img1 img2 = Return (Finite q)"
  shows "0 \<le> q \<and> q \<le> 255"
  using assms by (auto simp: score_def split: sum.splits dest: np_mean_range)

lemma similarity_monotone:
  assumes "t \<le> t'" and "img_similarity_check pil img1 img2 t = Return (True, mean_diff)"
  shows "img_similarity_check pil img1 img2 t' = Return (True, mean_diff)"
  using assms by (auto simp: img_similarity_check_Return_iff intro: float_lt_mono)

lemma score_threshold_nonpos:
  "t \<le> 0 \<Longrightarrow> score pil img1 img2 = Return m \<Longrightarrow> \<not> float_lt m t"
  by (auto simp: score_def split: sum.splits dest: float_lt_np_mean_nonpos)

section \<open>Scores of the pixel-grid codec\<close>

lemma score_grid:
  "score (grid_pil local writable) a b =
     (if length a \<noteq> length b then Raise ValueError else Return (np_mean (map2 absdiff a b)))"
  by (auto simp: score_def grid_difference_def map2_absdiff_commute)

lemma score_grid_self: "a \<noteq> [] \<Longrightarrow> score (grid_pil local writable) a a = Return (Finite 0)"
  by (simp add: score_grid np_mean_zero_iff map2_absdiff_self)

lemma score_grid_zero_iff:
  "score (grid_pil local writable) a b = Return (Finite 0) \<longleftrightarrow> a = b \<and> a \<noteq> []"
  by (auto simp: score_grid np_mean_zero_iff map2_absdiff_zero map2_absdiff_self)

lemma score_grid_commute: "score (grid_pil local writable) a b = score (grid_pil local writable) b a"
  by (auto simp: score_grid map2_absdiff_commute)

section \<open>Properties of the check\<close>

text \<open>
  \<^bold>\<open>C3\<close> (identical images). For the pixel-grid codec, comparing a non-empty image
  with an identical copy of itself yields a mean difference of exactly 0, and the image
  counts as similar exactly when the threshold is positive.
\<close>

theorem identical_images_score_zero:
  assumes "img \<noteq> []"
  shows "img_similarity_check (grid_pil local writable) img img t = Return (0 < t, Finite 0)"
  using assms by (simp add: img_similarity_check_score score_grid_self)

theorem identical_images_score_zero_witness:
  "[10, 20, 30, 40] \<noteq> ([] :: grid) \<and>
   img_similarity_check (grid_pil (\<lambda>path. Raise OSError) (\<lambda>path. True))
     [10, 20, 30, 40] [10, 20, 30, 40] 10 = Return (True, Finite 0)"
  using identical_images_score_zero [of "[10, 20, 30, 40]" "\<lambda>path. Raise OSError" "\<lambda>path. True" 10]
  by simp

text \<open>
  \<^bold>\<open>C4\<close> (strict threshold). Whatever the image library computes, a comparison whose
  mean difference equals the threshold exactly does not count as similar: the test is
  \<^verbatim>\<open>mean_diff < similarity_threshold\<close>.
\<close>

theorem threshold_is_strict:
  assumes "img_similarity_check pil img1 img2 t = Return (is_similar, mean_diff)"
    and "mean_diff = Finite (of_int t)"
  shows "\<not> is_similar"
  using assms by (simp add: img_similarity_check_Return_iff)

theorem threshold_is_strict_witness:
  "img_similarity_check (grid_pil (\<lambda>path. Raise OSError) (\<lambda>path. True))
     [10, 20, 30, 40] [13, 23, 33, 43] 3 = Return (False, Finite 3) \<and>
   Finite 3 = Finite (of_int 3) \<and> \<not> False"
proof -
  have run: "img_similarity_check (grid_pil (\<lambda>path. Raise OSError) (\<lambda>path. True))
      [10, 20, 30, 40] [13, 23, 33, 43] 3 = Return (False, Finite 3)"
    by (simp add: img_similarity_check_score score_grid np_mean_def absdiff_def)
  with threshold_is_strict [OF run] show ?thesis by simp
qed

text \<open>
  \<^bold>\<open>C38\<close> (range of a score). A mean difference that is not \<open>NaN\<close> lies between 0
  and 255, the range of an 8-bit sample, whatever the image library.
\<close>

theorem mean_diff_range:
  assumes "img_similarity_check pil img1 img2 t = Return (is_similar, Finite q)"
  shows "0 \<le> q \<and> q \<le> 255"
  using assms by (auto simp: img_similarity_check_Return_iff dest: score_range)

theorem mean_diff_range_witness:
  "img_similarity_check (grid_pil (\<lambda>path. Raise OSError) (\<lambda>path. True))
     [0, 0] [255, 254] 10 = Return (False, Finite (509 / 2)) \<and>
   (0 :: rat) \<le> 509 / 2 \<and> (509 / 2 :: rat) \<le> 255"
proof -
  have run: "img_similarity_check (grid_pil (\<lambda>path. Raise OSError) (\<lambda>path. True))
      [0, 0] [255, 254] 10 = Return (False, Finite (509 / 2))"
    by (simp add: img_similarity_check_score score_grid np_mean_def absdiff_def)
  with mean_diff_range [OF run] show ?thesis by simp
qed

text \<open>
  \<^bold>\<open>C39\<close> (thresholds that match nothing). With a threshold of 0 or below no
  comparison counts as similar, since a mean of absolute differences is never negative.
\<close>

theorem nonpositive_threshold_never_similar:
  assumes "t \<le> 0" and "img_similarity_check pil img1 img2 t = Return (is_similar, mean_diff)"
  shows "\<not> is_similar"
  using assms by (auto simp: img_similarity_check_Return_iff dest: score_threshold_nonpos)

theorem nonpositive_threshold_never_similar_witness:
  "(0 :: int) \<le> 0 \<and>
   img_similarity_check (grid_pil (\<lambda>path. Raise OSError) (\<lambda>path. True))
     [10, 20] [10, 20] 0 = Return (False, Finite 0) \<and> \<not> False"
proof -
  have run: "img_similarity_check (grid_pil (\<lambda>path. Raise OSError) (\<lambda>path. True))
      [10, 20] [10, 20] 0 = Return (False, Finite 0)"
    by (simp add: img_similarity_check_score score_grid np_mean_def absdiff_def)
  with nonpositive_threshold_never_similar [OF order_refl run] show ?thesis by simp
qed

text \<open>
  \<^bold>\<open>Symmetry.\<close> For the pixel-grid codec the check does not depend on which of
  the two images is the candidate and which the reference.
\<close>

theorem grid_check_commute:
  "img_similarity_check (grid_pil local writable) a b t =
   img_similarity_check (grid_pil local writable) b a t"
  by (simp add: img_similarity_check_score score_grid_commute)

end
