(* ===== verification/State.thy ===== *)
theory State
  imports Imaging
begin

text \<open>
  The state a scan changes, as the record \<open>state\<close>: the dictionary \<open>result\<close> that
  \<^verbatim>\<open>main.py\<close> creates and passes down (reference name to the list of
  \<^verbatim>\<open>(location, mean_diff)\<close> tuples), what was printed (\<open>stdout\<close>, one \<open>msg\<close>
  per \<^verbatim>\<open>print\<close> call, in order) and the files written to the output folder
  (\<open>files\<close>, path to image; writing a path again replaces the image). The field
  \<open>files\<close> is a record of the saves that returned, kept beside the program: the
  program never reads it, and whether a save raises is decided by the interface
  \<open>pil\<close>, not by this field.
  \<open>match_count\<close> and \<open>report_count\<close> count what the final report lists and what
  was announced while scanning.
\<close>

section \<open>Definitions\<close>

text \<open>
  What the program prints, one constructor per \<^verbatim>\<open>print\<close> call, in the order of
  the source (lines 57, 71 to 73, 76, 80, 81, 121, 127 to 129, 155, 194, 205, 207, 212 and
  214; the two lines that print the error and the traceback occur twice):
  \<open>ErrorDetails e\<close> is the line
  \<^verbatim>\<open>Error Details: {e}\<close> and \<open>Traceback e\<close> the printed traceback,
  \<open>Usage prog\<close> the usage line with \<^verbatim>\<open>sys.argv[0]\<close>, \<open>Stat loc diff\<close>
  a line of the final report.
\<close>

datatype msg =
    FileSystemParseCompleted
  | ErrorWhileLoadingImage
  | ErrorDetails exn
  | Traceback exn
  | ReferenceImagesLoadingCompleted
  | DiskRootDirectoryLoadingCompleted
  | StartScanning
  | SimilarImageIdentified
  | ErrorWhileComparingImage string
  | Usage string
  | MissingRequiredParameters
  | FinalReport
  | NoSimilarImagesIdentified
  | ForReferenceImage string
  | Stat string float64

text \<open>\<^verbatim>\<open>res_tuple = (file_entry.path_spec.location, mean_diff)\<close>.\<close>

type_synonym res_tuple = "string \<times> float64"

record 'img state =
  result :: "(string, res_tuple list) dict"
  stdout :: "msg list"
  files :: "(string, 'img) dict"

text \<open>
  The state at the start of the program: \<^verbatim>\<open>result = {}\<close>, nothing printed and
  nothing exported.
\<close>

definition initial :: "'img state" where
  "initial = \<lparr>result = [], stdout = [], files = []\<rparr>"

definition py_print :: "msg list \<Rightarrow> 'img state \<Rightarrow> 'img state" where
  "py_print ms s = s\<lparr>stdout := stdout s @ ms\<rparr>"

text \<open>
  The number of tuples the result holds, and the number of
  \<^verbatim>\<open>Similar image identified!\<close> lines printed.
\<close>

definition match_count :: "'img state \<Rightarrow> nat" where
  "match_count s = sum_list (map (\<lambda>p. length (snd p)) (result s))"

definition report_count :: "'img state \<Rightarrow> nat" where
  "report_count s = count_list (stdout s) SimilarImageIdentified"

lemmas state_defs [evaluate] = initial_def py_print_def match_count_def report_count_def

section \<open>Lemmas\<close>

lemma py_print_simps [simp]:
  "result (py_print ms s) = result s"
  "stdout (py_print ms s) = stdout s @ ms"
  "files (py_print ms s) = files s"
  by (simp_all add: py_print_def)

lemma count_simps [simp]:
  "match_count (py_print ms s) = match_count s"
  "match_count (s\<lparr>files := fs\<rparr>) = match_count s"
  "report_count (s\<lparr>files := fs\<rparr>) = report_count s"
  "report_count (s\<lparr>result := d\<rparr>) = report_count s"
  "report_count (py_print ms s) = report_count s + count_list ms SimilarImageIdentified"
  by (simp_all add: match_count_def report_count_def py_print_def)

lemma match_count_enter:
  "match_count (s\<lparr>result := dict_setitem k [] (result s)\<rparr>) \<le> match_count s"
  by (simp add: match_count_def sum_length_setitem_Nil)

end
