(* ===== verification/Vfs.thy ===== *)
theory Vfs
  imports Prelude
begin

text \<open>
  The virtual file system provider (dfvfs) as \<^verbatim>\<open>main.py\<close> uses it: a
  \<open>file_system\<close> yields its root entry, a \<open>file_entry\<close> has a name, a location
  (\<^verbatim>\<open>path_spec.location\<close>), says whether it is a directory, opens its content and
  lists its sub-entries; \<open>host\<close> is where a file system and the listing of a local
  folder come from. Every call that can fail carries its failure: fetching the root entry
  raises or returns no entry, opening the
  content raises or returns no object, reading the object raises, and the generator
  \<^verbatim>\<open>sub_file_entries\<close> yields the entries of \<open>sub_file_entries\<close> and then
  raises \<open>sub_error\<close>, if that is not \<open>None\<close>. A \<open>file_entry\<close> is a finite
  tree: the provider is assumed acyclic and finite, as the specification assumes.

  \<open>walk\<close> is the Filesystem Tree Walker as a sequence: the leaf entries in depth-first
  order, children in the provider's order, up to the first listing error, and that error.
  \<open>leaves\<close> is the same sequence with listing errors ignored, \<open>readable\<close> says that
  no directory of the tree fails to list, and \<open>walk_stack\<close> is the walker with an
  explicit work-list that the specification asks for. The lemmas relate the three.
\<close>

section \<open>Definitions\<close>

datatype file_object = FileObject (read: "byte list outcome")

datatype file_entry = FileEntry
  (name: string)
  (location: string)
  (IsDirectory: bool)
  (GetFileObject: "file_object option outcome")
  (sub_file_entries: "file_entry list")
  (sub_error: "exn option")

text \<open>
  \<^verbatim>\<open>GetRootFileEntry()\<close> raises, returns the root entry, or returns \<^verbatim>\<open>None\<close>
  when the provider finds no entry at the root location.
\<close>

datatype file_system = FileSystem (GetRootFileEntry: "file_entry option outcome")

text \<open>
  The calls into the environment that are not image operations: opening the file system
  of a disk image, given by its path, \<^verbatim>\<open>os.listdir\<close>, and
  \<^verbatim>\<open>os.makedirs(path, exist_ok=True)\<close>, given by the exception it raises, if
  any.
\<close>

record host =
  OpenFileSystem :: "string \<Rightarrow> file_system outcome"
  listdir :: "string \<Rightarrow> string list outcome"
  makedirs :: "string \<Rightarrow> exn option"

text \<open>The leaves visited by a depth-first traversal, and the error that ended it.\<close>

fun walk :: "file_entry \<Rightarrow> file_entry list \<times> exn option"
  and walk_entries :: "file_entry list \<Rightarrow> exn option \<Rightarrow> file_entry list \<times> exn option" where
  "walk (FileEntry n l d g subs err) =
     (if \<not> d then ([FileEntry n l d g subs err], None) else walk_entries subs err)"
| "walk_entries [] err = ([], err)"
| "walk_entries (sub # rest) err =
     (case walk sub of
        (visited, Some e) \<Rightarrow> (visited, Some e)
      | (visited, None) \<Rightarrow>
          (case walk_entries rest err of (visited', r) \<Rightarrow> (visited @ visited', r)))"

text \<open>All leaves, in depth-first order.\<close>

fun leaves :: "file_entry \<Rightarrow> file_entry list" where
  "leaves (FileEntry n l d g subs err) =
     (if \<not> d then [FileEntry n l d g subs err] else concat (map leaves subs))"

text \<open>No directory of the tree fails while it is listed.\<close>

fun readable :: "file_entry \<Rightarrow> bool" where
  "readable (FileEntry n l d g subs err) \<longleftrightarrow> \<not> d \<or> (err = None \<and> list_all readable subs)"

text \<open>
  The walker with an explicit stack: pop an entry, yield it if it is a leaf, push its
  sub-entries (in order) otherwise.
\<close>

function walk_stack :: "file_entry list \<Rightarrow> file_entry list" where
  "walk_stack [] = []"
| "walk_stack (e # stack) =
     (if IsDirectory e then walk_stack (sub_file_entries e @ stack) else e # walk_stack stack)"
  by pat_completeness auto
termination
proof (relation "measure (\<lambda>stack. sum_list (map size stack))")
  fix e :: file_entry and stack :: "file_entry list"
  have "sum_list (map size (sub_file_entries e)) < size e"
    by (cases e) (simp add: size_list_conv_sum_list)
  then show "(sub_file_entries e @ stack, e # stack) \<in> measure (\<lambda>stack. sum_list (map size stack))"
    by simp
  have "0 < size e" by (cases e) simp
  then show "(stack, e # stack) \<in> measure (\<lambda>stack. sum_list (map size stack))"
    by simp
qed simp


section \<open>The recursive walk\<close>

lemma walk_leaf [simp]: "\<not> IsDirectory e \<Longrightarrow> walk e = ([e], None)"
  by (cases e) simp

lemma walk_dir [simp]:
  "IsDirectory e \<Longrightarrow> walk e = walk_entries (sub_file_entries e) (sub_error e)"
  by (cases e) simp

lemma leaves_leaf [simp]: "\<not> IsDirectory e \<Longrightarrow> leaves e = [e]"
  by (cases e) simp

lemma leaves_dir [simp]:
  "IsDirectory e \<Longrightarrow> leaves e = concat (map leaves (sub_file_entries e))"
  by (cases e) simp

lemmas walk.simps(1) [simp del] leaves.simps [simp del]

lemmas vfs_defs [evaluate] = walk.simps(1) leaves.simps

lemma walk_visits_files:
  "list_all (\<lambda>e. \<not> IsDirectory e) (fst (walk t))"
  "list_all (\<lambda>e. \<not> IsDirectory e) (fst (walk_entries ts err))"
  by (induction t and ts err rule: walk_walk_entries.induct)
     (auto simp: walk.simps split: prod.splits option.splits)

lemma walk_None_iff:
  "snd (walk t) = None \<longleftrightarrow> readable t"
  "snd (walk_entries ts err) = None \<longleftrightarrow> err = None \<and> list_all readable ts"
  by (induction t and ts err rule: walk_walk_entries.induct)
     (auto simp: walk.simps split: prod.splits option.splits)

lemma walk_readable:
  "readable t \<Longrightarrow> walk t = (leaves t, None)"
  "list_all readable ts \<Longrightarrow> walk_entries ts err = (concat (map leaves ts), err)"
  by (induction t and ts err rule: walk_walk_entries.induct)
     (auto simp: walk.simps leaves.simps split: prod.splits option.splits)

lemma walk_None_leaves: "walk t = (visited, None) \<Longrightarrow> visited = leaves t"
  using walk_None_iff(1) [of t] walk_readable(1) [of t] by simp

lemma walk_prefix_leaves:
  "prefix (fst (walk t)) (leaves t)"
  "prefix (fst (walk_entries ts err)) (concat (map leaves ts))"
proof (induction t and ts err rule: walk_walk_entries.induct)
  case (1 n l d g subs err)
  then show ?case by (simp add: walk.simps leaves.simps)
next
  case (2 err)
  show ?case by simp
next
  case (3 sub rest err)
  obtain visited r where w: "walk sub = (visited, r)" by (cases "walk sub")
  show ?case
  proof (cases r)
    case None
    with w have "visited = leaves sub" by (simp add: walk_None_leaves)
    moreover from "3.IH"(2) w None
    have "prefix (fst (walk_entries rest err)) (concat (map leaves rest))" by simp
    ultimately show ?thesis using w None by (auto split: prod.splits)
  next
    case (Some e)
    with w "3.IH"(1) show ?thesis by (auto simp: prefix_def)
  qed
qed

text \<open>What follows a directory that fails to list has no part in the walk.\<close>

lemma walk_entries_failed:
  assumes "\<not> readable d"
  shows "walk_entries (pre @ d # post) err = walk_entries (pre @ [d]) None"
    and "snd (walk_entries (pre @ d # post) err) \<noteq> None"
proof -
  from assms obtain visited e where "walk d = (visited, Some e)"
    using walk_None_iff(1) [of d] by (cases "walk d") auto
  then show "walk_entries (pre @ d # post) err = walk_entries (pre @ [d]) None"
    and "snd (walk_entries (pre @ d # post) err) \<noteq> None"
    by (induction pre) (auto split: prod.splits option.splits)
qed

section \<open>The work-list walk\<close>

lemma walk_stack_eq: "walk_stack stack = concat (map leaves stack)"
  by (induction stack rule: walk_stack.induct) auto

lemma walk_stack_leaves: "walk_stack [t] = leaves t"
  by (simp add: walk_stack_eq)

end
