(* ===== verification/Scenarios.thy ===== *)
theory Scenarios
  imports State Vfs
begin

text \<open>
  The data of the scenarios that the specification lists as testable properties, for the
  pixel-grid codec: a disk image whose root holds \<^verbatim>\<open>/docs/readme.txt\<close> and
  \<^verbatim>\<open>/pics/a.jpg\<close>, identical to the reference \<^verbatim>\<open>ref1.jpg\<close>; a candidate
  whose bytes do not decode; a candidate that differs from two references by 3 and by 7; a
  directory that fails to list; an output folder that cannot be written; hosts with these
  disk images and with reference folders that are empty or partly unreadable, and one
  whose file system has no root entry. The theorems of the development are applied to
  these data in their witnesses. Nothing here models code: the collection \<open>scenario\<close>
  holds the definitions, for evaluation by the simplifier.
\<close>

section \<open>Definitions\<close>

named_theorems scenario \<open>the data of the scenarios\<close>

subsection \<open>Images\<close>

definition ref1_img :: grid where
  "ref1_img = [10, 20, 30, 40]"

definition ref2_img :: grid where
  "ref2_img = [20, 30, 40, 50]"

definition near_img :: grid where
  "near_img = [13, 23, 33, 43]"

definition local_images :: "string \<Rightarrow> grid outcome" where
  "local_images path =
     (if path = ''refs/ref1.jpg'' then Return ref1_img
      else if path = ''refs/ref2.jpg'' then Return ref2_img
      else Raise OSError)"

definition scenario_pil :: "grid pil" where
  "scenario_pil = grid_pil local_images (\<lambda>path. True)"

definition read_only_pil :: "grid pil" where
  "read_only_pil = grid_pil local_images (\<lambda>path. False)"

definition one_reference :: "(string, grid) dict" where
  "one_reference = [(''refs/ref1.jpg'', ref1_img)]"

definition two_references :: "(string, grid) dict" where
  "two_references = [(''refs/ref1.jpg'', ref1_img), (''refs/ref2.jpg'', ref2_img)]"

subsection \<open>Entries\<close>

definition plain_file :: "string \<Rightarrow> string \<Rightarrow> byte list \<Rightarrow> file_entry" where
  "plain_file n l content = FileEntry n l False (Return (Some (FileObject (Return content)))) [] None"

definition directory :: "string \<Rightarrow> string \<Rightarrow> file_entry list \<Rightarrow> file_entry" where
  "directory n l entries = FileEntry n l True (Return None) entries None"

definition a_jpg :: file_entry where
  "a_jpg = plain_file ''a.jpg'' ''/pics/a.jpg'' ref1_img"

definition other_a_jpg :: file_entry where
  "other_a_jpg = plain_file ''a.jpg'' ''/docs/a.jpg'' near_img"

definition near_png :: file_entry where
  "near_png = plain_file ''near.PNG'' ''/pics/near.PNG'' near_img"

definition broken_jpg :: file_entry where
  "broken_jpg = plain_file ''broken.jpg'' ''/pics/broken.jpg'' []"

definition readme_txt :: file_entry where
  "readme_txt = plain_file ''readme.txt'' ''/docs/readme.txt'' [72, 105]"

definition disk_root :: file_entry where
  "disk_root =
     directory [] ''/''
       [directory ''docs'' ''/docs'' [readme_txt], directory ''pics'' ''/pics'' [a_jpg]]"

definition ordered_root :: file_entry where
  "ordered_root = directory [] ''/'' [directory ''pics'' ''/pics'' [near_png, a_jpg]]"

definition near_root :: file_entry where
  "near_root = directory [] ''/'' [directory ''pics'' ''/pics'' [near_png]]"

definition corrupt_root :: file_entry where
  "corrupt_root = directory [] ''/'' [directory ''pics'' ''/pics'' [broken_jpg, a_jpg]]"

definition lost_found :: file_entry where
  "lost_found = FileEntry ''lost+found'' ''/lost+found'' True (Return None) [] (Some BackEndError)"

definition damaged_root :: file_entry where
  "damaged_root = directory [] ''/'' [lost_found, directory ''pics'' ''/pics'' [a_jpg]]"

subsection \<open>Hosts\<close>

text \<open>
  A host on which \<^verbatim>\<open>disk.img\<close> holds a file system with the given root entry,
  the folder \<^verbatim>\<open>refs\<close> has the given listing and every folder but
  \<^verbatim>\<open>/proc/out\<close> can be created.
\<close>

definition host_of :: "string list \<Rightarrow> file_entry \<Rightarrow> host" where
  "host_of listing root_entry =
     \<lparr>OpenFileSystem =
        (\<lambda>path. if path = ''disk.img'' then Return (FileSystem (Return (Some root_entry)))
                else Raise OSError),
      listdir = (\<lambda>path. if path = ''refs'' then Return listing else Raise OSError),
      makedirs = (\<lambda>path. if path = ''/proc/out'' then Some OSError else None)\<rparr>"

text \<open>The same host with a file system that has no root entry.\<close>

definition rootless_host :: host where
  "rootless_host =
     (host_of [''ref1.jpg''] (directory [] ''/'' []))
       \<lparr>OpenFileSystem :=
          (\<lambda>path. if path = ''disk.img'' then Return (FileSystem (Return None))
                  else Raise OSError)\<rparr>"

definition scenario_host :: host where
  "scenario_host = host_of [''ref1.jpg'', ''notes.txt''] disk_root"

definition two_reference_host :: host where
  "two_reference_host = host_of [''ref1.jpg'', ''ref2.jpg''] near_root"

text \<open>A folder without a reference image, and one whose second image cannot be opened.\<close>

definition empty_host :: host where
  "empty_host = host_of [''notes.txt''] disk_root"

definition partial_host :: host where
  "partial_host = host_of [''ref1.jpg'', ''missing.png'', ''ref2.jpg''] disk_root"

subsection \<open>States\<close>

definition loaded :: "(string, 'img) dict \<Rightarrow> 'img state" where
  "loaded refs = \<lparr>result = map (\<lambda>p. (fst p, [])) refs, stdout = [], files = []\<rparr>"

lemmas scenario_defs [scenario, evaluate] =
  ref1_img_def ref2_img_def near_img_def local_images_def scenario_pil_def read_only_pil_def
  one_reference_def two_references_def plain_file_def directory_def a_jpg_def other_a_jpg_def
  near_png_def ordered_root_def
  broken_jpg_def readme_txt_def disk_root_def near_root_def corrupt_root_def lost_found_def
  damaged_root_def host_of_def scenario_host_def two_reference_host_def
  empty_host_def partial_host_def rootless_host_def loaded_def

end
