(* ===== verification/Matcher.thy ===== *)
theory Matcher
  imports Py_Path Scorer Scenarios
begin

text \<open>
  The per-entry part of the pipeline: the Candidate Filter, the Result Aggregator, the
  Match Exporter and \<^verbatim>\<open>is_image_similar\<close>, which runs them for one leaf entry
  inside its \<^verbatim>\<open>try\<close> block.

  Each operation takes the \<open>state\<close> of theory \<open>State\<close> and returns the state it
  leaves; one that may raise after it has changed the state returns the exception beside
  that state.

  The second group of definitions is the contract of one entry: \<open>matches\<close> is the list
  of (reference, score) pairs an image is recorded under and the exception that ends the
  loop over the references, \<open>entry_effect\<close> is what processing one entry amounts to, and
  \<open>apply_effect\<close> is its effect on the state. \<open>is_image_similar_effect\<close> proves that
  the code implements the contract from every state that is \<open>ready\<close> (every reference
  is a key of \<open>result\<close> and no key occurs twice), which is the state the reference
  loader leaves.

  Independently of the contract, \<open>compare_references_invariant\<close> and
  \<open>is_image_similar_invariant\<close> are the rules by which a property of the state is shown
  to survive an entry; they give that the result only grows and that matches recorded and
  matches announced stay in balance. The lemmas on \<open>matches\<close> compare two thresholds.
  The theorems characterise the candidates and state what \<^verbatim>\<open>is_image_similar\<close>
  does on each of its paths, among them the path on which a save fails, where raising
  the threshold loses a match.

  The handler reads \<^verbatim>\<open>file_entry.path_spec.location\<close> again (line 127); the
  location is a string of the entry here, so that access cannot raise, and neither can
  the access in line 99.
\<close>

section \<open>Definitions\<close>

subsection \<open>The candidate filter\<close>

definition valid_image_extensions :: "string list" where
  "valid_image_extensions = [''.jpg'', ''.jpeg'', ''.png'', ''.bmp'', ''.gif'', ''.tiff'']"

definition is_candidate :: "string \<Rightarrow> bool" where
  "is_candidate loc =
     (let file_ext = str_lower (snd (splitext loc))
      in file_ext \<in> set valid_image_extensions)"

subsection \<open>Recording and exporting a match\<close>

text \<open>
  The body of \<^verbatim>\<open>if is_similar:\<close> up to the \<^verbatim>\<open>print\<close>: append the tuple to the
  list under the reference name, which raises \<^verbatim>\<open>KeyError\<close> for a name that is no
  key.
\<close>

definition record_match ::
  "file_entry \<Rightarrow> string \<Rightarrow> float64 \<Rightarrow> 'img state \<Rightarrow> exn option \<times> 'img state" where
  "record_match file_entry reference_name mean_diff s =
     (let res_tuple = (location file_entry, mean_diff) in
      case dict_append reference_name res_tuple (result s) of
        Inl e \<Rightarrow> (Some e, s)
      | Inr result' \<Rightarrow> (None, py_print [SimilarImageIdentified] (s\<lparr>result := result'\<rparr>)))"

text \<open>The export: \<^verbatim>\<open>if output_folder != "": image.save(os.path.join(...))\<close>.\<close>

definition export_match ::
  "'img pil \<Rightarrow> file_entry \<Rightarrow> 'img \<Rightarrow> string \<Rightarrow> 'img state \<Rightarrow> exn option \<times> 'img state" where
  "export_match pil file_entry img output_folder s =
     (if output_folder \<noteq> [] then
        (let output_file_path = path_join output_folder (name file_entry) in
         case Image_save pil img output_file_path of
           Some e \<Rightarrow> (Some e, s)
         | None \<Rightarrow> (None, s\<lparr>files := dict_setitem output_file_path img (files s)\<rparr>))
      else (None, s))"

subsection \<open>One entry\<close>

text \<open>The loop \<^verbatim>\<open>for reference_name, reference_image in reference_image_list.items()\<close>.\<close>

fun compare_references ::
  "'img pil \<Rightarrow> file_entry \<Rightarrow> 'img \<Rightarrow> (string, 'img) dict \<Rightarrow> int \<Rightarrow> string \<Rightarrow>
     'img state \<Rightarrow> exn option \<times> 'img state" where
  "compare_references pil file_entry img [] similarity_threshold output_folder s = (None, s)"
| "compare_references pil file_entry img ((reference_name, reference_image) # items)
      similarity_threshold output_folder s =
     (case img_similarity_check pil img reference_image similarity_threshold of
        Inl e \<Rightarrow> (Some e, s)
      | Inr (is_similar, mean_diff) \<Rightarrow>
          if is_similar then
            (case record_match file_entry reference_name mean_diff s of
               (Some e, s1) \<Rightarrow> (Some e, s1)
             | (None, s1) \<Rightarrow>
                 (case export_match pil file_entry img output_folder s1 of
                    (Some e, s2) \<Rightarrow> (Some e, s2)
                  | (None, s2) \<Rightarrow>
                      compare_references pil file_entry img items similarity_threshold
                        output_folder s2))
          else
            compare_references pil file_entry img items similarity_threshold output_folder s)"

text \<open>The body of the \<^verbatim>\<open>try\<close> block of \<^verbatim>\<open>is_image_similar\<close>.\<close>

definition try_is_image_similar ::
  "'img pil \<Rightarrow> file_entry \<Rightarrow> (string, 'img) dict \<Rightarrow> int \<Rightarrow> string \<Rightarrow>
     'img state \<Rightarrow> bool option outcome \<times> 'img state" where
  "try_is_image_similar pil file_entry reference_image_list similarity_threshold output_folder s =
     (if \<not> is_candidate (location file_entry) then (Return (Some False), s)
      else
        case GetFileObject file_entry of
          Inl e \<Rightarrow> (Raise e, s)
        | Inr None \<Rightarrow> (Return (Some False), s)
        | Inr (Some file_object) \<Rightarrow>
            (case read file_object of
               Inl e \<Rightarrow> (Raise e, s)
             | Inr file_content \<Rightarrow>
                 (case Image_open_bytes pil file_content of
                    Inl e \<Rightarrow> (Raise e, s)
                  | Inr img \<Rightarrow>
                      (case compare_references pil file_entry img reference_image_list
                              similarity_threshold output_folder s of
                         (Some e, s') \<Rightarrow> (Raise e, s')
                       | (None, s') \<Rightarrow> (Return None, s')))))"

text \<open>The \<^verbatim>\<open>except Exception\<close> clause: three lines are printed.\<close>

definition except_comparing :: "file_entry \<Rightarrow> exn \<Rightarrow> 'img state \<Rightarrow> 'img state" where
  "except_comparing file_entry e s =
     py_print [ErrorWhileComparingImage (location file_entry), ErrorDetails e, Traceback e] s"

text \<open>
  \<^verbatim>\<open>is_image_similar\<close>: it returns \<^verbatim>\<open>False\<close> from its early exits and from the
  handler, and \<^verbatim>\<open>None\<close> when the loop has run to its end.
\<close>

definition is_image_similar ::
  "'img pil \<Rightarrow> file_entry \<Rightarrow> (string, 'img) dict \<Rightarrow> int \<Rightarrow> string \<Rightarrow>
     'img state \<Rightarrow> bool option \<times> 'img state" where
  "is_image_similar pil file_entry reference_image_list similarity_threshold output_folder s =
     (case try_is_image_similar pil file_entry reference_image_list similarity_threshold
             output_folder s of
        (Inr r, s') \<Rightarrow> (r, s')
      | (Inl e, s') \<Rightarrow> (Some False, except_comparing file_entry e s'))"

subsection \<open>The contract of one entry\<close>

text \<open>What saving the candidate for export raises; nothing when no output folder is set.\<close>

definition export_error :: "'img pil \<Rightarrow> file_entry \<Rightarrow> 'img \<Rightarrow> string \<Rightarrow> exn option" where
  "export_error pil file_entry img output_folder =
     (if output_folder \<noteq> [] then Image_save pil img (path_join output_folder (name file_entry))
      else None)"

text \<open>
  The matches of one decoded candidate: the references it is recorded under, with its
  score against each, in the order of the references, and the exception that ended the
  comparison. The loop ends at the first reference whose comparison raises and after
  the first match whose export fails.
\<close>

fun matches ::
  "'img pil \<Rightarrow> 'img \<Rightarrow> (string, 'img) dict \<Rightarrow> int \<Rightarrow> exn option \<Rightarrow>
     (string \<times> float64) list \<times> exn option" where
  "matches pil img [] t save = ([], None)"
| "matches pil img ((reference_name, reference_image) # items) t save =
     (case score pil img reference_image of
        Inl e \<Rightarrow> ([], Some e)
      | Inr m \<Rightarrow>
          if float_lt m t then
            (case save of
               Some e \<Rightarrow> ([(reference_name, m)], Some e)
             | None \<Rightarrow>
                 (case matches pil img items t save of
                    (hs, r) \<Rightarrow> ((reference_name, m) # hs, r)))
          else matches pil img items t save)"

text \<open>The Result Aggregator: each match is appended to the list of its reference.\<close>

definition add_matches ::
  "string \<Rightarrow> (string \<times> float64) list \<Rightarrow> (string, res_tuple list) dict \<Rightarrow>
     (string, res_tuple list) dict" where
  "add_matches path hs d =
     map (\<lambda>(k, xs). (k, xs @ map (\<lambda>h. (path, snd h)) (filter (\<lambda>h. fst h = k) hs))) d"

text \<open>What one entry does: its matches, the exception that was caught, the file exported.\<close>

record 'img effect =
  hits :: "(string \<times> float64) list"
  caught :: "exn option"
  saved :: "(string \<times> 'img) option"

definition compare_effect ::
  "'img pil \<Rightarrow> file_entry \<Rightarrow> 'img \<Rightarrow> (string, 'img) dict \<Rightarrow> int \<Rightarrow> string \<Rightarrow> 'img effect" where
  "compare_effect pil file_entry img refs t output_folder =
     (let save = export_error pil file_entry img output_folder;
          found = matches pil img refs t save
      in \<lparr>hits = fst found, caught = snd found,
          saved = (if fst found \<noteq> [] \<and> output_folder \<noteq> [] \<and> save = None
                   then Some (path_join output_folder (name file_entry), img) else None)\<rparr>)"

definition no_effect :: "exn option \<Rightarrow> 'img effect" where
  "no_effect r = \<lparr>hits = [], caught = r, saved = None\<rparr>"

definition entry_effect ::
  "'img pil \<Rightarrow> (string, 'img) dict \<Rightarrow> int \<Rightarrow> string \<Rightarrow> file_entry \<Rightarrow> 'img effect" where
  "entry_effect pil refs t output_folder file_entry =
     (if \<not> is_candidate (location file_entry) then no_effect None
      else
        case GetFileObject file_entry of
          Inl e \<Rightarrow> no_effect (Some e)
        | Inr None \<Rightarrow> no_effect None
        | Inr (Some file_object) \<Rightarrow>
            (case read file_object of
               Inl e \<Rightarrow> no_effect (Some e)
             | Inr file_content \<Rightarrow>
                 (case Image_open_bytes pil file_content of
                    Inl e \<Rightarrow> no_effect (Some e)
                  | Inr img \<Rightarrow> compare_effect pil file_entry img refs t output_folder)))"

definition apply_effect :: "file_entry \<Rightarrow> 'img effect \<Rightarrow> 'img state \<Rightarrow> 'img state" where
  "apply_effect file_entry ef s =
     s\<lparr>result := add_matches (location file_entry) (hits ef) (result s),
       stdout := stdout s @ replicate (length (hits ef)) SimilarImageIdentified @
         (case caught ef of
            None \<Rightarrow> []
          | Some e \<Rightarrow> [ErrorWhileComparingImage (location file_entry), ErrorDetails e, Traceback e]),
       files := (case saved ef of
                   None \<Rightarrow> files s
                 | Some (path, img) \<Rightarrow> dict_setitem path img (files s))\<rparr>"

text \<open>The states the reference loader leaves: every reference is a key, no key twice.\<close>

definition ready :: "(string, 'img) dict \<Rightarrow> 'img state \<Rightarrow> bool" where
  "ready refs s \<longleftrightarrow> wf_dict (result s) \<and> set (dict_keys refs) \<subseteq> set (dict_keys (result s))"

lemmas matcher_defs [evaluate] =
  valid_image_extensions_def is_candidate_def record_match_def export_match_def
  try_is_image_similar_def except_comparing_def is_image_similar_def export_error_def
  add_matches_def compare_effect_def no_effect_def entry_effect_def apply_effect_def ready_def

section \<open>Lemmas\<close>

subsection \<open>The extensions\<close>

lemma valid_extension_shape:
  assumes "str_lower ext \<in> set valid_image_extensions"
  obtains e where "ext = CHR ''.'' # e" and "CHR ''.'' \<notin> set e" and "CHR ''/'' \<notin> set e"
proof -
  from assms obtain t where "str_lower ext = CHR ''.'' # t"
    and t: "CHR ''.'' \<notin> set t" "CHR ''/'' \<notin> set t"
    by (auto simp: valid_image_extensions_def)
  then obtain d e where ext: "ext = d # e" and d: "lower_char d = CHR ''.''"
    and e: "str_lower e = t"
    by (auto simp: str_lower_eq_Cons)
  from t e have "CHR ''.'' \<notin> set e" and "CHR ''/'' \<notin> set e"
    using str_lower_member [of "CHR ''.''" e] str_lower_member [of "CHR ''/''" e] by auto
  with ext d show ?thesis by (intro that [of e]) simp_all
qed

lemma is_candidate_stem_ext:
  assumes "str_lower ext \<in> set valid_image_extensions"
  shows "is_candidate (stem @ ext) \<longleftrightarrow> list_ex (\<lambda>c. c \<noteq> CHR ''.'') (basename stem)"
proof -
  from assms obtain e where e: "ext = CHR ''.'' # e" "CHR ''.'' \<notin> set e" "CHR ''/'' \<notin> set e"
    by (rule valid_extension_shape)
  have "[] \<notin> set valid_image_extensions"
    by (simp add: valid_image_extensions_def)
  with assms e show ?thesis
    by (simp add: is_candidate_def Let_def splitext_dot del: str_lower_simps(2))
qed

subsection \<open>Adding matches to the result\<close>

lemma add_matches_Nil [simp]: "add_matches path [] d = d"
  by (induction d) (auto simp: add_matches_def)

lemma add_matches_append:
  "add_matches path (hs @ hs') d = add_matches path hs' (add_matches path hs d)"
  by (induction d) (auto simp: add_matches_def)

lemma add_matches_Cons:
  "add_matches path (h # hs) d = add_matches path hs (add_matches path [h] d)"
  using add_matches_append [of path "[h]" hs d] by simp

lemma dict_keys_add_matches [simp, frame]: "dict_keys (add_matches path hs d) = dict_keys d"
  by (induction d) (auto simp: add_matches_def)

lemma wf_dict_add_matches [simp]: "wf_dict (add_matches path hs d) = wf_dict d"
  by (simp add: wf_dict_def)

lemma map_of_add_matches:
  "map_of (add_matches path hs d) k =
     map_option (\<lambda>xs. xs @ map (\<lambda>h. (path, snd h)) (filter (\<lambda>h. fst h = k) hs)) (map_of d k)"
  by (induction d) (auto simp: add_matches_def)

lemma grows_add_matches [grow]: "grows d (add_matches path hs d)"
  by (induction d) (auto simp: add_matches_def grows_def)

lemma setitem_add_match:
  assumes "wf_dict d" and "map_of d k = Some xs"
  shows "dict_setitem k (xs @ [(path, m)]) d = add_matches path [(k, m)] d"
  using assms
proof (induction d)
  case Nil
  then show ?case by simp
next
  case (Cons p d)
  obtain k' ys where p: "p = (k', ys)" by (cases p)
  show ?case
  proof (cases "k' = k")
    case True
    with Cons.prems p have "k \<notin> set (dict_keys d)" and "ys = xs"
      by (simp_all add: wf_dict_def)
    then have "add_matches path [(k, m)] d = d"
      by (induction d) (auto simp: add_matches_def)
    with True p \<open>ys = xs\<close> show ?thesis
      by (simp add: dict_setitem_def add_matches_def)
  next
    case False
    with Cons p show ?thesis
      by (simp add: dict_setitem_def add_matches_def wf_dict_def)
  qed
qed

lemma dict_append_add_match:
  assumes "wf_dict d" and "k \<in> set (dict_keys d)"
  shows "dict_append k (path, m) d = Return (add_matches path [(k, m)] d)"
proof -
  from assms(2) obtain xs where "map_of d k = Some xs" by (rule map_of_keysE)
  with assms(1) show ?thesis
    by (simp add: dict_append_Return_iff setitem_add_match)
qed

subsection \<open>Recording and exporting one match\<close>

lemma ready_simps [simp]:
  "ready refs (py_print ms s) = ready refs s"
  "ready refs (s\<lparr>files := fs\<rparr>) = ready refs s"
  "ready refs (s\<lparr>stdout := out\<rparr>) = ready refs s"
  "ready refs (s\<lparr>result := add_matches path hs (result s)\<rparr>) = ready refs s"
  by (simp_all add: ready_def)

lemma ready_Cons: "ready ((k, v) # refs) s \<longleftrightarrow> k \<in> set (dict_keys (result s)) \<and> ready refs s"
  by (auto simp: ready_def)

lemma record_match_ready:
  assumes "wf_dict (result s)" and "reference_name \<in> set (dict_keys (result s))"
  shows "record_match file_entry reference_name m s =
     (None, s\<lparr>result := add_matches (location file_entry) [(reference_name, m)] (result s),
               stdout := stdout s @ [SimilarImageIdentified]\<rparr>)"
  using assms by (simp add: record_match_def dict_append_add_match py_print_def)

lemma record_match_missing:
  assumes "reference_name \<notin> set (dict_keys (result s))"
  shows "record_match file_entry reference_name m s = (Some KeyError, s)"
  using assms by (auto simp: record_match_def dict_append_Return_iff split: sum.splits)

lemma export_match_eq:
  "export_match pil file_entry img output_folder s =
     (export_error pil file_entry img output_folder,
      if output_folder \<noteq> [] \<and> export_error pil file_entry img output_folder = None
      then s\<lparr>files := dict_setitem (path_join output_folder (name file_entry)) img (files s)\<rparr>
      else s)"
  by (auto simp: export_match_def export_error_def Let_def split: option.splits)

subsection \<open>The reference loop against its contract\<close>

lemma dict_setitem_twice [simp]: "dict_setitem k v (dict_setitem k v' d) = dict_setitem k v d"
  by (simp add: dict_setitem_def)

lemma compare_references_Cons_ready:
  assumes "ready ((k, ref) # refs) s"
  shows "compare_references pil file_entry img ((k, ref) # refs) t output_folder s =
     (case score pil img ref of
        Inl e \<Rightarrow> (Some e, s)
      | Inr m \<Rightarrow>
          if float_lt m t then
            (case export_error pil file_entry img output_folder of
               Some e \<Rightarrow> (Some e, apply_effect file_entry \<lparr>hits = [(k, m)], caught = None, saved = None\<rparr> s)
             | None \<Rightarrow>
                 compare_references pil file_entry img refs t output_folder
                   (apply_effect file_entry
                      \<lparr>hits = [(k, m)], caught = None,
                       saved = (if output_folder \<noteq> []
                                then Some (path_join output_folder (name file_entry), img)
                                else None)\<rparr> s))
          else compare_references pil file_entry img refs t output_folder s)"
proof -
  from assms have "wf_dict (result s)" and "k \<in> set (dict_keys (result s))"
    by (simp_all add: ready_def)
  then show ?thesis
    by (simp add: img_similarity_check_score record_match_ready export_match_eq apply_effect_def
        split: sum.splits option.splits)
qed

lemma ready_apply_effect [simp]: "ready refs (apply_effect file_entry ef s) = ready refs s"
  by (simp add: ready_def apply_effect_def)

lemma apply_effect_fields [simp]:
  "result (apply_effect file_entry ef s) = add_matches (location file_entry) (hits ef) (result s)"
  "stdout (apply_effect file_entry ef s) =
     stdout s @ replicate (length (hits ef)) SimilarImageIdentified @
       (case caught ef of
          None \<Rightarrow> []
        | Some e \<Rightarrow> [ErrorWhileComparingImage (location file_entry), ErrorDetails e, Traceback e])"
  "files (apply_effect file_entry ef s) =
     (case saved ef of None \<Rightarrow> files s | Some (path, img) \<Rightarrow> dict_setitem path img (files s))"
  by (simp_all add: apply_effect_def)

lemma matches_Cons:
  "matches pil img ((k, ref) # refs) t save =
     (case score pil img ref of
        Inl e \<Rightarrow> ([], Some e)
      | Inr m \<Rightarrow>
          if float_lt m t then
            (case save of
               Some e \<Rightarrow> ([(k, m)], Some e)
             | None \<Rightarrow> ((k, m) # fst (matches pil img refs t save), snd (matches pil img refs t save)))
          else matches pil img refs t save)"
  by (simp split: sum.splits option.splits prod.splits)

lemmas matches.simps(2) [simp del] compare_references.simps(2) [simp del]

lemmas loop_defs [evaluate] = matches.simps(2) compare_references.simps(2)

lemma compare_references_fst:
  "ready refs s \<Longrightarrow>
   fst (compare_references pil file_entry img refs t output_folder s) =
     snd (matches pil img refs t (export_error pil file_entry img output_folder))"
  by (induction refs arbitrary: s)
     (auto simp: compare_references_Cons_ready matches_Cons ready_Cons
       split: sum.splits option.splits)

lemma add_matches_single [simp]:
  "add_matches path hs (add_matches path [h] d) = add_matches path (h # hs) d"
  by (simp add: add_matches_Cons [of path h hs])

lemma compare_references_result:
  "ready refs s \<Longrightarrow>
   result (snd (compare_references pil file_entry img refs t output_folder s)) =
     add_matches (location file_entry)
       (fst (matches pil img refs t (export_error pil file_entry img output_folder))) (result s)"
  by (induction refs arbitrary: s)
     (auto simp: compare_references_Cons_ready matches_Cons ready_Cons
       split: sum.splits option.splits)

lemma compare_references_stdout:
  "ready refs s \<Longrightarrow>
   stdout (snd (compare_references pil file_entry img refs t output_folder s)) =
     stdout s @ replicate
       (length (fst (matches pil img refs t (export_error pil file_entry img output_folder))))
       SimilarImageIdentified"
  by (induction refs arbitrary: s)
     (auto simp: compare_references_Cons_ready matches_Cons ready_Cons
       split: sum.splits option.splits)

lemma compare_references_files:
  "ready refs s \<Longrightarrow>
   files (snd (compare_references pil file_entry img refs t output_folder s)) =
     (if fst (matches pil img refs t (export_error pil file_entry img output_folder)) \<noteq> [] \<and>
         output_folder \<noteq> [] \<and> export_error pil file_entry img output_folder = None
      then dict_setitem (path_join output_folder (name file_entry)) img (files s)
      else files s)"
  by (induction refs arbitrary: s)
     (auto simp: compare_references_Cons_ready matches_Cons ready_Cons
       split: sum.splits option.splits)

lemma compare_effect_fields [simp]:
  "hits (compare_effect pil file_entry img refs t output_folder) =
     fst (matches pil img refs t (export_error pil file_entry img output_folder))"
  "caught (compare_effect pil file_entry img refs t output_folder) =
     snd (matches pil img refs t (export_error pil file_entry img output_folder))"
  "saved (compare_effect pil file_entry img refs t output_folder) =
     (if fst (matches pil img refs t (export_error pil file_entry img output_folder)) \<noteq> [] \<and>
         output_folder \<noteq> [] \<and> export_error pil file_entry img output_folder = None
      then Some (path_join output_folder (name file_entry), img) else None)"
  by (simp_all add: compare_effect_def Let_def)

lemma compare_references_effect:
  assumes "ready refs s"
  shows "compare_references pil file_entry img refs t output_folder s =
     (caught (compare_effect pil file_entry img refs t output_folder),
      apply_effect file_entry
        ((compare_effect pil file_entry img refs t output_folder)\<lparr>caught := None\<rparr>) s)"
proof (rule prod_eqI)
  show "fst (compare_references pil file_entry img refs t output_folder s) =
      fst (caught (compare_effect pil file_entry img refs t output_folder),
        apply_effect file_entry
          ((compare_effect pil file_entry img refs t output_folder)\<lparr>caught := None\<rparr>) s)"
    using assms by (simp add: compare_references_fst)
  show "snd (compare_references pil file_entry img refs t output_folder s) =
      snd (caught (compare_effect pil file_entry img refs t output_folder),
        apply_effect file_entry
          ((compare_effect pil file_entry img refs t output_folder)\<lparr>caught := None\<rparr>) s)"
    using assms
    by (intro state.equality)
       (auto simp: compare_references_result compare_references_stdout
         compare_references_files)
qed

subsection \<open>One entry against its contract\<close>

lemma apply_no_effect [simp]:
  "apply_effect file_entry (no_effect None) s = s"
  "apply_effect file_entry (no_effect (Some e)) s = except_comparing file_entry e s"
  by (simp_all add: apply_effect_def no_effect_def except_comparing_def py_print_def)

lemma except_comparing_apply_effect:
  "caught ef = Some e \<Longrightarrow>
   except_comparing file_entry e (apply_effect file_entry (ef\<lparr>caught := None\<rparr>) s) =
     apply_effect file_entry ef s"
  by (simp add: except_comparing_def apply_effect_def py_print_def)

lemma apply_effect_uncaught:
  "caught ef = None \<Longrightarrow> apply_effect file_entry (ef\<lparr>caught := None\<rparr>) s = apply_effect file_entry ef s"
  by (simp add: apply_effect_def)

lemma is_image_similar_effect:
  assumes "ready refs s"
  shows "snd (is_image_similar pil file_entry refs t output_folder s) =
     apply_effect file_entry (entry_effect pil refs t output_folder file_entry) s"
  using assms
  by (auto simp: is_image_similar_def try_is_image_similar_def entry_effect_def
      compare_references_effect except_comparing_apply_effect apply_effect_uncaught
      split: sum.splits option.splits)

subsection \<open>What the contract records\<close>

lemma matches_below:
  "h \<in> set (fst (matches pil img refs t save)) \<Longrightarrow> float_lt (snd h) t"
  by (induction refs) (auto simp: matches_Cons split: sum.splits option.splits if_splits)

lemma matches_score:
  "h \<in> set (fst (matches pil img refs t save)) \<Longrightarrow>
   \<exists>ref. (fst h, ref) \<in> set refs \<and> score pil img ref = Return (snd h)"
  by (induction refs) (fastforce simp: matches_Cons split: sum.splits option.splits if_splits)+

lemma entry_effect_hits:
  assumes "h \<in> set (hits (entry_effect pil refs t output_folder file_entry))"
  shows "float_lt (snd h) t \<and> fst h \<in> set (dict_keys refs)"
  using assms
  by (fastforce simp: entry_effect_def no_effect_def dict_keys_def
      split: if_splits sum.splits option.splits dest: matches_below matches_score
      intro: rev_image_eqI)

subsection \<open>The result only grows\<close>

lemma record_match_grows [grow]:
  "grows (result s) (result (snd (record_match file_entry k m s)))"
  by (auto simp: record_match_def py_print_def split: sum.splits intro: grows_dict_append)

lemma export_match_result [frame]:
  "result (snd (export_match pil file_entry img output_folder s)) = result s"
  by (simp add: export_match_eq)

text \<open>
  An invariant of the loop over the references: what recording and exporting a match keep
  holds of the state the loop leaves, however it ends.
\<close>

lemma compare_references_invariant:
  assumes "I s"
    and recorded: "\<And>k m s. I s \<Longrightarrow> I (snd (record_match file_entry k m s))"
    and exported: "\<And>s. I s \<Longrightarrow> I (snd (export_match pil file_entry img output_folder s))"
  shows "I (snd (compare_references pil file_entry img refs t output_folder s))"
  using assms(1)
proof (induction refs arbitrary: s)
  case Nil
  then show ?case by simp
next
  case (Cons p refs)
  obtain k ref where p: "p = (k, ref)" by (cases p)
  from Cons.prems show ?case
    unfolding p compare_references.simps
    by (auto split: sum.splits prod.splits option.splits dest!: sndI
        intro: Cons.IH recorded exported)
qed

lemma compare_references_grows [grow]:
  "grows (result s) (result (snd (compare_references pil file_entry img refs t output_folder s)))"
  by (rule compare_references_invariant [where I = "\<lambda>s'. grows (result s) (result s')"])
     (auto simp: export_match_result intro: grows_trans record_match_grows)

lemma is_image_similar_grows [grow]:
  "grows (result s) (result (snd (is_image_similar pil file_entry refs t output_folder s)))"
  using compare_references_grows [of s pil file_entry _ refs t output_folder]
  by (auto simp: is_image_similar_def try_is_image_similar_def except_comparing_def py_print_def
      split: sum.splits option.splits prod.splits dest!: sndI)

text \<open>
  The same for one entry: an invariant of recording, exporting and the handler's printing
  is an invariant of \<^verbatim>\<open>is_image_similar\<close>.
\<close>

lemma is_image_similar_invariant:
  assumes "I s"
    and recorded: "\<And>k m s. I s \<Longrightarrow> I (snd (record_match file_entry k m s))"
    and exported: "\<And>img s. I s \<Longrightarrow> I (snd (export_match pil file_entry img output_folder s))"
    and printed: "\<And>e s. I s \<Longrightarrow> I (except_comparing file_entry e s)"
  shows "I (snd (is_image_similar pil file_entry refs t output_folder s))"
proof -
  have "I (snd (compare_references pil file_entry img refs t output_folder s))" for img
    using assms(1) by (rule compare_references_invariant) (auto intro: recorded exported)
  with assms(1) show ?thesis
    by (auto simp: is_image_similar_def try_is_image_similar_def
        split: sum.splits option.splits prod.splits dest!: sndI intro: printed)
qed

subsection \<open>Matches recorded and matches reported\<close>

lemma record_match_counts:
  "match_count (snd (record_match file_entry k m s)) + report_count s =
   report_count (snd (record_match file_entry k m s)) + match_count s"
  by (auto simp: record_match_def split: sum.splits)
     (simp add: match_count_def sum_length_dict_append)

lemma export_match_counts [simp]:
  "match_count (snd (export_match pil file_entry img output_folder s)) = match_count s"
  "report_count (snd (export_match pil file_entry img output_folder s)) = report_count s"
  by (simp_all add: export_match_eq)

lemma is_image_similar_counts:
  fixes s :: "'img state"
  shows "match_count (snd (is_image_similar pil file_entry refs t output_folder s)) +
      report_count s =
    report_count (snd (is_image_similar pil file_entry refs t output_folder s)) + match_count s"
proof (rule is_image_similar_invariant
    [where I = "\<lambda>s'. match_count s' + report_count s = report_count s' + match_count s"])
  fix k m and s' :: "'img state"
  assume "match_count s' + report_count s = report_count s' + match_count s"
  with record_match_counts [of file_entry k m s']
  show "match_count (snd (record_match file_entry k m s')) + report_count s =
      report_count (snd (record_match file_entry k m s')) + match_count s"
    by linarith
qed (simp_all add: except_comparing_def)

subsection \<open>Raising the threshold\<close>

lemma add_matches_embeds:
  assumes "embeds d d'" and "subseq hs hs'"
  shows "embeds (add_matches path hs d) (add_matches path hs' d')"
  using assms(1) unfolding embeds_def
proof (induction d d' rule: list_all2_induct)
  case Nil
  show ?case by (simp add: add_matches_def)
next
  case (Cons p d q d')
  from assms(2) have "subseq (map (\<lambda>h. (path, snd h)) (filter (\<lambda>h. fst h = fst p) hs))
      (map (\<lambda>h. (path, snd h)) (filter (\<lambda>h. fst h = fst p) hs'))"
    by (intro subseq_map subseq_filter)
  with Cons show ?case
    by (auto simp: add_matches_def case_prod_beta intro: list_emb_append_mono)
qed

lemma matches_mono:
  assumes "t \<le> t'"
  shows "subseq (fst (matches pil img refs t None)) (fst (matches pil img refs t' None))"
    and "snd (matches pil img refs t None) = snd (matches pil img refs t' None)"
  using float_lt_mono [OF assms]
  by (induction refs) (auto simp: matches_Cons split: sum.splits)

lemma entry_effect_mono:
  assumes "t \<le> t'"
  shows "subseq (hits (entry_effect pil refs t [] file_entry))
      (hits (entry_effect pil refs t' [] file_entry))"
  using matches_mono(1) [OF assms]
  by (auto simp: entry_effect_def no_effect_def export_error_def split: sum.splits option.splits)

text \<open>
  Two matches under different references do not embed into each other, and what one
  decoded candidate is recorded under when every save fails.
\<close>

lemma add_matches_not_embeds:
  assumes "k \<in> set (dict_keys d)" and "k' \<noteq> k"
  shows "\<not> embeds (add_matches path [(k, m)] d) (add_matches path [(k', m')] d)"
proof
  assume emb: "embeds (add_matches path [(k, m)] d) (add_matches path [(k', m')] d)"
  from assms(1) obtain xs where xs: "map_of d k = Some xs" by (rule map_of_keysE)
  then have "map_of (add_matches path [(k, m)] d) k = Some (xs @ [(path, m)])"
    by (simp add: map_of_add_matches)
  from embeds_map_of [OF emb this] xs assms(2) have "subseq (xs @ [(path, m)]) xs"
    by (simp add: map_of_add_matches)
  then show False by (auto dest: list_emb_length)
qed

lemma decoded_entry_hits:
  assumes "is_candidate (location file_entry)"
    and "GetFileObject file_entry = Return (Some file_object)"
    and "read file_object = Return file_content"
    and "Image_open_bytes pil file_content = Return img"
  shows "hits (entry_effect pil refs t output_folder file_entry) =
     fst (matches pil img refs t (export_error pil file_entry img output_folder))"
  using assms by (simp add: entry_effect_def)

section \<open>Properties of one entry\<close>

text \<open>
  \<^bold>\<open>C14\<close> (the candidates). A location is a candidate exactly when it ends in one
  of the six extensions, in any mix of upper and lower case, and the name in front of the
  extension is neither empty nor made of dots only.
\<close>

theorem is_candidate_iff:
  "is_candidate loc \<longleftrightarrow>
     (\<exists>stem ext. loc = stem @ ext \<and> str_lower ext \<in> set valid_image_extensions \<and>
        list_ex (\<lambda>c. c \<noteq> CHR ''.'') (basename stem))"
proof
  assume "is_candidate loc"
  then have ext: "str_lower (snd (splitext loc)) \<in> set valid_image_extensions"
    by (simp add: is_candidate_def Let_def)
  then have "snd (splitext loc) \<noteq> []"
    by (auto simp: valid_image_extensions_def)
  then have "list_ex (\<lambda>c. c \<noteq> CHR ''.'') (basename (fst (splitext loc)))"
    by (rule splitext_Some)
  with ext show "\<exists>stem ext. loc = stem @ ext \<and> str_lower ext \<in> set valid_image_extensions \<and>
      list_ex (\<lambda>c. c \<noteq> CHR ''.'') (basename stem)"
    by (intro exI [of _ "fst (splitext loc)"] exI [of _ "snd (splitext loc)"]) simp
next
  assume "\<exists>stem ext. loc = stem @ ext \<and> str_lower ext \<in> set valid_image_extensions \<and>
      list_ex (\<lambda>c. c \<noteq> CHR ''.'') (basename stem)"
  then obtain stem ext where loc: "loc = stem @ ext"
    and ext: "str_lower ext \<in> set valid_image_extensions"
    and stem: "list_ex (\<lambda>c. c \<noteq> CHR ''.'') (basename stem)"
    by blast
  from ext obtain e where e: "ext = CHR ''.'' # e" "CHR ''.'' \<notin> set e" "CHR ''/'' \<notin> set e"
    by (rule valid_extension_shape)
  with stem have "splitext loc = (stem, ext)"
    by (simp add: loc splitext_stem_ext)
  with ext show "is_candidate loc"
    by (simp add: is_candidate_def Let_def)
qed

text \<open>
  \<^bold>\<open>C8\<close> (entries that are no candidates). An entry whose location does not end in
  one of the six image extensions is rejected before its content is opened:
  \<^verbatim>\<open>is_image_similar\<close> returns \<^verbatim>\<open>False\<close> and leaves the result, the
  output and the exported files as they were, whatever the entry holds.
\<close>

theorem non_candidate_untouched:
  assumes "\<not> is_candidate (location file_entry)"
  shows "is_image_similar pil file_entry refs t output_folder s = (Some False, s)"
  using assms by (simp add: is_image_similar_def try_is_image_similar_def)

theorem non_candidate_untouched_witness:
  "\<not> is_candidate (location readme_txt) \<and>
   is_image_similar scenario_pil readme_txt one_reference 10 [] (loaded one_reference) =
     (Some False, loaded one_reference)"
  using non_candidate_untouched [of readme_txt scenario_pil one_reference 10 "[]" "loaded one_reference"]
  by (simp add: evaluate)

text \<open>
  \<^bold>\<open>C9\<close> (corrupt candidates). A candidate whose bytes the image library cannot
  decode is skipped: the exception is caught, three lines are printed, nothing is recorded
  or exported, and \<^verbatim>\<open>is_image_similar\<close> returns \<^verbatim>\<open>False\<close> so that the
  scan goes on.
\<close>

theorem undecodable_candidate_skipped:
  assumes "is_candidate (location file_entry)"
    and "GetFileObject file_entry = Return (Some file_object)"
    and "read file_object = Return file_content"
    and "Image_open_bytes pil file_content = Raise e"
  shows "is_image_similar pil file_entry refs t output_folder s =
     (Some False,
      s\<lparr>stdout := stdout s @
          [ErrorWhileComparingImage (location file_entry), ErrorDetails e, Traceback e]\<rparr>)"
  using assms
  by (simp add: is_image_similar_def try_is_image_similar_def except_comparing_def py_print_def)

theorem undecodable_candidate_skipped_witness:
  "is_candidate (location broken_jpg) \<and>
   GetFileObject broken_jpg = Return (Some (FileObject (Return []))) \<and>
   read (FileObject (Return [])) = Return [] \<and>
   Image_open_bytes scenario_pil [] = Raise UnidentifiedImageError \<and>
   is_image_similar scenario_pil broken_jpg one_reference 10 [] (loaded one_reference) =
     (Some False,
      \<lparr>result = [(''refs/ref1.jpg'', [])],
       stdout = [ErrorWhileComparingImage ''/pics/broken.jpg'',
                 ErrorDetails UnidentifiedImageError, Traceback UnidentifiedImageError],
       files = []\<rparr>)"
proof -
  have c: "is_candidate (location broken_jpg)"
    and g: "GetFileObject broken_jpg = Return (Some (FileObject (Return [])))"
    and r: "read (FileObject (Return [])) = Return []"
    and i: "Image_open_bytes scenario_pil [] = Raise UnidentifiedImageError"
    by (simp_all add: evaluate)
  from undecodable_candidate_skipped [OF c g r i, of one_reference 10 "[]" "loaded one_reference"] c g r i
  show ?thesis by (simp add: evaluate)
qed

text \<open>
  \<^bold>\<open>C15\<close> (what is recorded). From a state in which every reference is a key,
  \<^verbatim>\<open>is_image_similar\<close> only appends to the lists of the result, every tuple it
  appends carries the location of the entry, and every score it appends is strictly below
  the threshold.
\<close>

theorem recorded_matches_below_threshold:
  assumes "ready refs s"
    and "map_of (result (snd (is_image_similar pil file_entry refs t output_folder s))) k = Some ys"
  shows "\<exists>xs ms. map_of (result s) k = Some xs \<and>
     ys = xs @ map (\<lambda>m. (location file_entry, m)) ms \<and> list_all (\<lambda>m. float_lt m t) ms"
proof -
  let ?hs = "filter (\<lambda>h. fst h = k) (hits (entry_effect pil refs t output_folder file_entry))"
  from assms obtain xs where "map_of (result s) k = Some xs"
    and "ys = xs @ map (\<lambda>h. (location file_entry, snd h)) ?hs"
    by (auto simp: is_image_similar_effect map_of_add_matches)
  moreover have "list_all (\<lambda>m. float_lt m t) (map snd ?hs)"
    by (auto simp: list_all_iff dest: entry_effect_hits)
  ultimately show ?thesis
    by (intro exI [of _ xs] exI [of _ "map snd ?hs"]) (simp add: comp_def)
qed


theorem recorded_matches_below_threshold_witness:
  "ready two_references (loaded two_references) \<and>
   map_of (result (snd (is_image_similar scenario_pil near_png two_references 5 []
       (loaded two_references)))) ''refs/ref1.jpg'' = Some [(''/pics/near.PNG'', Finite 3)] \<and>
   map_of (result (snd (is_image_similar scenario_pil near_png two_references 5 []
       (loaded two_references)))) ''refs/ref2.jpg'' = Some [] \<and>
   float_lt (Finite 3) 5 \<and> \<not> float_lt (Finite 7) 5"
proof -
  have r: "ready two_references (loaded two_references)"
    by (simp add: evaluate)
  have m: "map_of (result (snd (is_image_similar scenario_pil near_png two_references 5 []
      (loaded two_references)))) ''refs/ref1.jpg'' = Some [(''/pics/near.PNG'', Finite 3)]"
    by (simp add: evaluate)
  have m': "map_of (result (snd (is_image_similar scenario_pil near_png two_references 5 []
      (loaded two_references)))) ''refs/ref2.jpg'' = Some []"
    by (simp add: evaluate)
  from recorded_matches_below_threshold [OF r m] r m m' show ?thesis
    by simp
qed

text \<open>
  \<^bold>\<open>C33\<close> (the aggregator relies on the loader). When a candidate matches a
  reference whose name is no key of the result dictionary, the append raises
  \<^verbatim>\<open>KeyError\<close>: the loop over the references ends there and nothing is recorded.
\<close>

theorem missing_key_raises_KeyError:
  assumes "reference_name \<notin> set (dict_keys (result s))"
    and "img_similarity_check pil img reference_image t = Return (True, mean_diff)"
  shows "compare_references pil file_entry img ((reference_name, reference_image) # items) t
      output_folder s = (Some KeyError, s)"
  using assms by (simp add: compare_references.simps record_match_missing)

theorem missing_key_raises_KeyError_witness:
  "''refs/ref1.jpg'' \<notin> set (dict_keys (result (initial :: grid state))) \<and>
   img_similarity_check scenario_pil ref1_img ref1_img 10 = Return (True, Finite 0) \<and>
   compare_references scenario_pil a_jpg ref1_img [(''refs/ref1.jpg'', ref1_img)] 10 [] initial =
     (Some KeyError, initial)"
proof -
  have k: "''refs/ref1.jpg'' \<notin> set (dict_keys (result (initial :: grid state)))"
    by (simp add: evaluate)
  have c: "img_similarity_check scenario_pil ref1_img ref1_img 10 = Return (True, Finite 0)"
    by (simp add: evaluate)
  from missing_key_raises_KeyError [OF k c, of a_jpg "[]" "[]"] k c show ?thesis by simp
qed

text \<open>
  \<^bold>\<open>C31\<close> (a failed export ends the comparison). When saving a matched candidate to
  the output folder raises, the match is already recorded and reported, and the
  exception leaves the loop: the references that follow are not compared with this
  candidate.
\<close>

theorem failed_export_skips_remaining_references:
  assumes "ready ((k, ref) # refs) s"
    and "img_similarity_check pil img ref t = Return (True, m)"
    and "output_folder \<noteq> []"
    and "Image_save pil img (path_join output_folder (name file_entry)) = Some e"
  shows "compare_references pil file_entry img ((k, ref) # refs) t output_folder s =
     (Some e, s\<lparr>result := add_matches (location file_entry) [(k, m)] (result s),
                 stdout := stdout s @ [SimilarImageIdentified]\<rparr>)"
  using assms
  by (simp add: compare_references_Cons_ready img_similarity_check_Return_iff export_error_def
      apply_effect_def)

theorem failed_export_skips_remaining_references_witness:
  "ready ((''refs/ref1.jpg'', ref1_img) # [(''refs/ref2.jpg'', ref2_img)]) (loaded two_references) \<and>
   img_similarity_check read_only_pil near_img ref1_img 10 = Return (True, Finite 3) \<and>
   img_similarity_check read_only_pil near_img ref2_img 10 = Return (True, Finite 7) \<and>
   ''out'' \<noteq> [] \<and>
   Image_save read_only_pil near_img (path_join ''out'' (name near_png)) = Some OSError \<and>
   compare_references read_only_pil near_png near_img two_references 10 ''out''
       (loaded two_references) =
     (Some OSError,
      \<lparr>result = [(''refs/ref1.jpg'', [(''/pics/near.PNG'', Finite 3)]), (''refs/ref2.jpg'', [])],
       stdout = [SimilarImageIdentified], files = []\<rparr>)"
proof -
  have r: "ready ((''refs/ref1.jpg'', ref1_img) # [(''refs/ref2.jpg'', ref2_img)])
      (loaded two_references)"
    and c: "img_similarity_check read_only_pil near_img ref1_img 10 = Return (True, Finite 3)"
    and c': "img_similarity_check read_only_pil near_img ref2_img 10 = Return (True, Finite 7)"
    and o: "''out'' \<noteq> []"
    and w: "Image_save read_only_pil near_img (path_join ''out'' (name near_png)) = Some OSError"
    by (simp_all add: evaluate)
  from failed_export_skips_remaining_references [OF r c o w] r c c' w show ?thesis
    by (simp add: evaluate)
qed

text \<open>
  \<^bold>\<open>C17\<close> (a failed export breaks monotonicity). With an output folder into which
  the candidate cannot be saved, raising the threshold can lose a match. Whenever the
  first reference matches a candidate only under the higher of two thresholds and the
  second reference matches it under both, the lower threshold records the candidate under
  the second reference and the higher threshold records it under the first reference
  only: the save that fails after the first match ends the comparison. The result of the
  lower threshold is then not contained in the result of the higher one.
\<close>

theorem failed_export_breaks_monotonicity:
  assumes "ready ((k1, ref1) # (k2, ref2) # refs) s" and "k1 \<noteq> k2"
    and "is_candidate (location file_entry)"
    and "GetFileObject file_entry = Return (Some file_object)"
    and "read file_object = Return file_content"
    and "Image_open_bytes pil file_content = Return img"
    and "score pil img ref1 = Return m1" and "score pil img ref2 = Return m2"
    and "\<not> float_lt m1 t" and "float_lt m2 t" and "float_lt m1 t'"
    and "output_folder \<noteq> []"
    and "Image_save pil img (path_join output_folder (name file_entry)) = Some e"
  shows "t < t' \<and>
    result (snd (is_image_similar pil file_entry ((k1, ref1) # (k2, ref2) # refs) t
        output_folder s)) = add_matches (location file_entry) [(k2, m2)] (result s) \<and>
    result (snd (is_image_similar pil file_entry ((k1, ref1) # (k2, ref2) # refs) t'
        output_folder s)) = add_matches (location file_entry) [(k1, m1)] (result s) \<and>
    \<not> embeds
      (result (snd (is_image_similar pil file_entry ((k1, ref1) # (k2, ref2) # refs) t
         output_folder s)))
      (result (snd (is_image_similar pil file_entry ((k1, ref1) # (k2, ref2) # refs) t'
         output_folder s)))"
proof -
  let ?refs = "(k1, ref1) # (k2, ref2) # refs"
  from assms(12,13) have save: "export_error pil file_entry img output_folder = Some e"
    by (simp add: export_error_def)
  from assms(7-10) save
  have low: "hits (entry_effect pil ?refs t output_folder file_entry) = [(k2, m2)]"
    by (simp add: decoded_entry_hits [OF assms(3-6)] matches_Cons)
  from assms(7,11) save
  have high: "hits (entry_effect pil ?refs t' output_folder file_entry) = [(k1, m1)]"
    by (simp add: decoded_entry_hits [OF assms(3-6)] matches_Cons)
  from assms(9,11) have "t < t'"
    using float_lt_mono [of t' t m1] by (cases "t < t'") auto
  moreover from assms(1) have "k2 \<in> set (dict_keys (result s))"
    by (simp add: ready_Cons)
  ultimately show ?thesis
    using assms(2) by (simp add: is_image_similar_effect [OF assms(1)] low high add_matches_not_embeds)
qed

theorem failed_export_breaks_monotonicity_witness:
  "ready ((''refs/ref2.jpg'', ref2_img) # (''refs/ref1.jpg'', ref1_img) # [])
     (loaded [(''refs/ref2.jpg'', ref2_img), (''refs/ref1.jpg'', ref1_img)]) \<and>
   ''refs/ref2.jpg'' \<noteq> ''refs/ref1.jpg'' \<and> is_candidate (location near_png) \<and>
   GetFileObject near_png = Return (Some (FileObject (Return near_img))) \<and>
   read (FileObject (Return near_img)) = Return near_img \<and>
   Image_open_bytes read_only_pil near_img = Return near_img \<and>
   score read_only_pil near_img ref2_img = Return (Finite 7) \<and>
   score read_only_pil near_img ref1_img = Return (Finite 3) \<and>
   \<not> float_lt (Finite 7) 5 \<and> float_lt (Finite 3) 5 \<and> float_lt (Finite 7) 10 \<and> ''out'' \<noteq> [] \<and>
   Image_save read_only_pil near_img (path_join ''out'' (name near_png)) = Some OSError \<and>
   result (snd (is_image_similar read_only_pil near_png
       [(''refs/ref2.jpg'', ref2_img), (''refs/ref1.jpg'', ref1_img)] 5 ''out''
       (loaded [(''refs/ref2.jpg'', ref2_img), (''refs/ref1.jpg'', ref1_img)]))) =
     [(''refs/ref2.jpg'', []), (''refs/ref1.jpg'', [(''/pics/near.PNG'', Finite 3)])] \<and>
   result (snd (is_image_similar read_only_pil near_png
       [(''refs/ref2.jpg'', ref2_img), (''refs/ref1.jpg'', ref1_img)] 10 ''out''
       (loaded [(''refs/ref2.jpg'', ref2_img), (''refs/ref1.jpg'', ref1_img)]))) =
     [(''refs/ref2.jpg'', [(''/pics/near.PNG'', Finite 7)]), (''refs/ref1.jpg'', [])]"
proof -
  let ?s = "loaded [(''refs/ref2.jpg'', ref2_img), (''refs/ref1.jpg'', ref1_img)] :: grid state"
  have r: "ready ((''refs/ref2.jpg'', ref2_img) # (''refs/ref1.jpg'', ref1_img) # []) ?s"
    and k: "''refs/ref2.jpg'' \<noteq> ''refs/ref1.jpg''"
    and c: "is_candidate (location near_png)"
    and g: "GetFileObject near_png = Return (Some (FileObject (Return near_img)))"
    and b: "read (FileObject (Return near_img)) = Return near_img"
    and i: "Image_open_bytes read_only_pil near_img = Return near_img"
    and m1: "score read_only_pil near_img ref2_img = Return (Finite 7)"
    and m2: "score read_only_pil near_img ref1_img = Return (Finite 3)"
    and w: "Image_save read_only_pil near_img (path_join ''out'' (name near_png)) = Some OSError"
    by (simp_all add: evaluate)
  have t: "\<not> float_lt (Finite 7) 5" "float_lt (Finite 3) 5" "float_lt (Finite 7) 10" "''out'' \<noteq> []"
    by simp_all
  from failed_export_breaks_monotonicity [OF r k c g b i m1 m2 t w] r k c g b i m1 m2 w
  show ?thesis by (simp add: evaluate)
qed

text \<open>
  \<^bold>\<open>C32\<close> (colliding exports). Two candidates with the same name are saved to the
  same file of the output folder: after the later one is saved, nothing is left of the
  earlier export, and the file the earlier candidate was saved to holds the later image.
\<close>

theorem export_last_write_wins:
  assumes "name file_entry1 = name file_entry2"
    and "Image_save pil img2 (path_join output_folder (name file_entry2)) = None"
  shows "files (snd (export_match pil file_entry2 img2 output_folder
        (snd (export_match pil file_entry1 img1 output_folder s)))) =
     files (snd (export_match pil file_entry2 img2 output_folder s)) \<and>
    (output_folder \<noteq> [] \<longrightarrow>
     map_of (files (snd (export_match pil file_entry2 img2 output_folder
        (snd (export_match pil file_entry1 img1 output_folder s)))))
       (path_join output_folder (name file_entry1)) = Some img2)"
  using assms by (simp add: export_match_eq export_error_def)

theorem export_last_write_wins_witness:
  "name a_jpg = name other_a_jpg \<and>
   Image_save scenario_pil near_img (path_join ''out'' (name other_a_jpg)) = None \<and>
   files (snd (export_match scenario_pil other_a_jpg near_img ''out''
     (snd (export_match scenario_pil a_jpg ref1_img ''out'' initial)))) =
     [(''out/a.jpg'', near_img)]"
proof -
  have n: "name a_jpg = name other_a_jpg"
    and w: "Image_save scenario_pil near_img (path_join ''out'' (name other_a_jpg)) = None"
    by (simp_all add: evaluate)
  have "files (snd (export_match scenario_pil other_a_jpg near_img ''out'' initial)) =
      [(''out/a.jpg'', near_img)]"
    by (simp add: evaluate)
  with export_last_write_wins [OF n w, where ?img1.0 = ref1_img and s = initial] n w show ?thesis
    by simp
qed

end
