(* ===== verification/Traversal.thy ===== *)
theory Traversal
  imports Matcher
begin

text \<open>
  \<^verbatim>\<open>traverse_file_entries\<close>: the recursive descent of \<^verbatim>\<open>main.py\<close> that
  drives the rest of the pipeline. The \<^verbatim>\<open>for\<close> loop over the sub-entries is the
  second function of the mutual recursion; an exception of the generator
  \<^verbatim>\<open>sub_file_entries\<close> is not caught anywhere in \<^verbatim>\<open>main.py\<close>, so it ends
  the traversal and is returned beside the state reached.

  \<open>traverse_walk\<close> factors the traversal through the walker of theory \<open>Vfs\<close>: the
  traversal is \<^verbatim>\<open>is_image_similar\<close> folded over the leaves that \<open>walk\<close> yields,
  in that order, and it ends with the error \<open>walk\<close> ends with. With the contract of one
  entry this gives the contract of the scan, \<open>scan_effects\<close>, and the list each
  reference ends with (\<open>found\<close>, \<open>result_scan_effects\<close>).
  \<open>traverse_invariant\<close> lifts an invariant of one entry to the traversal. The
  theorems relate the recursion to the walker and to the work-list walker, state what a
  directory that fails to list does to the traversal, both through the walker and in
  terms of the code alone, and give the order of the recorded matches.
\<close>

section \<open>Definitions\<close>

fun traverse_file_entries ::
  "'img pil \<Rightarrow> file_entry \<Rightarrow> (string, 'img) dict \<Rightarrow> int \<Rightarrow> string \<Rightarrow>
     'img state \<Rightarrow> exn option \<times> 'img state"
  and traverse_sub_file_entries ::
  "'img pil \<Rightarrow> file_entry list \<Rightarrow> exn option \<Rightarrow> (string, 'img) dict \<Rightarrow> int \<Rightarrow> string \<Rightarrow>
     'img state \<Rightarrow> exn option \<times> 'img state" where
  "traverse_file_entries pil (FileEntry n l d g subs err) reference_image_list
      similarity_threshold output_folder s =
     (if \<not> d then
        (None, snd (is_image_similar pil (FileEntry n l d g subs err) reference_image_list
                      similarity_threshold output_folder s))
      else
        traverse_sub_file_entries pil subs err reference_image_list similarity_threshold
          output_folder s)"
| "traverse_sub_file_entries pil [] err reference_image_list similarity_threshold
      output_folder s = (err, s)"
| "traverse_sub_file_entries pil (sub_file_entry # rest) err reference_image_list
      similarity_threshold output_folder s =
     (case traverse_file_entries pil sub_file_entry reference_image_list similarity_threshold
             output_folder s of
        (Some e, s') \<Rightarrow> (Some e, s')
      | (None, s') \<Rightarrow>
          traverse_sub_file_entries pil rest err reference_image_list similarity_threshold
            output_folder s')"

text \<open>\<^verbatim>\<open>is_image_similar\<close> on each entry of a list, in order.\<close>

definition visit_all ::
  "'img pil \<Rightarrow> (string, 'img) dict \<Rightarrow> int \<Rightarrow> string \<Rightarrow> file_entry list \<Rightarrow>
     'img state \<Rightarrow> 'img state" where
  "visit_all pil refs t output_folder visited s =
     foldl (\<lambda>s file_entry. snd (is_image_similar pil file_entry refs t output_folder s)) s visited"

text \<open>The contract of a scan over a list of entries: the effects of the entries, in order.\<close>

definition scan_effects ::
  "'img pil \<Rightarrow> (string, 'img) dict \<Rightarrow> int \<Rightarrow> string \<Rightarrow> file_entry list \<Rightarrow>
     'img state \<Rightarrow> 'img state" where
  "scan_effects pil refs t output_folder visited s =
     foldl (\<lambda>s file_entry.
        apply_effect file_entry (entry_effect pil refs t output_folder file_entry) s) s visited"

text \<open>The tuples one entry contributes to the list of the reference \<open>k\<close>.\<close>

definition found ::
  "'img pil \<Rightarrow> (string, 'img) dict \<Rightarrow> int \<Rightarrow> string \<Rightarrow> string \<Rightarrow> file_entry \<Rightarrow> res_tuple list" where
  "found pil refs t output_folder k file_entry =
     map (\<lambda>h. (location file_entry, snd h))
       (filter (\<lambda>h. fst h = k) (hits (entry_effect pil refs t output_folder file_entry)))"

lemmas traversal_defs [evaluate] = found_def

section \<open>Lemmas\<close>

lemma visit_all_simps [simp]:
  "visit_all pil refs t output_folder [] s = s"
  "visit_all pil refs t output_folder (file_entry # visited) s =
     visit_all pil refs t output_folder visited
       (snd (is_image_similar pil file_entry refs t output_folder s))"
  "visit_all pil refs t output_folder (visited @ visited') s =
     visit_all pil refs t output_folder visited' (visit_all pil refs t output_folder visited s)"
  by (simp_all add: visit_all_def)

lemma scan_effects_simps [simp]:
  "scan_effects pil refs t output_folder [] s = s"
  "scan_effects pil refs t output_folder (file_entry # visited) s =
     scan_effects pil refs t output_folder visited
       (apply_effect file_entry (entry_effect pil refs t output_folder file_entry) s)"
  "scan_effects pil refs t output_folder (visited @ visited') s =
     scan_effects pil refs t output_folder visited' (scan_effects pil refs t output_folder visited s)"
  by (simp_all add: scan_effects_def)

lemma traverse_walk:
  "traverse_file_entries pil t refs th output_folder s =
     (snd (walk t), visit_all pil refs th output_folder (fst (walk t)) s)"
  "traverse_sub_file_entries pil ts err refs th output_folder s =
     (snd (walk_entries ts err), visit_all pil refs th output_folder (fst (walk_entries ts err)) s)"
  by (induction pil t refs th output_folder s and pil ts err refs th output_folder s
        rule: traverse_file_entries_traverse_sub_file_entries.induct)
     (auto simp: walk.simps split: prod.splits option.splits)

lemma ready_scan_effects [simp]:
  "ready refs (scan_effects pil refs' t output_folder visited s) = ready refs s"
  by (induction visited arbitrary: s) simp_all

lemma visit_all_effects:
  "ready refs s \<Longrightarrow>
   visit_all pil refs t output_folder visited s = scan_effects pil refs t output_folder visited s"
  by (induction visited arbitrary: s) (simp_all add: is_image_similar_effect)

text \<open>An invariant of \<^verbatim>\<open>is_image_similar\<close> is an invariant of the traversal.\<close>

lemma visit_all_invariant:
  assumes "I s"
    and "\<And>file_entry s. I s \<Longrightarrow> I (snd (is_image_similar pil file_entry refs t output_folder s))"
  shows "I (visit_all pil refs t output_folder visited s)"
  using assms by (induction visited arbitrary: s) simp_all

lemma visit_all_keys [frame]:
  "dict_keys (result (visit_all pil refs t output_folder visited s)) = dict_keys (result s)"
  by (rule visit_all_invariant [where I = "\<lambda>s'. dict_keys (result s') = dict_keys (result s)"])
     (simp_all add: grows_keys [OF is_image_similar_grows])

lemma visit_all_no_keys:
  "result s = [] \<Longrightarrow> result (visit_all pil refs t output_folder visited s) = []"
  using visit_all_keys [of pil refs t output_folder visited s] by (simp add: dict_keys_def)

lemma traverse_invariant:
  assumes "I s"
    and "\<And>file_entry s. I s \<Longrightarrow> I (snd (is_image_similar pil file_entry refs t output_folder s))"
  shows "I (snd (traverse_file_entries pil root_entry refs t output_folder s))"
  using assms by (simp add: traverse_walk visit_all_invariant)

lemma traverse_keys [frame]:
  "dict_keys (result (snd (traverse_file_entries pil t refs th output_folder s))) =
     dict_keys (result s)"
  by (rule traverse_invariant [where I = "\<lambda>s'. dict_keys (result s') = dict_keys (result s)"])
     (simp_all add: grows_keys [OF is_image_similar_grows])

lemma scan_effects_mono:
  assumes "t \<le> t'" and "embeds (result s) (result s')"
  shows "embeds (result (scan_effects pil refs t [] visited s))
      (result (scan_effects pil refs t' [] visited s'))"
  using assms(2)
proof (induction visited arbitrary: s s')
  case Nil
  then show ?case by simp
next
  case (Cons file_entry visited)
  then show ?case
    by (simp add: Cons.IH add_matches_embeds entry_effect_mono [OF assms(1)])
qed

lemma traverse_monotone:
  assumes "t \<le> t'" and "ready refs s"
  shows "embeds (result (snd (traverse_file_entries pil root_entry refs t [] s)))
      (result (snd (traverse_file_entries pil root_entry refs t' [] s)))"
  using assms by (simp add: traverse_walk visit_all_effects scan_effects_mono)

lemma traverse_wf [simp]:
  "wf_dict (result (snd (traverse_file_entries pil t refs th output_folder s))) =
     wf_dict (result s)"
  by (simp add: wf_dict_def traverse_keys)

lemma traverse_counts:
  fixes s :: "'img state"
  shows "match_count (snd (traverse_file_entries pil t refs th output_folder s)) +
      report_count s =
    report_count (snd (traverse_file_entries pil t refs th output_folder s)) + match_count s"
proof (rule traverse_invariant
    [where I = "\<lambda>s'. match_count s' + report_count s = report_count s' + match_count s"])
  fix file_entry and s' :: "'img state"
  assume "match_count s' + report_count s = report_count s' + match_count s"
  with is_image_similar_counts [of pil file_entry refs th output_folder s']
  show "match_count (snd (is_image_similar pil file_entry refs th output_folder s')) +
      report_count s =
      report_count (snd (is_image_similar pil file_entry refs th output_folder s')) +
      match_count s"
    by linarith
qed simp

lemma map_of_scan_effects:
  "map_of (result (scan_effects pil refs t output_folder visited s)) k =
     map_option (\<lambda>xs. xs @ concat (map (found pil refs t output_folder k) visited))
       (map_of (result s) k)"
  by (induction visited arbitrary: s)
     (simp_all add: map_of_add_matches found_def option.map_comp comp_def option.map_ident)

lemma result_scan_effects:
  "result (scan_effects pil refs t output_folder visited s) =
     map (\<lambda>p. (fst p, snd p @ concat (map (found pil refs t output_folder (fst p)) visited)))
       (result s)"
  by (induction visited arbitrary: s)
     (simp_all add: add_matches_def found_def comp_def case_prod_beta)

lemma found_below:
  "stat \<in> set (found pil refs t output_folder k file_entry) \<Longrightarrow>
   fst stat = location file_entry \<and> float_lt (snd stat) t"
  by (auto simp: found_def dest: entry_effect_hits)

section \<open>Properties of the traversal\<close>

text \<open>
  \<^bold>\<open>C1\<close> (the traversal implements the walker and the contract of the scan). From a
  state in which every reference is a key of the result, \<^verbatim>\<open>traverse_file_entries\<close>
  ends with the error the walker ends with (none, or the first listing error), and the
  state it leaves is the state after the effects of the leaves the walker yields, in
  depth-first order: each leaf is filtered, decoded, scored against every reference and
  its matches are appended, exactly once.
\<close>

theorem traverse_refines_walk:
  assumes "ready refs s"
  shows "traverse_file_entries pil t refs th output_folder s =
     (snd (walk t), scan_effects pil refs th output_folder (fst (walk t)) s)"
  using assms by (simp add: traverse_walk visit_all_effects)

theorem traverse_refines_walk_witness:
  "ready one_reference (loaded one_reference) \<and>
   walk disk_root = ([readme_txt, a_jpg], None) \<and>
   traverse_file_entries scenario_pil disk_root one_reference 10 [] (loaded one_reference) =
     (None, \<lparr>result = [(''refs/ref1.jpg'', [(''/pics/a.jpg'', Finite 0)])],
             stdout = [SimilarImageIdentified], files = []\<rparr>)"
proof -
  have r: "ready one_reference (loaded one_reference)"
    by (simp add: evaluate)
  have w: "walk disk_root = ([readme_txt, a_jpg], None)"
    by (simp add: evaluate)
  have "scan_effects scenario_pil one_reference 10 [] [readme_txt, a_jpg] (loaded one_reference) =
      \<lparr>result = [(''refs/ref1.jpg'', [(''/pics/a.jpg'', Finite 0)])],
       stdout = [SimilarImageIdentified], files = []\<rparr>"
    by (simp add: evaluate)
  with traverse_refines_walk [OF r, of scenario_pil disk_root 10 "[]"] r w show ?thesis
    by simp
qed

text \<open>
  \<^bold>\<open>C7\<close> (every leaf, once, in order). On a tree all of whose directories list,
  the recursion calls \<^verbatim>\<open>is_image_similar\<close> on exactly the entries that the
  walker with an explicit work-list yields, once each and in the same depth-first order,
  and it returns without an exception.
\<close>

theorem traverse_visits_every_leaf:
  assumes "readable t"
  shows "traverse_file_entries pil t refs th output_folder s =
     (None, visit_all pil refs th output_folder (walk_stack [t]) s)"
  using assms by (simp add: traverse_walk walk_readable walk_stack_leaves del: walk_stack.simps)

theorem traverse_visits_every_leaf_witness:
  "readable disk_root \<and> walk_stack [disk_root] = [readme_txt, a_jpg] \<and>
   traverse_file_entries scenario_pil disk_root one_reference 10 [] (loaded one_reference) =
     (None,
      snd (is_image_similar scenario_pil a_jpg one_reference 10 []
        (snd (is_image_similar scenario_pil readme_txt one_reference 10 [] (loaded one_reference)))))"
proof -
  have r: "readable disk_root" by (simp add: evaluate)
  have w: "walk_stack [disk_root] = [readme_txt, a_jpg]" by (simp add: evaluate)
  from traverse_visits_every_leaf [OF r, of scenario_pil one_reference 10 "[]" "loaded one_reference"]
    r w show ?thesis by simp
qed

text \<open>
  \<^bold>\<open>C11\<close> (a directory that fails to list). When some directory of the tree raises
  while its entries are listed, the exception leaves \<^verbatim>\<open>traverse_file_entries\<close>:
  the entries visited are an initial part of the leaves of the tree, and what lies after
  the failing directory is never scanned.
\<close>

theorem listing_error_ends_traversal:
  assumes "\<not> readable t"
  shows "\<exists>e visited. prefix visited (leaves t) \<and>
     traverse_file_entries pil t refs th output_folder s =
       (Some e, visit_all pil refs th output_folder visited s)"
proof -
  from assms obtain e where "snd (walk t) = Some e"
    using walk_None_iff(1) [of t] by (cases "snd (walk t)") auto
  then show ?thesis
    using walk_prefix_leaves(1) [of t] by (auto simp: traverse_walk)
qed

theorem listing_error_ends_traversal_witness:
  "\<not> readable damaged_root \<and> leaves damaged_root = [a_jpg] \<and>
   traverse_file_entries scenario_pil damaged_root one_reference 10 [] (loaded one_reference) =
     (Some BackEndError, loaded one_reference)"
proof -
  have r: "\<not> readable damaged_root" by (simp add: evaluate)
  have l: "leaves damaged_root = [a_jpg]" by (simp add: evaluate)
  have "traverse_file_entries scenario_pil damaged_root one_reference 10 [] (loaded one_reference) =
     (Some BackEndError, loaded one_reference)"
    by (simp add: evaluate)
  with listing_error_ends_traversal [OF r, of scenario_pil one_reference 10 "[]" "loaded one_reference"]
    r l show ?thesis by simp
qed

text \<open>
  \<^bold>\<open>C37\<close> (nothing is scanned after a directory that fails). When a sub-entry of a
  directory holds a directory that fails to list, the traversal of the directory raises,
  and what it has done does not depend on the entries that follow the failing one: it is
  the traversal of the directory cut off after that sub-entry. No entry behind the
  failure is opened, compared or recorded.
\<close>

theorem nothing_after_failed_directory:
  assumes "\<not> readable d"
  shows "fst (traverse_file_entries pil (FileEntry n l True g (pre @ d # post) err) refs th
        output_folder s) \<noteq> None \<and>
    traverse_file_entries pil (FileEntry n l True g (pre @ d # post) err) refs th output_folder s =
    traverse_file_entries pil (FileEntry n l True g (pre @ [d]) None) refs th output_folder s"
  using walk_entries_failed [OF assms, of pre post err]
  by (simp add: traverse_walk walk.simps)

theorem nothing_after_failed_directory_witness:
  "\<not> readable lost_found \<and>
   traverse_file_entries scenario_pil
       (FileEntry [] ''/'' True (Return None)
          ([directory ''pics'' ''/pics'' [near_png]] @ lost_found #
             [directory ''more'' ''/more'' [a_jpg]]) None)
       one_reference 10 [] (loaded one_reference) =
     (Some BackEndError,
      \<lparr>result = [(''refs/ref1.jpg'', [(''/pics/near.PNG'', Finite 3)])],
       stdout = [SimilarImageIdentified], files = []\<rparr>) \<and>
   is_image_similar scenario_pil a_jpg one_reference 10 [] (loaded one_reference) =
     (None,
      \<lparr>result = [(''refs/ref1.jpg'', [(''/pics/a.jpg'', Finite 0)])],
       stdout = [SimilarImageIdentified], files = []\<rparr>)"
proof -
  have r: "\<not> readable lost_found" by (simp add: evaluate)
  have "traverse_file_entries scenario_pil
      (FileEntry [] ''/'' True (Return None) ([directory ''pics'' ''/pics'' [near_png]] @ [lost_found])
         None) one_reference 10 [] (loaded one_reference) =
     (Some BackEndError,
      \<lparr>result = [(''refs/ref1.jpg'', [(''/pics/near.PNG'', Finite 3)])],
       stdout = [SimilarImageIdentified], files = []\<rparr>)"
    by (simp add: evaluate)
  moreover have "is_image_similar scenario_pil a_jpg one_reference 10 [] (loaded one_reference) =
     (None,
      \<lparr>result = [(''refs/ref1.jpg'', [(''/pics/a.jpg'', Finite 0)])],
       stdout = [SimilarImageIdentified], files = []\<rparr>)"
    by (simp add: evaluate)
  ultimately show ?thesis
    using nothing_after_failed_directory [OF r, of scenario_pil "[]" "''/''" "Return None"
        "[directory ''pics'' ''/pics'' [near_png]]" "[directory ''more'' ''/more'' [a_jpg]]" None
        one_reference 10 "[]" "loaded one_reference"] r
    by simp
qed

text \<open>
  \<^bold>\<open>C12\<close> (append-only result). From every state and however it ends, the traversal
  keeps the keys of the result in their order and only extends the list under each key:
  no recorded match is removed or changed.
\<close>

theorem traverse_result_grows:
  "grows (result s) (result (snd (traverse_file_entries pil t refs th output_folder s)))"
  by (rule traverse_invariant [where I = "\<lambda>s'. grows (result s) (result s')"])
     (auto intro: grows_trans is_image_similar_grows)

text \<open>
  \<^bold>\<open>C13\<close> (discovery order). From a state in which every reference is a key, the
  list of a reference after the traversal is its list before, followed by the matches of
  the leaves in the order in which the walker yields them.
\<close>

theorem matches_in_discovery_order:
  assumes "ready refs s"
  shows "map_of (result (snd (traverse_file_entries pil root_entry refs t output_folder s))) k =
     map_option (\<lambda>xs. xs @ concat (map (found pil refs t output_folder k) (fst (walk root_entry))))
       (map_of (result s) k)"
  using assms by (simp add: traverse_walk visit_all_effects map_of_scan_effects)

theorem matches_in_discovery_order_witness:
  "ready one_reference (loaded one_reference) \<and>
   fst (walk ordered_root) = [near_png, a_jpg] \<and>
   map_of (result (snd (traverse_file_entries scenario_pil ordered_root one_reference 10 []
     (loaded one_reference)))) ''refs/ref1.jpg'' =
     Some [(''/pics/near.PNG'', Finite 3), (''/pics/a.jpg'', Finite 0)]"
proof -
  have r: "ready one_reference (loaded one_reference)"
    and w: "fst (walk ordered_root) = [near_png, a_jpg]"
    by (simp_all add: evaluate)
  have "found scenario_pil one_reference 10 [] ''refs/ref1.jpg'' near_png =
      [(''/pics/near.PNG'', Finite 3)]"
    and "found scenario_pil one_reference 10 [] ''refs/ref1.jpg'' a_jpg =
      [(''/pics/a.jpg'', Finite 0)]"
    and "map_of (result (loaded one_reference)) ''refs/ref1.jpg'' = Some []"
    by (simp_all add: evaluate)
  with matches_in_discovery_order [OF r, of scenario_pil ordered_root 10 "[]" "''refs/ref1.jpg''"]
    r w
  show ?thesis by simp
qed

end
