(* ===== verification/Scan.thy ===== *)
theory Scan
  imports Traversal
begin

text \<open>
  \<^verbatim>\<open>find_similar_images\<close>: opening the disk image, the Reference Set Loader and the
  call of the traversal, over the record \<open>host\<close> of theory \<open>Vfs\<close>
  (\<^verbatim>\<open>Resolver.OpenFileSystem\<close> on the path specification built from the disk
  image path, lines 44 to 56, and \<^verbatim>\<open>os.listdir\<close>).

  Opening the file system and fetching the root entry are outside every \<^verbatim>\<open>try\<close>
  block, so their exceptions leave the function (\<open>Raise\<close>), and so does the
  \<^verbatim>\<open>AttributeError\<close> with which \<^verbatim>\<open>traverse_file_entries\<close> answers a root
  entry that is \<^verbatim>\<open>None\<close> (line 143, \<^verbatim>\<open>file_entry.IsDirectory()\<close>); an exception while the
  references are loaded is caught, reported, and the function returns \<^verbatim>\<open>False\<close>
  without scanning. The loader writes the caller's \<open>result\<close> dictionary as it goes, so
  the keys of the references loaded before a failure stay in it.

  The lemmas establish what the loader leaves behind (\<open>ready\<close>, and \<open>fresh\<close>: every
  list empty when it started from the empty dictionary), which names it loads
  (\<open>reference_paths\<close>, \<open>is_reference_iff\<close>), the shape of a scan
  (\<open>find_similar_images_cases\<close>) and the rule for its invariants
  (\<open>find_similar_images_invariant\<close>). The theorems state the contract of the loader
  and of the scan, what the function does when a step fails, and where the filter of the
  loader and the candidate filter differ.
\<close>

section \<open>Definitions\<close>

text \<open>The reference filter: \<^verbatim>\<open>filename.lower().endswith((...))\<close>.\<close>

definition reference_suffixes :: "string list" where
  "reference_suffixes = [''.jpg'', ''.jpeg'', ''.png'', ''.bmp'', ''.gif'', ''.tiff'']"

definition is_reference :: "string \<Rightarrow> bool" where
  "is_reference filename = endswith (str_lower filename) reference_suffixes"

text \<open>The loop \<^verbatim>\<open>for filename in os.listdir(reference_image_folder_path)\<close>.\<close>

fun load_reference_files ::
  "'img pil \<Rightarrow> string \<Rightarrow> string list \<Rightarrow> (string, 'img) dict \<Rightarrow> 'img state \<Rightarrow>
     (string, 'img) dict outcome \<times> 'img state" where
  "load_reference_files pil reference_image_folder_path [] reference_image_list s =
     (Return reference_image_list, s)"
| "load_reference_files pil reference_image_folder_path (filename # filenames)
      reference_image_list s =
     (if is_reference filename then
        (let file_path = path_join reference_image_folder_path filename in
         case Image_open pil file_path of
           Inl e \<Rightarrow> (Raise e, s)
         | Inr img \<Rightarrow>
             load_reference_files pil reference_image_folder_path filenames
               (dict_setitem file_path img reference_image_list)
               (s\<lparr>result := dict_setitem file_path [] (result s)\<rparr>))
      else
        load_reference_files pil reference_image_folder_path filenames reference_image_list s)"

text \<open>The body of the \<^verbatim>\<open>try\<close> block: the listing, then the loop from an empty dictionary.\<close>

definition load_reference_images ::
  "host \<Rightarrow> 'img pil \<Rightarrow> string \<Rightarrow> 'img state \<Rightarrow> (string, 'img) dict outcome \<times> 'img state" where
  "load_reference_images host pil reference_image_folder_path s =
     (case listdir host reference_image_folder_path of
        Inl e \<Rightarrow> (Raise e, s)
      | Inr filenames \<Rightarrow> load_reference_files pil reference_image_folder_path filenames [] s)"

definition find_similar_images ::
  "host \<Rightarrow> 'img pil \<Rightarrow> string \<Rightarrow> string \<Rightarrow> int \<Rightarrow> string \<Rightarrow> 'img state \<Rightarrow>
     bool option outcome \<times> 'img state" where
  "find_similar_images host pil disk_img_path reference_image_folder_path similarity_threshold
      output_folder s =
     (case OpenFileSystem host disk_img_path of
        Inl e \<Rightarrow> (Raise e, s)
      | Inr file_system \<Rightarrow>
          (let s1 = py_print [FileSystemParseCompleted] s in
           case load_reference_images host pil reference_image_folder_path s1 of
             (Inl e, s2) \<Rightarrow>
               (Return (Some False),
                py_print [ErrorWhileLoadingImage, ErrorDetails e, Traceback e] s2)
           | (Inr reference_image_list, s2) \<Rightarrow>
               (let s3 = py_print [ReferenceImagesLoadingCompleted] s2 in
                case GetRootFileEntry file_system of
                  Inl e \<Rightarrow> (Raise e, s3)
                | Inr root_file_entry \<Rightarrow>
                    (let s4 = py_print [DiskRootDirectoryLoadingCompleted, StartScanning] s3 in
                     case root_file_entry of
                       None \<Rightarrow> (Raise AttributeError, s4)
                     | Some file_entry \<Rightarrow>
                         (case traverse_file_entries pil file_entry reference_image_list
                                 similarity_threshold output_folder s4 of
                            (Some e, s5) \<Rightarrow> (Raise e, s5)
                          | (None, s5) \<Rightarrow> (Return None, s5))))))"

text \<open>The references a folder listing loads: the paths of the names that pass the filter.\<close>

definition reference_paths :: "string \<Rightarrow> string list \<Rightarrow> string list" where
  "reference_paths folder filenames = map (path_join folder) (filter is_reference filenames)"

text \<open>The image library opens the file at a path.\<close>

definition opens :: "'img pil \<Rightarrow> string \<Rightarrow> bool" where
  "opens pil path \<longleftrightarrow> \<not> isl (Image_open pil path)"

text \<open>The result dictionary holds exactly the references, each with an empty list.\<close>

definition fresh :: "(string, 'img) dict \<Rightarrow> 'img state \<Rightarrow> bool" where
  "fresh refs s \<longleftrightarrow> result s = map (\<lambda>p. (fst p, [])) refs"

lemmas scan_defs [evaluate] =
  reference_suffixes_def is_reference_def load_reference_images_def find_similar_images_def
  reference_paths_def opens_def fresh_def

section \<open>The reference filter\<close>

lemma reference_suffixes_eq: "reference_suffixes = valid_image_extensions"
  by (simp add: reference_suffixes_def valid_image_extensions_def)

lemma is_reference_iff:
  "is_reference filename \<longleftrightarrow>
     (\<exists>stem ext. filename = stem @ ext \<and> str_lower ext \<in> set reference_suffixes)"
  unfolding is_reference_def endswith_iff suffix_str_lower_iff by blast

section \<open>Loading the references\<close>

lemma reference_paths_simps [simp]:
  "reference_paths folder [] = []"
  "reference_paths folder (filename # filenames) =
     (if is_reference filename then path_join folder filename # reference_paths folder filenames
      else reference_paths folder filenames)"
  "reference_paths folder (filenames @ filenames') =
     reference_paths folder filenames @ reference_paths folder filenames'"
  by (simp_all add: reference_paths_def)

lemma load_reference_files_frame [frame]:
  "stdout (snd (load_reference_files pil folder filenames refs s)) = stdout s"
  "files (snd (load_reference_files pil folder filenames refs s)) = files s"
  by (induction filenames arbitrary: refs s) (auto simp: Let_def split: sum.splits)

text \<open>
  An invariant of the loop: what holds of the references and the state before the loop and
  is kept by loading one reference holds when the loop returns.
\<close>

lemma load_reference_files_invariant:
  assumes "load_reference_files pil folder filenames refs s = (Return refs', s')"
    and "I refs s"
    and step: "\<And>k img refs s. Image_open pil k = Return img \<Longrightarrow> I refs s \<Longrightarrow>
      I (dict_setitem k img refs) (s\<lparr>result := dict_setitem k [] (result s)\<rparr>)"
  shows "I refs' s'"
  using assms(1,2)
proof (induction filenames arbitrary: refs s)
  case Nil
  then show ?case by simp
next
  case (Cons filename filenames)
  show ?case
  proof (cases "is_reference filename")
    case True
    with Cons.prems(1) obtain img where img: "Image_open pil (path_join folder filename) = Return img"
      and rest: "load_reference_files pil folder filenames
         (dict_setitem (path_join folder filename) img refs)
         (s\<lparr>result := dict_setitem (path_join folder filename) [] (result s)\<rparr>) = (Return refs', s')"
      by (auto simp: Let_def split: sum.splits)
    from Cons.prems(2) show ?thesis
      by (intro Cons.IH [OF rest] step [OF img])
  next
    case False
    with Cons show ?thesis by simp
  qed
qed

text \<open>The same for a property of the state alone, whether the loop returns or raises.\<close>

lemma load_reference_files_state_invariant:
  assumes "I s"
    and "\<And>k s. I s \<Longrightarrow> I (s\<lparr>result := dict_setitem k [] (result s)\<rparr>)"
  shows "I (snd (load_reference_files pil folder filenames refs s))"
  using assms by (induction filenames arbitrary: refs s) (auto simp: Let_def split: sum.splits)

lemma load_reference_files_append:
  "load_reference_files pil folder (filenames @ filenames') refs s =
     (case load_reference_files pil folder filenames refs s of
        (Inl e, s') \<Rightarrow> (Raise e, s')
      | (Inr refs', s') \<Rightarrow> load_reference_files pil folder filenames' refs' s')"
  by (induction filenames arbitrary: refs s) (auto simp: Let_def split: sum.splits)

lemma load_reference_files_none:
  "reference_paths folder filenames = [] \<Longrightarrow>
   load_reference_files pil folder filenames refs s = (Return refs, s)"
  by (induction filenames) (auto split: if_splits)

lemma load_reference_files_opens:
  assumes "list_all (opens pil) (reference_paths folder filenames)"
  obtains refs' s' where "load_reference_files pil folder filenames refs s = (Return refs', s')"
proof -
  from assms have "\<not> isl (fst (load_reference_files pil folder filenames refs s))"
    by (induction filenames arbitrary: refs s) (auto simp: Let_def opens_def split: sum.splits)
  then obtain refs' where "fst (load_reference_files pil folder filenames refs s) = Return refs'"
    by (cases "fst (load_reference_files pil folder filenames refs s)") auto
  then show ?thesis
    by (intro that [of refs' "snd (load_reference_files pil folder filenames refs s)"])
       (simp add: prod_eq_iff)
qed

lemma ready_setitem:
  "ready refs s \<Longrightarrow> ready (dict_setitem k v refs) (s\<lparr>result := dict_setitem k [] (result s)\<rparr>)"
  by (auto simp: ready_def dict_keys_setitem)

lemma fresh_setitem:
  assumes "fresh refs s"
  shows "fresh (dict_setitem k v refs) (s\<lparr>result := dict_setitem k [] (result s)\<rparr>)"
proof -
  have "dict_setitem k [] (map (\<lambda>p. (fst p, [])) refs) = map (\<lambda>p. (fst p, [])) (dict_setitem k v refs)"
    by (induction refs) (auto simp: dict_setitem_def)
  with assms show ?thesis by (simp add: fresh_def)
qed

lemma load_reference_files_ready:
  assumes "load_reference_files pil folder filenames refs s = (Return refs', s')"
    and "ready refs s"
  shows "ready refs' s'"
  using assms by (rule load_reference_files_invariant) (rule ready_setitem)

lemma load_reference_files_fresh:
  assumes "load_reference_files pil folder filenames refs s = (Return refs', s')"
    and "fresh refs s"
  shows "fresh refs' s'"
  using assms by (rule load_reference_files_invariant) (rule fresh_setitem)

lemma load_reference_files_wf:
  "wf_dict (result s) \<Longrightarrow> wf_dict (result (snd (load_reference_files pil folder filenames refs s)))"
  by (induction filenames arbitrary: refs s)
     (auto simp: Let_def wf_dict_setitem split: sum.splits)

lemma load_reference_files_keys:
  "load_reference_files pil folder filenames refs s = (Return refs', s') \<Longrightarrow>
   set (dict_keys refs') = set (dict_keys refs) \<union> set (reference_paths folder filenames)"
  by (induction filenames arbitrary: refs s)
     (auto simp: Let_def reference_paths_def dict_keys_setitem split: sum.splits if_splits)

lemma load_reference_files_images:
  assumes "load_reference_files pil folder filenames refs s = (Return refs', s')"
    and "list_all (\<lambda>p. Image_open pil (fst p) = Return (snd p)) refs"
  shows "list_all (\<lambda>p. Image_open pil (fst p) = Return (snd p)) refs'"
  using assms
  by (rule load_reference_files_invariant
        [where I = "\<lambda>refs s. list_all (\<lambda>p. Image_open pil (fst p) = Return (snd p)) refs"])
     (simp add: list_all_setitem)

lemma load_reference_files_refs_wf:
  assumes "load_reference_files pil folder filenames refs s = (Return refs', s')"
    and "wf_dict refs"
  shows "wf_dict refs'"
  using assms
  by (rule load_reference_files_invariant [where I = "\<lambda>refs s. wf_dict refs"])
     (simp add: wf_dict_setitem)

lemma load_reference_files_keeps_keys:
  "set (dict_keys (result s)) \<subseteq>
     set (dict_keys (result (snd (load_reference_files pil folder filenames refs s))))"
  by (rule load_reference_files_state_invariant
        [where I = "\<lambda>s'. set (dict_keys (result s)) \<subseteq> set (dict_keys (result s'))"])
     (auto simp: dict_keys_setitem)

lemma load_reference_files_enters:
  assumes "load_reference_files pil folder filenames refs s = (Return refs', s')"
  shows "set (reference_paths folder filenames) \<subseteq> set (dict_keys (result s'))"
  using assms
proof (induction filenames arbitrary: refs s)
  case Nil
  then show ?case by simp
next
  case (Cons filename filenames)
  show ?case
  proof (cases "is_reference filename")
    case True
    let ?path = "path_join folder filename"
    let ?s = "s\<lparr>result := dict_setitem ?path [] (result s)\<rparr>"
    from True Cons.prems obtain img where rest:
      "load_reference_files pil folder filenames (dict_setitem ?path img refs) ?s = (Return refs', s')"
      by (auto simp: Let_def split: sum.splits)
    have "?path \<in> set (dict_keys (result ?s))"
      by (simp add: dict_keys_setitem)
    with load_reference_files_keeps_keys [of ?s pil folder filenames "dict_setitem ?path img refs"]
    have "?path \<in> set (dict_keys (result s'))"
      by (auto simp: rest)
    with True Cons.IH [OF rest] show ?thesis by simp
  next
    case False
    with Cons show ?thesis by simp
  qed
qed

lemma load_reference_images_Return:
  assumes "load_reference_images host pil folder s = (Return refs, s')"
  obtains filenames where "listdir host folder = Return filenames"
    and "load_reference_files pil folder filenames [] s = (Return refs, s')"
  using assms by (auto simp: load_reference_images_def split: sum.splits)

lemma load_reference_images_ready:
  assumes "load_reference_images host pil folder s = (Return refs, s')"
    and "wf_dict (result s)"
  shows "ready refs s'"
proof -
  from assms(1) obtain filenames where
    "load_reference_files pil folder filenames [] s = (Return refs, s')"
    by (rule load_reference_images_Return)
  moreover from assms(2) have "ready [] s" by (simp add: ready_def)
  ultimately show ?thesis by (rule load_reference_files_ready)
qed

lemma load_reference_images_fresh:
  assumes "load_reference_images host pil folder s = (Return refs, s')" and "result s = []"
  shows "result s' = map (\<lambda>p. (fst p, [])) refs"
proof -
  from assms(1) obtain filenames where
    "load_reference_files pil folder filenames [] s = (Return refs, s')"
    by (rule load_reference_images_Return)
  moreover from assms(2) have "fresh [] s" by (simp add: fresh_def)
  ultimately have "fresh refs s'" by (rule load_reference_files_fresh)
  then show ?thesis by (simp add: fresh_def)
qed

lemma load_reference_images_frame [frame]:
  "stdout (snd (load_reference_images host pil folder s)) = stdout s"
  "files (snd (load_reference_images host pil folder s)) = files s"
  by (simp_all add: load_reference_images_def load_reference_files_frame split: sum.splits)

section \<open>The whole scan\<close>

lemma find_similar_images_listing_fails:
  assumes "OpenFileSystem host disk = Return file_system"
    and "listdir host folder = Raise e"
  shows "find_similar_images host pil disk folder t output_folder s =
     (Return (Some False),
      py_print [FileSystemParseCompleted, ErrorWhileLoadingImage, ErrorDetails e, Traceback e] s)"
  using assms by (simp add: find_similar_images_def load_reference_images_def py_print_def)

lemma find_similar_images_scanned:
  assumes "OpenFileSystem host disk = Return file_system"
    and "load_reference_images host pil folder (py_print [FileSystemParseCompleted] s) =
      (Return refs, s2)"
    and "GetRootFileEntry file_system = Return (Some root_file_entry)"
    and "s4 = py_print [ReferenceImagesLoadingCompleted, DiskRootDirectoryLoadingCompleted,
      StartScanning] s2"
  shows "find_similar_images host pil disk folder t output_folder s =
     (case fst (traverse_file_entries pil root_file_entry refs t output_folder s4) of
        Some e \<Rightarrow> Raise e | None \<Rightarrow> Return None,
      snd (traverse_file_entries pil root_file_entry refs t output_folder s4))"
  using assms
  by (simp add: find_similar_images_def py_print_def split: prod.splits option.splits)

text \<open>
  The shape of a scan: either it stops before the traversal, with an outcome that depends
  neither on the threshold nor on the output folder, or it is the traversal from a state
  in which every reference is a key.
\<close>

lemma find_similar_images_cases:
  assumes "wf_dict (result s)"
  obtains (stopped) r s' where
      "\<And>t output_folder. find_similar_images host pil disk folder t output_folder s = (r, s')"
  | (scanned) root_file_entry refs s' where "ready refs s'"
      and "\<And>t output_folder. find_similar_images host pil disk folder t output_folder s =
        (case fst (traverse_file_entries pil root_file_entry refs t output_folder s') of
           Some e \<Rightarrow> Raise e | None \<Rightarrow> Return None,
         snd (traverse_file_entries pil root_file_entry refs t output_folder s'))"
proof (cases "OpenFileSystem host disk")
  case (Inl e)
  then show ?thesis by (intro stopped) (simp add: find_similar_images_def)
next
  case (Inr file_system)
  obtain l s2 where load:
    "load_reference_images host pil folder (py_print [FileSystemParseCompleted] s) = (l, s2)"
    by (cases "load_reference_images host pil folder (py_print [FileSystemParseCompleted] s)")
  show ?thesis
  proof (cases l)
    case (Inl e)
    with Inr load show ?thesis by (intro stopped) (simp add: find_similar_images_def)
  next
    case refs: (Inr refs)
    show ?thesis
    proof (cases "GetRootFileEntry file_system")
      case (Inl e)
      with Inr load refs show ?thesis by (intro stopped) (simp add: find_similar_images_def)
    next
      case root: (Inr root)
      show ?thesis
      proof (cases root)
        case None
        with Inr load refs root show ?thesis
          by (intro stopped) (simp add: find_similar_images_def)
      next
        case (Some root_file_entry)
        from load refs assms have "ready refs (py_print [ReferenceImagesLoadingCompleted,
            DiskRootDirectoryLoadingCompleted, StartScanning] s2)"
          by (simp add: load_reference_images_ready)
        then show ?thesis
          using find_similar_images_scanned [OF Inr load [unfolded refs] root [unfolded Some] refl]
          by (rule scanned)
      qed
    qed
  qed
qed

text \<open>
  An invariant of the scan in two phases: \<open>I\<close> holds while the references are loaded,
  \<open>J\<close> of the state the function leaves.
\<close>

lemma find_similar_images_invariant:
  assumes "I s"
    and printed: "\<And>ms s. I s \<Longrightarrow> SimilarImageIdentified \<notin> set ms \<Longrightarrow> I (py_print ms s)"
    and entered: "\<And>k s. I s \<Longrightarrow> I (s\<lparr>result := dict_setitem k [] (result s)\<rparr>)"
    and scanned: "\<And>root_file_entry refs s. I s \<Longrightarrow>
      J (snd (traverse_file_entries pil root_file_entry refs t output_folder s))"
    and stopped: "\<And>s. I s \<Longrightarrow> J s"
  shows "J (snd (find_similar_images host pil disk folder t output_folder s))"
proof -
  let ?s1 = "py_print [FileSystemParseCompleted] s"
  from assms(1) have "I ?s1" by (simp add: printed)
  then have "I (snd (load_reference_images host pil folder ?s1))"
    by (auto simp: load_reference_images_def split: sum.splits
        intro: load_reference_files_state_invariant entered)
  with assms(1) show ?thesis
    by (auto simp: find_similar_images_def Let_def split: sum.splits prod.splits option.splits
        dest!: sndI intro!: stopped scanned printed)
qed

section \<open>Properties of the scan\<close>

text \<open>
  \<^bold>\<open>C6\<close> (the scan implements its contract). When the file system opens, the
  references load and the root entry is returned, \<^verbatim>\<open>find_similar_images\<close> raises
  the listing error the walker ends with, or returns \<^verbatim>\<open>None\<close>, and leaves the
  state of the contract: the three progress lines, then the effect of every leaf the walker
  yields, in order.
\<close>

theorem scan_implements_contract:
  assumes "OpenFileSystem host disk = Return file_system"
    and "GetRootFileEntry file_system = Return (Some root_file_entry)"
    and "load_reference_images host pil folder (py_print [FileSystemParseCompleted] s) = (Return refs, s')"
    and "wf_dict (result s)"
  shows "find_similar_images host pil disk folder t output_folder s =
     (case snd (walk root_file_entry) of Some e \<Rightarrow> Raise e | None \<Rightarrow> Return None,
      scan_effects pil refs t output_folder (fst (walk root_file_entry))
        (py_print [ReferenceImagesLoadingCompleted, DiskRootDirectoryLoadingCompleted,
           StartScanning] s'))"
proof -
  from assms(3,4) have "ready refs s'"
    by (auto intro: load_reference_images_ready)
  then have "ready refs (py_print [DiskRootDirectoryLoadingCompleted, StartScanning]
      (py_print [ReferenceImagesLoadingCompleted] s'))"
    by simp
  with assms(1-3) show ?thesis
    by (simp add: find_similar_images_def traverse_walk visit_all_effects py_print_def
        split: option.splits)
qed

theorem scan_implements_contract_witness:
  "OpenFileSystem scenario_host ''disk.img'' = Return (FileSystem (Return (Some disk_root))) \<and>
   GetRootFileEntry (FileSystem (Return (Some disk_root))) = Return (Some disk_root) \<and>
   load_reference_images scenario_host scenario_pil ''refs''
       (py_print [FileSystemParseCompleted] initial) =
     (Return one_reference, py_print [FileSystemParseCompleted] (loaded one_reference)) \<and>
   wf_dict (result (initial :: grid state)) \<and>
   fst (find_similar_images scenario_host scenario_pil ''disk.img'' ''refs'' 10 [] initial) =
     Return None \<and>
   result (snd (find_similar_images scenario_host scenario_pil ''disk.img'' ''refs'' 10 []
     initial)) = [(''refs/ref1.jpg'', [(''/pics/a.jpg'', Finite 0)])]"
proof -
  have o: "OpenFileSystem scenario_host ''disk.img'' = Return (FileSystem (Return (Some disk_root)))"
    and g: "GetRootFileEntry (FileSystem (Return (Some disk_root))) = Return (Some disk_root)"
    and l: "load_reference_images scenario_host scenario_pil ''refs''
        (py_print [FileSystemParseCompleted] initial) =
      (Return one_reference, py_print [FileSystemParseCompleted] (loaded one_reference))"
    and w: "wf_dict (result (initial :: grid state))"
    by (simp_all add: evaluate)
  have "walk disk_root = ([readme_txt, a_jpg], None)"
    by (simp add: evaluate)
  moreover have "result (scan_effects scenario_pil one_reference 10 [] [readme_txt, a_jpg]
      (py_print [ReferenceImagesLoadingCompleted, DiskRootDirectoryLoadingCompleted,
         StartScanning] (py_print [FileSystemParseCompleted] (loaded one_reference)))) =
      [(''refs/ref1.jpg'', [(''/pics/a.jpg'', Finite 0)])]"
    by (simp add: evaluate)
  ultimately show ?thesis
    using scan_implements_contract [OF o g l w, of 10 "[]"] o g l w by simp
qed

text \<open>
  \<^bold>\<open>C10\<close> (the reference loader). When the folder lists and the loader returns,
  started on an empty result, then the reference dictionary holds exactly the paths of the
  listed names with an image suffix, each once and with the image the library opened for
  it, and the result dictionary holds the same keys in the same order, each with an empty
  list.
\<close>

theorem loader_contract:
  assumes "listdir host folder = Return filenames"
    and "load_reference_images host pil folder s = (Return refs, s')"
    and "result s = []"
  shows "set (dict_keys refs) = set (reference_paths folder filenames) \<and> wf_dict refs \<and>
    list_all (\<lambda>p. Image_open pil (fst p) = Return (snd p)) refs \<and>
    result s' = map (\<lambda>p. (fst p, [])) refs"
proof -
  from assms(1,2) have load: "load_reference_files pil folder filenames [] s = (Return refs, s')"
    by (simp add: load_reference_images_def)
  from assms(3) have "fresh [] s"
    by (simp add: fresh_def)
  with load have "fresh refs s'"
    by (rule load_reference_files_fresh)
  with load show ?thesis
    by (simp add: load_reference_files_keys load_reference_files_images
        load_reference_files_refs_wf fresh_def)
qed

theorem loader_contract_witness:
  "listdir scenario_host ''refs'' = Return [''ref1.jpg'', ''notes.txt''] \<and>
   load_reference_images scenario_host scenario_pil ''refs'' initial =
     (Return one_reference, loaded one_reference) \<and>
   result (initial :: grid state) = [] \<and>
   set (dict_keys one_reference) = set (reference_paths ''refs'' [''ref1.jpg'', ''notes.txt'']) \<and>
   Image_open scenario_pil ''refs/ref1.jpg'' = Return ref1_img"
proof -
  have l: "listdir scenario_host ''refs'' = Return [''ref1.jpg'', ''notes.txt'']"
    and r: "load_reference_images scenario_host scenario_pil ''refs'' initial =
      (Return one_reference, loaded one_reference)"
    and i: "result (initial :: grid state) = []"
    by (simp_all add: evaluate)
  from loader_contract [OF l r i] l r i show ?thesis
    by (simp add: one_reference_def)
qed

text \<open>
  \<^bold>\<open>C5\<close> (every reference is a key). When the file system opens, the reference
  folder lists and every reference image of the listing opens, then after
  \<^verbatim>\<open>find_similar_images\<close> every reference is a key of the result dictionary,
  whether or not anything matched it and however the scan ended.
\<close>

theorem every_reference_is_a_key:
  assumes "OpenFileSystem host disk = Return file_system"
    and "listdir host folder = Return filenames"
    and "list_all (opens pil) (reference_paths folder filenames)"
  shows "set (reference_paths folder filenames) \<subseteq>
     set (dict_keys (result (snd (find_similar_images host pil disk folder t output_folder s))))"
proof -
  let ?s1 = "py_print [FileSystemParseCompleted] s"
  from assms(3) obtain refs s2 where load:
    "load_reference_files pil folder filenames [] ?s1 = (Return refs, s2)"
    by (rule load_reference_files_opens)
  then have "set (reference_paths folder filenames) \<subseteq> set (dict_keys (result s2))"
    by (rule load_reference_files_enters)
  with assms(1,2) load show ?thesis
    by (auto simp: find_similar_images_def load_reference_images_def Let_def traverse_keys
        split: sum.splits prod.splits option.splits dest!: sndI)
qed

theorem every_reference_is_a_key_witness:
  "OpenFileSystem scenario_host ''disk.img'' = Return (FileSystem (Return (Some disk_root))) \<and>
   listdir scenario_host ''refs'' = Return [''ref1.jpg'', ''notes.txt''] \<and>
   list_all (opens scenario_pil) (reference_paths ''refs'' [''ref1.jpg'', ''notes.txt'']) \<and>
   reference_paths ''refs'' [''ref1.jpg'', ''notes.txt''] = [''refs/ref1.jpg''] \<and>
   ''refs/ref1.jpg'' \<in>
     set (dict_keys (result (snd (find_similar_images scenario_host scenario_pil ''disk.img''
       ''refs'' 10 [] initial))))"
proof -
  have p: "reference_paths ''refs'' [''ref1.jpg'', ''notes.txt''] = [''refs/ref1.jpg'']"
    by (simp add: evaluate)
  have o: "OpenFileSystem scenario_host ''disk.img'' = Return (FileSystem (Return (Some disk_root)))"
    and l: "listdir scenario_host ''refs'' = Return [''ref1.jpg'', ''notes.txt'']"
    and i: "list_all (opens scenario_pil) (reference_paths ''refs'' [''ref1.jpg'', ''notes.txt''])"
    unfolding p by (simp_all add: evaluate opens_def)
  from every_reference_is_a_key [OF o l i, of 10 "[]" initial] o l i p show ?thesis
    by simp
qed

text \<open>
  \<^bold>\<open>C18\<close> (a reference that does not open). When a reference image of the listing
  cannot be opened, \<^verbatim>\<open>find_similar_images\<close> prints the error and returns
  \<^verbatim>\<open>False\<close> without raising and without scanning; the references loaded before
  the failing one stay in the result dictionary as keys.
\<close>

theorem reference_load_failure_returns_False:
  assumes "OpenFileSystem host disk = Return file_system"
    and "listdir host folder = Return (loaded_names @ filename # filenames)"
    and "list_all (opens pil) (reference_paths folder loaded_names)"
    and "is_reference filename"
    and "Image_open pil (path_join folder filename) = Raise e"
  shows "fst (find_similar_images host pil disk folder t output_folder s) = Return (Some False) \<and>
     stdout (snd (find_similar_images host pil disk folder t output_folder s)) =
       stdout s @ [FileSystemParseCompleted, ErrorWhileLoadingImage, ErrorDetails e, Traceback e] \<and>
     set (reference_paths folder loaded_names) \<subseteq>
       set (dict_keys (result (snd (find_similar_images host pil disk folder t output_folder s))))"
proof -
  let ?s1 = "py_print [FileSystemParseCompleted] s"
  from assms(3) obtain refs s2 where load:
    "load_reference_files pil folder loaded_names [] ?s1 = (Return refs, s2)"
    by (rule load_reference_files_opens)
  with assms(4,5) have "load_reference_files pil folder (loaded_names @ filename # filenames) [] ?s1 =
      (Raise e, s2)"
    by (simp add: load_reference_files_append)
  with assms(1,2) have "find_similar_images host pil disk folder t output_folder s =
      (Return (Some False), py_print [ErrorWhileLoadingImage, ErrorDetails e, Traceback e] s2)"
    by (simp add: find_similar_images_def load_reference_images_def)
  moreover from load have "set (reference_paths folder loaded_names) \<subseteq> set (dict_keys (result s2))"
    by (rule load_reference_files_enters)
  moreover from load_reference_files_frame(1) [of pil folder loaded_names "[]" ?s1] load
  have "stdout s2 = stdout s @ [FileSystemParseCompleted]"
    by simp
  ultimately show ?thesis
    by simp
qed

theorem reference_load_failure_returns_False_witness:
  "OpenFileSystem partial_host ''disk.img'' = Return (FileSystem (Return (Some disk_root))) \<and>
   listdir partial_host ''refs'' = Return ([''ref1.jpg''] @ ''missing.png'' # [''ref2.jpg'']) \<and>
   list_all (opens scenario_pil) (reference_paths ''refs'' [''ref1.jpg'']) \<and>
   is_reference ''missing.png'' \<and>
   Image_open scenario_pil (path_join ''refs'' ''missing.png'') = Raise OSError \<and>
   find_similar_images partial_host scenario_pil ''disk.img'' ''refs'' 10 [] initial =
     (Return (Some False),
      \<lparr>result = [(''refs/ref1.jpg'', [])],
       stdout = [FileSystemParseCompleted, ErrorWhileLoadingImage, ErrorDetails OSError,
                 Traceback OSError],
       files = []\<rparr>)"
proof -
  have o: "OpenFileSystem partial_host ''disk.img'' = Return (FileSystem (Return (Some disk_root)))"
    and l: "listdir partial_host ''refs'' = Return ([''ref1.jpg''] @ ''missing.png'' # [''ref2.jpg''])"
    and i: "list_all (opens scenario_pil) (reference_paths ''refs'' [''ref1.jpg''])"
    and r: "is_reference ''missing.png''"
    and f: "Image_open scenario_pil (path_join ''refs'' ''missing.png'') = Raise OSError"
    by (simp_all add: evaluate opens_def)
  have "find_similar_images partial_host scenario_pil ''disk.img'' ''refs'' 10 [] initial =
     (Return (Some False),
      \<lparr>result = [(''refs/ref1.jpg'', [])],
       stdout = [FileSystemParseCompleted, ErrorWhileLoadingImage, ErrorDetails OSError,
                 Traceback OSError],
       files = []\<rparr>)"
    by (simp add: evaluate)
  with reference_load_failure_returns_False [OF o l i r f, of 10 "[]" initial] o l i r f
  show ?thesis by simp
qed

text \<open>
  \<^bold>\<open>C19\<close> (no reference images). When the reference folder holds no file with an
  image suffix, \<^verbatim>\<open>find_similar_images\<close> does not stop: it walks the whole tree
  and opens and decodes every candidate against an empty reference set.
\<close>

theorem zero_references_still_scanned:
  assumes "OpenFileSystem host disk = Return file_system"
    and "listdir host folder = Return filenames"
    and "reference_paths folder filenames = []"
    and "GetRootFileEntry file_system = Return (Some root_file_entry)"
  shows "find_similar_images host pil disk folder t output_folder s =
     (case snd (walk root_file_entry) of Some e \<Rightarrow> Raise e | None \<Rightarrow> Return None,
      visit_all pil [] t output_folder (fst (walk root_file_entry))
        (py_print [FileSystemParseCompleted, ReferenceImagesLoadingCompleted,
           DiskRootDirectoryLoadingCompleted, StartScanning] s))"
  using assms
  by (simp add: find_similar_images_def load_reference_images_def load_reference_files_none
      traverse_walk py_print_def split: option.splits)

theorem zero_references_still_scanned_witness:
  "OpenFileSystem empty_host ''disk.img'' = Return (FileSystem (Return (Some disk_root))) \<and>
   listdir empty_host ''refs'' = Return [''notes.txt''] \<and>
   reference_paths ''refs'' [''notes.txt''] = [] \<and>
   GetRootFileEntry (FileSystem (Return (Some disk_root))) = Return (Some disk_root) \<and>
   find_similar_images empty_host scenario_pil ''disk.img'' ''refs'' 10 [] initial =
     (Return None,
      \<lparr>result = [],
       stdout = [FileSystemParseCompleted, ReferenceImagesLoadingCompleted,
                 DiskRootDirectoryLoadingCompleted, StartScanning],
       files = []\<rparr>)"
proof -
  have o: "OpenFileSystem empty_host ''disk.img'' = Return (FileSystem (Return (Some disk_root)))"
    and l: "listdir empty_host ''refs'' = Return [''notes.txt'']"
    and p: "reference_paths ''refs'' [''notes.txt''] = []"
    and g: "GetRootFileEntry (FileSystem (Return (Some disk_root))) = Return (Some disk_root)"
    by (simp_all add: evaluate)
  have "visit_all scenario_pil [] 10 [] (fst (walk disk_root))
      (py_print [FileSystemParseCompleted, ReferenceImagesLoadingCompleted,
         DiskRootDirectoryLoadingCompleted, StartScanning] initial) =
      \<lparr>result = [],
       stdout = [FileSystemParseCompleted, ReferenceImagesLoadingCompleted,
                 DiskRootDirectoryLoadingCompleted, StartScanning],
       files = []\<rparr>"
    and "snd (walk disk_root) = None"
    by (simp_all add: evaluate)
  with zero_references_still_scanned [OF o l p g, of scenario_pil 10 "[]" initial] o l p g
  show ?thesis by simp
qed

text \<open>
  \<^bold>\<open>A disk image that does not open.\<close> An exception raised while the file
  system is opened leaves \<^verbatim>\<open>find_similar_images\<close> before anything is printed or
  entered into the result.
\<close>

theorem open_failure_propagates:
  assumes "OpenFileSystem host disk = Raise e"
  shows "find_similar_images host pil disk folder t output_folder s = (Raise e, s)"
  using assms by (simp add: find_similar_images_def)

theorem open_failure_propagates_witness:
  "OpenFileSystem scenario_host ''lost.img'' = Raise OSError \<and>
   find_similar_images scenario_host scenario_pil ''lost.img'' ''refs'' 10 [] initial =
     (Raise OSError, initial)"
proof -
  have o: "OpenFileSystem scenario_host ''lost.img'' = Raise OSError"
    by (simp add: evaluate)
  from open_failure_propagates [OF o, of scenario_pil "''refs''" 10 "[]" initial] o
  show ?thesis by simp
qed

text \<open>
  \<^bold>\<open>A file system without a root entry.\<close> When the provider returns
  \<^verbatim>\<open>None\<close> for the root entry, the two progress lines are printed and the
  traversal raises \<^verbatim>\<open>AttributeError\<close> on its first line, which leaves
  \<^verbatim>\<open>find_similar_images\<close> with the references loaded and nothing scanned.
\<close>

theorem missing_root_entry_raises:
  assumes "OpenFileSystem host disk = Return file_system"
    and "load_reference_images host pil folder (py_print [FileSystemParseCompleted] s) =
      (Return refs, s')"
    and "GetRootFileEntry file_system = Return None"
  shows "find_similar_images host pil disk folder t output_folder s =
     (Raise AttributeError,
      py_print [ReferenceImagesLoadingCompleted, DiskRootDirectoryLoadingCompleted, StartScanning]
        s')"
  using assms by (simp add: find_similar_images_def py_print_def)

theorem missing_root_entry_raises_witness:
  "OpenFileSystem rootless_host ''disk.img'' = Return (FileSystem (Return None)) \<and>
   load_reference_images rootless_host scenario_pil ''refs''
       (py_print [FileSystemParseCompleted] initial) =
     (Return one_reference, py_print [FileSystemParseCompleted] (loaded one_reference)) \<and>
   GetRootFileEntry (FileSystem (Return None)) = Return None \<and>
   find_similar_images rootless_host scenario_pil ''disk.img'' ''refs'' 10 [] initial =
     (Raise AttributeError,
      \<lparr>result = [(''refs/ref1.jpg'', [])],
       stdout = [FileSystemParseCompleted, ReferenceImagesLoadingCompleted,
                 DiskRootDirectoryLoadingCompleted, StartScanning],
       files = []\<rparr>)"
proof -
  have o: "OpenFileSystem rootless_host ''disk.img'' = Return (FileSystem (Return None))"
    and l: "load_reference_images rootless_host scenario_pil ''refs''
        (py_print [FileSystemParseCompleted] initial) =
      (Return one_reference, py_print [FileSystemParseCompleted] (loaded one_reference))"
    and g: "GetRootFileEntry (FileSystem (Return None)) = Return None"
    by (simp_all add: evaluate)
  from missing_root_entry_raises [OF o l g, of 10 "[]"] o l g show ?thesis
    by (simp add: evaluate)
qed

text \<open>
  \<^bold>\<open>C34\<close> (the two extension tests). Every location the candidate filter accepts
  (\<^verbatim>\<open>os.path.splitext\<close>, then membership) is also accepted by the filter of the
  reference loader (\<^verbatim>\<open>str.endswith\<close>).
\<close>

theorem candidate_filter_implies_reference_filter:
  assumes "is_candidate loc"
  shows "is_reference loc"
proof -
  from assms have "str_lower (snd (splitext loc)) \<in> set reference_suffixes"
    by (simp add: is_candidate_def Let_def valid_image_extensions_def reference_suffixes_def)
  moreover have "suffix (str_lower (snd (splitext loc))) (str_lower loc)"
    unfolding str_lower_def by (intro map_mono_suffix splitext_suffix)
  ultimately show ?thesis
    unfolding is_reference_def endswith_iff by blast
qed

theorem candidate_filter_implies_reference_filter_witness:
  "is_candidate ''/pics/near.PNG'' \<and> is_reference ''/pics/near.PNG''"
  using candidate_filter_implies_reference_filter [of "''/pics/near.PNG''"]
  by (simp add: evaluate)

text \<open>
  \<^bold>\<open>C35\<close> (where the two extension tests differ). The converse fails, and it fails
  exactly on the names that \<^verbatim>\<open>os.path.splitext\<close> gives no extension although
  they end in one: a string passes the filter of the reference loader and not the
  candidate filter if and only if it is one of the six extensions, in any case, behind a
  last path component that is empty or made of dots only, such as \<^verbatim>\<open>.jpg\<close> or
  \<^verbatim>\<open>pics/..PNG\<close>.
\<close>

theorem filters_differ_on_dot_names:
  "is_reference loc \<and> \<not> is_candidate loc \<longleftrightarrow>
     (\<exists>stem ext. loc = stem @ ext \<and> str_lower ext \<in> set valid_image_extensions \<and>
        \<not> list_ex (\<lambda>c. c \<noteq> CHR ''.'') (basename stem))"
proof
  assume "is_reference loc \<and> \<not> is_candidate loc"
  then obtain stem ext where "loc = stem @ ext" "str_lower ext \<in> set valid_image_extensions"
    and "\<not> is_candidate (stem @ ext)"
    by (auto simp: is_reference_iff reference_suffixes_eq)
  then show "\<exists>stem ext. loc = stem @ ext \<and> str_lower ext \<in> set valid_image_extensions \<and>
      \<not> list_ex (\<lambda>c. c \<noteq> CHR ''.'') (basename stem)"
    by (auto simp: is_candidate_stem_ext)
next
  assume "\<exists>stem ext. loc = stem @ ext \<and> str_lower ext \<in> set valid_image_extensions \<and>
      \<not> list_ex (\<lambda>c. c \<noteq> CHR ''.'') (basename stem)"
  then show "is_reference loc \<and> \<not> is_candidate loc"
    by (auto simp: is_reference_iff reference_suffixes_eq is_candidate_stem_ext)
qed

theorem filters_differ_on_dot_names_witness:
  "is_reference ''.jpg'' \<and> \<not> is_candidate ''.jpg'' \<and>
   is_reference ''pics/..PNG'' \<and> \<not> is_candidate ''pics/..PNG'' \<and>
   ''pics/..PNG'' = ''pics/.'' @ ''.PNG'' \<and> basename ''pics/.'' = ''.''"
  using filters_differ_on_dot_names [of "''.jpg''"] filters_differ_on_dot_names [of "''pics/..PNG''"]
  by (simp add: evaluate)

text \<open>
  \<^bold>\<open>The result stays a dictionary.\<close> \<^verbatim>\<open>find_similar_images\<close> keeps
  the result dictionary well formed: entering a reference that is already a key replaces
  its list and adds no second entry, and the traversal adds no key at all.
\<close>

theorem scan_preserves_wf:
  assumes "wf_dict (result s)"
  shows "wf_dict (result (snd (find_similar_images host pil disk folder t output_folder s)))"
  using assms
  by (rule find_similar_images_invariant [where I = "\<lambda>s. wf_dict (result s)"])
     (simp_all add: wf_dict_setitem)

theorem scan_preserves_wf_witness:
  "wf_dict (result (initial :: grid state)) \<and>
   wf_dict (result (snd (find_similar_images two_reference_host scenario_pil ''disk.img''
     ''refs'' 10 [] initial)))"
  using scan_preserves_wf [of initial two_reference_host scenario_pil "''disk.img''" "''refs''"
      10 "[]"]
  by (simp add: evaluate)

end
