(* ===== verification/Cli.thy ===== *)
theory Cli
  imports Scan
begin

text \<open>
  The main block of \<^verbatim>\<open>main.py\<close> (lines 150 to 214): the check of the number of
  arguments, \<^verbatim>\<open>getopt\<close>, the loop over the options, the check of the required
  parameters, the call of \<^verbatim>\<open>find_similar_images\<close> and the final report.

  \<open>getopt\<close> with \<open>do_shorts\<close> and \<open>short_has_arg\<close> is
  \<^verbatim>\<open>getopt.getopt\<close> of the standard library for short options (the program passes
  no long options, so every argument that starts with two dashes, except the separator
  \<^verbatim>\<open>--\<close>, raises), and \<open>py_int\<close> is \<^verbatim>\<open>int(arg)\<close> on ASCII strings:
  surrounding white space, a sign, and decimal digits that single underscores may group,
  at most \<open>int_max_str_digits\<close> of them (the limit of CPython 3.11 and later, at
  its default of 4300; earlier interpreters have no limit).

  How the program ends is a \<open>status\<close>: \<^verbatim>\<open>sys.exit(n)\<close> and running off
  the end of the script are \<open>Exit\<close>, an exception that nothing catches is
  \<open>Uncaught\<close>, which the interpreter turns into a traceback and exit code 1.

  The contracts are \<open>option_words\<close>, the printer of which \<open>getopt\<close> is the
  parser, \<open>last_arg\<close>, the argument of the last occurrence of an option,
  \<open>decimal\<close>, the value \<open>py_int\<close> reads from a string of digits,
  \<open>report_lines\<close>, what the loops of the final report print, and the projections
  \<open>stats\<close> and \<open>headers\<close> of a list of printed lines. The theorems give
  what the option loop leaves in the four variables, the status and the output of
  \<open>main\<close> on each of its paths, and relate the report to the result.
\<close>

section \<open>Definitions\<close>

subsection \<open>The standard library\<close>

text \<open>\<^verbatim>\<open>sub in s\<close> for strings: \<open>sub\<close> occurs in \<open>s\<close> as a substring.\<close>

definition str_contains :: "string \<Rightarrow> string \<Rightarrow> bool" where
  "str_contains s sub =
     list_ex (\<lambda>k. take (length sub) (drop k s) = sub) [0 ..< Suc (length s)]"

text \<open>
  \<^verbatim>\<open>short_has_arg(opt, shortopts)\<close>: whether the option letter takes an argument;
  a letter that is not in \<open>shortopts\<close> raises.
\<close>

fun short_has_arg :: "char \<Rightarrow> string \<Rightarrow> bool outcome" where
  "short_has_arg opt [] = Raise GetoptError"
| "short_has_arg opt (c # shortopts) =
     (if opt = c \<and> c \<noteq> CHR '':'' then Return (take 1 shortopts = '':'')
      else short_has_arg opt shortopts)"

text \<open>
  \<^verbatim>\<open>do_shorts(opts, optstring, shortopts, args)\<close>: the letters of one argument
  word. A letter that takes an argument takes the rest of the word, or the next word when
  the rest is empty.
\<close>

fun do_shorts ::
  "(string \<times> string) list \<Rightarrow> string \<Rightarrow> string \<Rightarrow> string list \<Rightarrow>
     ((string \<times> string) list \<times> string list) outcome" where
  "do_shorts opts [] shortopts args = Return (opts, args)"
| "do_shorts opts (opt # optstring) shortopts args =
     (case short_has_arg opt shortopts of
        Inl e \<Rightarrow> Raise e
      | Inr True \<Rightarrow>
          if optstring = [] then
            (case args of
               [] \<Rightarrow> Raise GetoptError
             | optarg # args' \<Rightarrow> Return (opts @ [([CHR ''-'', opt], optarg)], args'))
          else Return (opts @ [([CHR ''-'', opt], optstring)], args)
      | Inr False \<Rightarrow> do_shorts (opts @ [([CHR ''-'', opt], [])]) optstring shortopts args)"

text \<open>
  The loop of \<^verbatim>\<open>getopt.getopt(args, shortopts)\<close>: option words are consumed up to
  the first word that does not start with a dash, the word \<^verbatim>\<open>-\<close>, or the
  separator \<^verbatim>\<open>--\<close>.
\<close>

function getopt_loop ::
  "(string \<times> string) list \<Rightarrow> string list \<Rightarrow> string \<Rightarrow>
     ((string \<times> string) list \<times> string list) outcome" where
  "getopt_loop opts [] shortopts = Return (opts, [])"
| "getopt_loop opts (a # args) shortopts =
     (if take 1 a = ''-'' \<and> a \<noteq> ''-'' then
        if a = ''--'' then Return (opts, args)
        else if take 2 a = ''--'' then Raise GetoptError
        else
          case do_shorts opts (drop 1 a) shortopts args of
            Inl e \<Rightarrow> Raise e
          | Inr (opts', args') \<Rightarrow> getopt_loop opts' args' shortopts
      else Return (opts, a # args))"
  by pat_completeness auto
termination
proof (relation "measure (\<lambda>(opts, args, shortopts). length args)")
  have shorter: "length args' \<le> length args"
    if "do_shorts opts optstring shortopts args = Return (opts', args')"
    for opts optstring shortopts args opts' args'
    using that
    by (induction opts optstring shortopts args rule: do_shorts.induct)
       (auto split: sum.splits bool.splits if_splits list.splits)
  fix opts :: "(string \<times> string) list" and a shortopts args x2 and opts' :: "(string \<times> string) list"
    and args'
  assume "do_shorts opts (drop 1 a) shortopts args = Return x2" and "(opts', args') = x2"
  then have "length args' \<le> length args"
    by (auto dest: shorter)
  then show "((opts', args', shortopts), opts, a # args, shortopts)
      \<in> measure (\<lambda>(opts, args, shortopts). length args)"
    by simp
qed simp

definition getopt :: "string list \<Rightarrow> string \<Rightarrow> ((string \<times> string) list \<times> string list) outcome" where
  "getopt args shortopts = getopt_loop [] args shortopts"

text \<open>\<^verbatim>\<open>int(arg)\<close> for a string.\<close>

definition whitespace :: string where
  "whitespace = [CHR 0x09, CHR 0x0A, CHR 0x0B, CHR 0x0C, CHR 0x0D, CHR 0x1C, CHR 0x1D, CHR 0x1E,
     CHR 0x1F, CHR '' '']"

definition strip :: "string \<Rightarrow> string" where
  "strip s = rev (dropWhile (\<lambda>c. c \<in> set whitespace) (rev (dropWhile (\<lambda>c. c \<in> set whitespace) s)))"

definition digit_value :: "char \<Rightarrow> nat option" where
  "digit_value c = map_of (zip ''0123456789'' [0, 1, 2, 3, 4, 5, 6, 7, 8, 9]) c"

fun digits_value :: "nat \<Rightarrow> string \<Rightarrow> nat option" where
  "digits_value acc [] = Some acc"
| "digits_value acc (c # cs) =
     (if c = CHR ''_'' then
        (case cs of
           [] \<Rightarrow> None
         | d # ds \<Rightarrow> if digit_value d = None then None else digits_value acc cs)
      else
        case digit_value c of
          None \<Rightarrow> None
        | Some v \<Rightarrow> digits_value (10 * acc + v) cs)"

text \<open>
  The limit on the number of digits that \<^verbatim>\<open>int\<close> converts (CPython 3.11 and
  later, \<^verbatim>\<open>sys.get_int_max_str_digits()\<close>, at its default): a string with more
  digits raises \<^verbatim>\<open>ValueError\<close>. White space, the sign and underscores do not
  count.
\<close>

definition int_max_str_digits :: nat where
  "int_max_str_digits = 4300"

definition py_int :: "string \<Rightarrow> int outcome" where
  "py_int arg =
     (let s = strip arg;
          negative = (take 1 s = ''-'');
          digits = (if take 1 s = ''-'' \<or> take 1 s = ''+'' then drop 1 s else s)
      in if digits = [] \<or> digit_value (hd digits) = None then Raise ValueError
         else if int_max_str_digits < length (filter (\<lambda>c. c \<noteq> CHR ''_'') digits)
         then Raise ValueError
         else
           case digits_value 0 digits of
             None \<Rightarrow> Raise ValueError
           | Some n \<Rightarrow> Return (if negative then - int n else int n))"

subsection \<open>The program\<close>

text \<open>How the program ends, and the exit code the shell sees.\<close>

datatype status = Exit int | Uncaught exn

definition exit_code :: "status \<Rightarrow> int" where
  "exit_code st = (case st of Exit n \<Rightarrow> n | Uncaught e \<Rightarrow> 1)"

text \<open>The four variables the options set, with their initial values (lines 161 to 164).\<close>

record options =
  disk_image_path :: string
  reference_image_folder_path :: string
  similarity_threshold :: int
  output_folder :: string

definition defaults :: options where
  "defaults =
     \<lparr>disk_image_path = [], reference_image_folder_path = [], similarity_threshold = 10,
      output_folder = []\<rparr>"

text \<open>\<^verbatim>\<open>print_usage()\<close>: one line that names \<^verbatim>\<open>sys.argv[0]\<close>.\<close>

definition print_usage :: "string list \<Rightarrow> 'img state \<Rightarrow> exn option \<times> 'img state" where
  "print_usage argv s =
     (case argv of
        [] \<Rightarrow> (Some IndexError, s)
      | prog # args \<Rightarrow> (None, py_print [Usage prog] s))"

text \<open>\<^verbatim>\<open>print_usage()\<close> followed by \<^verbatim>\<open>sys.exit(n)\<close>.\<close>

definition usage_exit :: "string list \<Rightarrow> int \<Rightarrow> 'img state \<Rightarrow> status \<times> 'img state" where
  "usage_exit argv n s =
     (case print_usage argv s of
        (Some e, s') \<Rightarrow> (Uncaught e, s')
      | (None, s') \<Rightarrow> (Exit n, s'))"

text \<open>
  The loop \<^verbatim>\<open>for opt, arg in opts\<close>. The tests \<^verbatim>\<open>opt in ("-d")\<close> are
  substring tests, since \<^verbatim>\<open>("-d")\<close> is a string and no tuple.
\<close>

fun option_loop ::
  "host \<Rightarrow> string list \<Rightarrow> (string \<times> string) list \<Rightarrow> options \<Rightarrow> 'img state \<Rightarrow>
     (status + options) \<times> 'img state" where
  "option_loop host argv [] vars s = (Inr vars, s)"
| "option_loop host argv ((opt, arg) # opts) vars s =
     (if opt = ''-h'' then
        (case usage_exit argv 0 s of (st, s') \<Rightarrow> (Inl st, s'))
      else if str_contains ''-d'' opt then
        option_loop host argv opts (vars\<lparr>disk_image_path := arg\<rparr>) s
      else if str_contains ''-r'' opt then
        option_loop host argv opts (vars\<lparr>reference_image_folder_path := arg\<rparr>) s
      else if str_contains ''-i'' opt then
        (case py_int arg of
           Inl e \<Rightarrow> (Inl (Uncaught e), s)
         | Inr n \<Rightarrow> option_loop host argv opts (vars\<lparr>similarity_threshold := n\<rparr>) s)
      else if str_contains ''-o'' opt then
        (case makedirs host arg of
           Some e \<Rightarrow> (Inl (Uncaught (if e = OSError then RuntimeError else e)), s)
         | None \<Rightarrow> option_loop host argv opts (vars\<lparr>output_folder := arg\<rparr>) s)
      else option_loop host argv opts vars s)"

text \<open>The final report (lines 204 to 214).\<close>

fun print_stats :: "res_tuple list \<Rightarrow> 'img state \<Rightarrow> 'img state" where
  "print_stats [] s = s"
| "print_stats (stat # similar_images) s =
     print_stats similar_images (py_print [Stat (fst stat) (snd stat)] s)"

fun print_references :: "(string \<times> res_tuple list) list \<Rightarrow> 'img state \<Rightarrow> 'img state" where
  "print_references [] s = s"
| "print_references ((reference_image_name, similar_images) # items) s =
     print_references items
       (if similar_images \<noteq> [] then
          print_stats similar_images (py_print [ForReferenceImage reference_image_name] s)
        else s)"

definition final_report :: "'img state \<Rightarrow> 'img state" where
  "final_report s =
     print_references (result s)
       (py_print [if result s \<noteq> [] then FinalReport else NoSimilarImagesIdentified] s)"

text \<open>The main block, started with \<^verbatim>\<open>sys.argv = argv\<close>.\<close>

definition main :: "host \<Rightarrow> 'img pil \<Rightarrow> string list \<Rightarrow> status \<times> 'img state" where
  "main host pil argv =
     (if length argv < 3 then usage_exit argv 1 initial
      else
        case getopt (drop 1 argv) ''hd:r:i:o:'' of
          Inl e \<Rightarrow>
            if e = GetoptError then usage_exit argv 2 initial else (Uncaught e, initial)
        | Inr (opts, args) \<Rightarrow>
            (case option_loop host argv opts defaults initial of
               (Inl st, s) \<Rightarrow> (st, s)
             | (Inr vars, s) \<Rightarrow>
                 if disk_image_path vars = [] \<or> reference_image_folder_path vars = [] then
                   usage_exit argv 2 (py_print [MissingRequiredParameters] s)
                 else
                   case find_similar_images host pil (disk_image_path vars)
                          (reference_image_folder_path vars) (similarity_threshold vars)
                          (output_folder vars) s of
                     (Inl e, s') \<Rightarrow> (Uncaught e, s')
                   | (Inr r, s') \<Rightarrow> (Exit 0, final_report s')))"

subsection \<open>Contracts\<close>

text \<open>
  The option words \<^verbatim>\<open>getopt\<close> returns: a dash and a letter of \<open>shortopts\<close>.
\<close>

definition option_word :: "string \<Rightarrow> string \<Rightarrow> bool" where
  "option_word shortopts opt \<longleftrightarrow>
     (\<exists>c. opt = [CHR ''-'', c] \<and> c \<in> set shortopts \<and> c \<noteq> CHR '':'')"

text \<open>
  A list of options as the command line can express it, and the words that express it
  with every argument in a word of its own: \<open>option_words\<close> is the printer to which
  \<open>getopt\<close> is the parser. An \<open>operand\<close> is a word that ends the options.
\<close>

definition well_formed_option :: "string \<Rightarrow> string \<times> string \<Rightarrow> bool" where
  "well_formed_option shortopts p =
     (case fst p of
        [dash, c] \<Rightarrow>
          dash = CHR ''-'' \<and> c \<noteq> CHR ''-'' \<and>
          (case short_has_arg c shortopts of
             Inl e \<Rightarrow> False
           | Inr has_arg \<Rightarrow> has_arg \<or> snd p = [])
      | _ \<Rightarrow> False)"

fun option_words :: "string \<Rightarrow> (string \<times> string) list \<Rightarrow> string list" where
  "option_words shortopts [] = []"
| "option_words shortopts ((opt, arg) # opts) =
     (if short_has_arg (last opt) shortopts = Return True then [opt, arg] else [opt]) @
     option_words shortopts opts"

definition operand :: "string \<Rightarrow> bool" where
  "operand a \<longleftrightarrow> take 1 a \<noteq> ''-'' \<or> a = ''-''"

text \<open>The argument of the last occurrence of an option in a list of options.\<close>

definition last_arg :: "string \<Rightarrow> (string \<times> string) list \<Rightarrow> string option" where
  "last_arg opt opts = map_of (rev opts) opt"

text \<open>The value of a string of decimal digits.\<close>

definition is_digit :: "char \<Rightarrow> bool" where
  "is_digit c \<longleftrightarrow> c \<in> set ''0123456789''"

definition decimal :: "string \<Rightarrow> nat" where
  "decimal ds = foldl (\<lambda>acc c. 10 * acc + (case digit_value c of None \<Rightarrow> 0 | Some v \<Rightarrow> v)) 0 ds"

text \<open>
  What the final report prints after its first line, and the tuples that a list of
  printed lines reports.
\<close>

definition report_lines :: "(string, res_tuple list) dict \<Rightarrow> msg list" where
  "report_lines d =
     concat (map (\<lambda>(reference_image_name, similar_images).
       if similar_images = [] then []
       else ForReferenceImage reference_image_name #
         map (\<lambda>stat. Stat (fst stat) (snd stat)) similar_images) d)"

fun stats :: "msg list \<Rightarrow> res_tuple list" where
  "stats [] = []"
| "stats (Stat loc diff # ms) = (loc, diff) # stats ms"
| "stats (m # ms) = stats ms"

text \<open>The references that a list of printed lines names in a header of the report.\<close>

fun headers :: "msg list \<Rightarrow> string list" where
  "headers [] = []"
| "headers (ForReferenceImage reference_image_name # ms) = reference_image_name # headers ms"
| "headers (m # ms) = headers ms"

lemmas cli_defs [evaluate] =
  str_contains_def getopt_def whitespace_def strip_def digit_value_def int_max_str_digits_def
  py_int_def exit_code_def
  defaults_def print_usage_def usage_exit_def final_report_def main_def option_word_def
  well_formed_option_def operand_def is_digit_def decimal_def report_lines_def

text \<open>The facts that run the main block up to the call of the scan.\<close>

lemmas main_simps = main_def getopt_def str_contains_def defaults_def

section \<open>Lemmas\<close>

subsection \<open>Options\<close>

lemma short_has_arg_Raise: "short_has_arg opt shortopts = Raise e \<Longrightarrow> e = GetoptError"
  by (induction shortopts) (auto split: if_splits)

lemma short_has_arg_Return:
  "short_has_arg opt shortopts = Return b \<Longrightarrow> opt \<in> set shortopts \<and> opt \<noteq> CHR '':''"
  by (induction shortopts) (auto split: if_splits)

lemma do_shorts_Raise: "do_shorts opts optstring shortopts args = Raise e \<Longrightarrow> e = GetoptError"
  by (induction opts optstring shortopts args rule: do_shorts.induct)
     (auto split: sum.splits bool.splits if_splits list.splits dest: short_has_arg_Raise)

lemma do_shorts_shape:
  "do_shorts opts optstring shortopts args = Return (opts', args') \<Longrightarrow>
   list_all (\<lambda>p. option_word shortopts (fst p)) opts \<Longrightarrow>
   list_all (\<lambda>p. option_word shortopts (fst p)) opts'"
  by (induction opts optstring shortopts args rule: do_shorts.induct)
     (auto simp: option_word_def split: sum.splits bool.splits if_splits list.splits
       dest: short_has_arg_Return)

lemma do_shorts_prefix:
  "do_shorts opts optstring shortopts args = Return (opts', args') \<Longrightarrow> prefix opts opts'"
  by (induction opts optstring shortopts args rule: do_shorts.induct)
     (auto split: sum.splits bool.splits if_splits list.splits dest: append_prefixD)

lemma getopt_loop_Raise: "getopt_loop opts args shortopts = Raise e \<Longrightarrow> e = GetoptError"
  by (induction opts args shortopts rule: getopt_loop.induct)
     (auto split: sum.splits if_splits dest: do_shorts_Raise)

lemma getopt_loop_shape:
  "getopt_loop opts args shortopts = Return (opts', args') \<Longrightarrow>
   list_all (\<lambda>p. option_word shortopts (fst p)) opts \<Longrightarrow>
   list_all (\<lambda>p. option_word shortopts (fst p)) opts'"
  by (induction opts args shortopts rule: getopt_loop.induct)
     (auto split: sum.splits if_splits dest: do_shorts_shape)

lemma getopt_loop_prefix:
  "getopt_loop opts args shortopts = Return (opts', args') \<Longrightarrow> prefix opts opts'"
  by (induction opts args shortopts rule: getopt_loop.induct)
     (auto split: sum.splits if_splits dest!: do_shorts_prefix intro: prefix_order.trans)

lemma getopt_Raise: "getopt args shortopts = Raise e \<Longrightarrow> e = GetoptError"
  by (auto simp: getopt_def dest: getopt_loop_Raise)

lemma getopt_shape:
  "getopt args shortopts = Return (opts, args') \<Longrightarrow>
   list_all (\<lambda>p. option_word shortopts (fst p)) opts"
  by (auto simp: getopt_def dest: getopt_loop_shape)

lemma well_formed_optionE:
  assumes "well_formed_option shortopts (opt, arg)"
  obtains c has_arg where "opt = [CHR ''-'', c]" and "c \<noteq> CHR ''-''"
    and "short_has_arg c shortopts = Return has_arg" and "has_arg \<or> arg = []"
  using assms
  by (auto simp: well_formed_option_def split: list.splits sum.splits)

lemma getopt_loop_option_words:
  assumes "list_all (well_formed_option shortopts) opts"
    and "list_all operand (take 1 operands)"
  shows "getopt_loop acc (option_words shortopts opts @ operands) shortopts =
     Return (acc @ opts, operands)"
  using assms(1)
proof (induction opts arbitrary: acc)
  case Nil
  from assms(2) show ?case
    by (cases operands) (auto simp: operand_def)
next
  case (Cons p opts)
  obtain opt arg where p: "p = (opt, arg)" by (cases p)
  with Cons.prems have "well_formed_option shortopts (opt, arg)" by simp
  then obtain c has_arg where "opt = [CHR ''-'', c]" and "c \<noteq> CHR ''-''"
    and "short_has_arg c shortopts = Return has_arg" and "has_arg \<or> arg = []"
    by (rule well_formed_optionE)
  with Cons.prems Cons.IH [of "acc @ [p]"] show ?case
    by (cases has_arg) (simp_all add: p)
qed

subsection \<open>Integers\<close>

lemma digit_value_eq_None: "digit_value c = None \<longleftrightarrow> \<not> is_digit c"
  unfolding digit_value_def is_digit_def
  by (subst map_of_zip_is_None) simp_all

lemma is_digit_not_space: "is_digit c \<Longrightarrow> c \<notin> set whitespace"
  by (auto simp: is_digit_def whitespace_def)

lemma is_digit_not_sign: "is_digit c \<Longrightarrow> c \<noteq> CHR ''-'' \<and> c \<noteq> CHR ''+'' \<and> c \<noteq> CHR ''_''"
  by (auto simp: is_digit_def)

lemma strip_digits:
  assumes "list_all is_digit ds"
  shows "strip ds = ds"
proof (cases ds rule: rev_cases)
  case Nil
  then show ?thesis by (simp add: strip_def)
next
  case (snoc ds' d)
  with assms have "is_digit d" and "ds' = [] \<or> is_digit (hd ds')"
    by (cases ds'; simp)+
  with snoc show ?thesis
    by (cases ds') (auto simp: strip_def dest: is_digit_not_space)
qed

lemma digits_value_digits:
  "list_all is_digit ds \<Longrightarrow>
   digits_value acc ds =
     Some (foldl (\<lambda>acc c. 10 * acc + (case digit_value c of None \<Rightarrow> 0 | Some v \<Rightarrow> v)) acc ds)"
  by (induction ds arbitrary: acc)
     (auto simp: digit_value_eq_None dest: is_digit_not_sign split: option.splits)

lemma filter_digits: "list_all is_digit ds \<Longrightarrow> filter (\<lambda>c. c \<noteq> CHR ''_'') ds = ds"
  by (induction ds) (auto dest: is_digit_not_sign)

lemma py_int_digits:
  assumes "ds \<noteq> []" and "list_all is_digit ds"
  shows "py_int ds =
     (if int_max_str_digits < length ds then Raise ValueError else Return (int (decimal ds)))"
proof -
  from assms have "is_digit (hd ds)" and "take 1 ds \<noteq> ''-''" and "take 1 ds \<noteq> ''+''"
    by (cases ds; auto dest: is_digit_not_sign)+
  with assms show ?thesis
    by (simp add: py_int_def Let_def strip_digits digits_value_digits decimal_def filter_digits
        digit_value_eq_None)
qed

lemma py_int_decimal:
  assumes "ds \<noteq> []" and "list_all is_digit ds" and "length ds \<le> int_max_str_digits"
  shows "py_int ds = Return (int (decimal ds))"
  using assms by (simp add: py_int_digits)

lemma py_int_digit_limit:
  assumes "list_all is_digit ds" and "int_max_str_digits < length ds"
  shows "py_int ds = Raise ValueError"
  using assms py_int_digits [of ds] by (cases "ds = []") auto

lemma py_int_Raise: "py_int arg = Raise e \<Longrightarrow> e = ValueError"
  by (auto simp: py_int_def Let_def split: if_splits option.splits)

subsection \<open>The report\<close>

lemma py_print_Nil [simp]: "py_print [] s = s"
  by (simp add: py_print_def)

lemma py_print_py_print [simp]: "py_print ms' (py_print ms s) = py_print (ms @ ms') s"
  by (simp add: py_print_def)

lemma print_stats_eq:
  "print_stats similar_images s = py_print (map (\<lambda>stat. Stat (fst stat) (snd stat)) similar_images) s"
  by (induction similar_images arbitrary: s) simp_all

lemma print_references_eq: "print_references d s = py_print (report_lines d) s"
  by (induction d arbitrary: s) (auto simp: report_lines_def print_stats_eq)

lemma final_report_eq:
  "final_report s =
     py_print ((if result s \<noteq> [] then FinalReport else NoSimilarImagesIdentified) #
       report_lines (result s)) s"
  by (simp add: final_report_def print_references_eq)

lemma stats_append [simp]: "stats (ms @ ms') = stats ms @ stats ms'"
  by (induction ms rule: stats.induct) simp_all

lemma stats_map_Stat [simp]: "stats (map (\<lambda>stat. Stat (fst stat) (snd stat)) xs) = xs"
  by (induction xs) simp_all

lemma stats_report_lines: "stats (report_lines d) = concat (map snd d)"
  by (induction d) (auto simp: report_lines_def)

lemma headers_append [simp]: "headers (ms @ ms') = headers ms @ headers ms'"
  by (induction ms rule: headers.induct) simp_all

lemma headers_map_Stat [simp]: "headers (map (\<lambda>stat. Stat (fst stat) (snd stat)) xs) = []"
  by (induction xs) simp_all

lemma headers_report_lines:
  "headers (report_lines d) = map fst (filter (\<lambda>p. snd p \<noteq> []) d)"
  by (induction d) (auto simp: report_lines_def)

lemma stats_replicate [simp]: "stats (replicate n SimilarImageIdentified) = []"
  by (induction n) simp_all

lemma stats_scan_effects:
  "stats (stdout (scan_effects pil refs t out_folder visited s)) = stats (stdout s)"
  by (induction visited arbitrary: s) (simp_all split: option.splits)

lemma report_lines_no_match:
  "list_all (\<lambda>p. snd p = []) d \<Longrightarrow> report_lines d = []"
  by (induction d) (auto simp: report_lines_def)

lemma match_count_0_iff: "match_count s = 0 \<longleftrightarrow> list_all (\<lambda>p. snd p = []) (result s)"
  by (auto simp: match_count_def list_all_iff)

subsection \<open>The option loop\<close>

lemma usage_exit_eq [simp]: "usage_exit (prog # args) n s = (Exit n, py_print [Usage prog] s)"
  by (simp add: usage_exit_def print_usage_def)

lemma last_arg_Cons:
  "last_arg k ((opt, arg) # opts) =
     (case last_arg k opts of
        None \<Rightarrow> if opt = k then Some arg else None
      | Some a \<Rightarrow> Some a)"
  by (simp add: last_arg_def map_add_def split: option.splits)

lemma last_arg_Nil [simp]: "last_arg k [] = None"
  by (simp add: last_arg_def)

lemma option_word_cases:
  assumes "option_word ''hd:r:i:o:'' opt"
  obtains "opt = ''-h''" | "opt = ''-d''" | "opt = ''-r''" | "opt = ''-i''" | "opt = ''-o''"
  using assms by (auto simp: option_word_def)

lemma option_loop_state:
  "option_loop host argv opts vars s = (Inr vars', s') \<Longrightarrow> s' = s"
  by (induction host argv opts vars s rule: option_loop.induct)
     (auto split: if_splits sum.splits option.splits prod.splits)

section \<open>Properties of the command line\<close>

text \<open>
  \<^bold>\<open>Parsing the printed options.\<close> For every well-formed list of options,
  \<^verbatim>\<open>getopt\<close> applied to its words, followed by operands, returns the list and
  the operands.
\<close>

theorem getopt_option_words:
  assumes "list_all (well_formed_option shortopts) opts"
    and "list_all operand (take 1 operands)"
  shows "getopt (option_words shortopts opts @ operands) shortopts = Return (opts, operands)"
  using assms by (simp add: getopt_def getopt_loop_option_words)

theorem getopt_option_words_witness:
  "list_all (well_formed_option ''hd:r:i:o:'')
     [(''-d'', ''disk.img''), (''-h'', []), (''-i'', ''-5'')] \<and>
   list_all operand (take 1 [''rest'', ''-r'']) \<and>
   option_words ''hd:r:i:o:'' [(''-d'', ''disk.img''), (''-h'', []), (''-i'', ''-5'')] =
     [''-d'', ''disk.img'', ''-h'', ''-i'', ''-5''] \<and>
   getopt ([''-d'', ''disk.img'', ''-h'', ''-i'', ''-5''] @ [''rest'', ''-r'']) ''hd:r:i:o:'' =
     Return ([(''-d'', ''disk.img''), (''-h'', []), (''-i'', ''-5'')], [''rest'', ''-r''])"
proof -
  have w: "list_all (well_formed_option ''hd:r:i:o:'')
      [(''-d'', ''disk.img''), (''-h'', []), (''-i'', ''-5'')]"
    and o: "list_all operand (take 1 [''rest'', ''-r''])"
    and p: "option_words ''hd:r:i:o:'' [(''-d'', ''disk.img''), (''-h'', []), (''-i'', ''-5'')] =
      [''-d'', ''disk.img'', ''-h'', ''-i'', ''-5'']"
    by (simp_all add: evaluate)
  from getopt_option_words [OF w o] w o p show ?thesis
    by simp
qed

text \<open>
  \<^bold>\<open>C26\<close> (the last occurrence of an option wins). Run on the options that
  \<^verbatim>\<open>getopt\<close> returns, without \<^verbatim>\<open>-h\<close> among them, with every
  argument of \<^verbatim>\<open>-i\<close> an integer and every folder of \<^verbatim>\<open>-o\<close> created, the
  option loop prints nothing and leaves each of the four variables with the argument of
  the last occurrence of its option, or with its initial value when the option does not
  occur. On these option words the substring tests \<^verbatim>\<open>opt in ("-d")\<close> decide as
  equality does.
\<close>

theorem option_loop_last_wins:
  assumes "getopt args ''hd:r:i:o:'' = Return (opts, operands)"
    and "last_arg ''-h'' opts = None"
    and "list_all (\<lambda>p. fst p = ''-i'' \<longrightarrow> \<not> isl (py_int (snd p))) opts"
    and "list_all (\<lambda>p. fst p = ''-o'' \<longrightarrow> makedirs host (snd p) = None) opts"
  shows "option_loop host argv opts vars s =
     (Inr \<lparr>disk_image_path =
              (case last_arg ''-d'' opts of None \<Rightarrow> disk_image_path vars | Some arg \<Rightarrow> arg),
            reference_image_folder_path =
              (case last_arg ''-r'' opts of
                 None \<Rightarrow> reference_image_folder_path vars | Some arg \<Rightarrow> arg),
            similarity_threshold =
              (case last_arg ''-i'' opts of
                 None \<Rightarrow> similarity_threshold vars | Some arg \<Rightarrow> projr (py_int arg)),
            output_folder =
              (case last_arg ''-o'' opts of None \<Rightarrow> output_folder vars | Some arg \<Rightarrow> arg)\<rparr>,
      s)"
proof -
  from assms(1) have "list_all (\<lambda>p. option_word ''hd:r:i:o:'' (fst p)) opts"
    by (rule getopt_shape)
  then show ?thesis
    using assms(2-4)
  proof (induction opts arbitrary: vars)
    case Nil
    show ?case by simp
  next
    case (Cons p opts)
    obtain opt arg where p: "p = (opt, arg)" by (cases p)
    with Cons.prems(1) have word: "option_word ''hd:r:i:o:'' opt" by simp
    from Cons.prems(2) p have h: "opt \<noteq> ''-h''" "last_arg ''-h'' opts = None"
      by (auto simp: last_arg_Cons split: option.splits if_splits)
    note IH = Cons.IH [OF _ h(2)]
    from word h(1) Cons.prems(1,3,4) show ?case
      unfolding p
      by (cases opt rule: option_word_cases)
         (auto simp: IH last_arg_Cons str_contains_def split: option.splits sum.splits)
  qed
qed

theorem option_loop_last_wins_witness:
  "getopt [''-d'', ''a.img'', ''-i'', ''7'', ''-d'', ''b.img'', ''-r'', ''refs'', ''rest'']
     ''hd:r:i:o:'' =
     Return ([(''-d'', ''a.img''), (''-i'', ''7''), (''-d'', ''b.img''), (''-r'', ''refs'')],
       [''rest'']) \<and>
   last_arg ''-h'' [(''-d'', ''a.img''), (''-i'', ''7''), (''-d'', ''b.img''), (''-r'', ''refs'')] =
     None \<and>
   py_int ''7'' = Return 7 \<and>
   option_loop scenario_host [''main.py'']
       [(''-d'', ''a.img''), (''-i'', ''7''), (''-d'', ''b.img''), (''-r'', ''refs'')] defaults
       (initial :: grid state) =
     (Inr \<lparr>disk_image_path = ''b.img'', reference_image_folder_path = ''refs'',
            similarity_threshold = 7, output_folder = []\<rparr>, initial)"
proof -
  let ?opts = "[(''-d'', ''a.img''), (''-i'', ''7''), (''-d'', ''b.img''), (''-r'', ''refs'')]"
  have g: "getopt [''-d'', ''a.img'', ''-i'', ''7'', ''-d'', ''b.img'', ''-r'', ''refs'', ''rest'']
      ''hd:r:i:o:'' = Return (?opts, [''rest''])"
    and h: "last_arg ''-h'' ?opts = None"
    and i: "py_int ''7'' = Return 7"
    by (simp_all add: evaluate last_arg_def)
  from i have i': "list_all (\<lambda>p. fst p = ''-i'' \<longrightarrow> \<not> isl (py_int (snd p))) ?opts"
    by simp
  have o: "list_all (\<lambda>p. fst p = ''-o'' \<longrightarrow> makedirs scenario_host (snd p) = None) ?opts"
    by simp
  from option_loop_last_wins [OF g h i' o, of "[''main.py'']" defaults "initial :: grid state"]
    g h i
  show ?thesis by (simp add: evaluate last_arg_def)
qed

text \<open>
  \<^bold>\<open>C22\<close> (too few arguments). With fewer than two arguments after the program
  name, the program prints the usage line and exits with code 1, before any option is
  looked at; \<^verbatim>\<open>-h\<close> alone is such a command line.
\<close>

theorem too_few_arguments_exit_1:
  assumes "argv \<noteq> []" and "length argv < 3"
  shows "main host pil argv = (Exit 1, py_print [Usage (hd argv)] initial)"
  using assms by (cases argv) (simp_all add: main_def)

theorem too_few_arguments_exit_1_witness:
  "[''main.py'', ''-h''] \<noteq> [] \<and> length [''main.py'', ''-h''] < 3 \<and>
   main scenario_host scenario_pil [''main.py'', ''-h''] =
     (Exit 1, \<lparr>result = [], stdout = [Usage ''main.py''], files = []\<rparr>)"
  using too_few_arguments_exit_1 [of "[''main.py'', ''-h'']" scenario_host scenario_pil]
  by (simp add: evaluate)

text \<open>
  \<^bold>\<open>C23\<close> (malformed options). When \<^verbatim>\<open>getopt\<close> rejects the command line,
  the program prints the usage line and exits with code 2.
\<close>

theorem malformed_options_exit_2:
  assumes "3 \<le> length argv" and "getopt (drop 1 argv) ''hd:r:i:o:'' = Raise e"
  shows "main host pil argv = (Exit 2, py_print [Usage (hd argv)] initial)"
  using assms getopt_Raise [OF assms(2)] by (cases argv) (simp_all add: main_def)

theorem malformed_options_exit_2_witness:
  "3 \<le> length [''main.py'', ''-d'', ''disk.img'', ''--refs'', ''refs''] \<and>
   getopt (drop 1 [''main.py'', ''-d'', ''disk.img'', ''--refs'', ''refs'']) ''hd:r:i:o:'' =
     Raise GetoptError \<and>
   main scenario_host scenario_pil [''main.py'', ''-d'', ''disk.img'', ''--refs'', ''refs''] =
     (Exit 2, \<lparr>result = [], stdout = [Usage ''main.py''], files = []\<rparr>)"
proof -
  have g: "getopt (drop 1 [''main.py'', ''-d'', ''disk.img'', ''--refs'', ''refs''])
      ''hd:r:i:o:'' = Raise GetoptError"
    by (simp add: evaluate)
  from malformed_options_exit_2 [OF _ g, of scenario_host scenario_pil] g show ?thesis
    by (simp add: evaluate)
qed

text \<open>
  \<^bold>\<open>C24\<close> (missing required parameters). When the option loop ends with an empty
  disk image path or an empty reference folder path, the program prints the notice and
  the usage line and exits with code 2, without scanning.
\<close>

theorem missing_required_exit_2:
  fixes pil :: "'img pil" and s :: "'img state"
  assumes "3 \<le> length argv"
    and "getopt (drop 1 argv) ''hd:r:i:o:'' = Return (opts, args)"
    and "option_loop host argv opts defaults initial = (Inr vars, s)"
    and "disk_image_path vars = [] \<or> reference_image_folder_path vars = []"
  shows "main host pil argv =
     (Exit 2, py_print [MissingRequiredParameters, Usage (hd argv)] initial)"
  using assms option_loop_state [OF assms(3)] by (cases argv) (auto simp: main_def)

theorem missing_required_exit_2_witness:
  "3 \<le> length [''main.py'', ''-d'', ''disk.img'', ''-i'', ''5''] \<and>
   getopt (drop 1 [''main.py'', ''-d'', ''disk.img'', ''-i'', ''5'']) ''hd:r:i:o:'' =
     Return ([(''-d'', ''disk.img''), (''-i'', ''5'')], []) \<and>
   option_loop scenario_host [''main.py'', ''-d'', ''disk.img'', ''-i'', ''5'']
       [(''-d'', ''disk.img''), (''-i'', ''5'')] defaults (initial :: grid state) =
     (Inr \<lparr>disk_image_path = ''disk.img'', reference_image_folder_path = [],
            similarity_threshold = 5, output_folder = []\<rparr>, initial) \<and>
   main scenario_host scenario_pil [''main.py'', ''-d'', ''disk.img'', ''-i'', ''5''] =
     (Exit 2,
      \<lparr>result = [], stdout = [MissingRequiredParameters, Usage ''main.py''], files = []\<rparr>)"
proof -
  have g: "getopt (drop 1 [''main.py'', ''-d'', ''disk.img'', ''-i'', ''5'']) ''hd:r:i:o:'' =
      Return ([(''-d'', ''disk.img''), (''-i'', ''5'')], [])"
    by (simp add: evaluate)
  have l: "option_loop scenario_host [''main.py'', ''-d'', ''disk.img'', ''-i'', ''5'']
       [(''-d'', ''disk.img''), (''-i'', ''5'')] defaults (initial :: grid state) =
     (Inr \<lparr>disk_image_path = ''disk.img'', reference_image_folder_path = [],
            similarity_threshold = 5, output_folder = []\<rparr>, initial)"
    by (simp add: evaluate)
  from missing_required_exit_2 [OF _ g l, of scenario_pil] g l show ?thesis
    by (simp add: evaluate)
qed

text \<open>
  \<^bold>\<open>C25\<close> (help). With \<^verbatim>\<open>-h\<close> as the first of at least two arguments of
  a well-formed command line, the program prints the usage line and exits with code 0,
  whatever the other options are.
\<close>

theorem help_exits_0:
  assumes "rest \<noteq> []" and "getopt (''-h'' # rest) ''hd:r:i:o:'' = Return (opts, args)"
  shows "main host pil (prog # ''-h'' # rest) = (Exit 0, py_print [Usage prog] initial)"
proof -
  from assms(2) have "getopt_loop [(''-h'', [])] rest ''hd:r:i:o:'' = Return (opts, args)"
    by (simp add: getopt_def)
  then have "prefix [(''-h'', [])] opts"
    by (rule getopt_loop_prefix)
  then obtain opts' where "opts = (''-h'', []) # opts'"
    by (auto simp: prefix_def)
  with assms show ?thesis
    by (cases rest) (simp_all add: main_def)
qed

theorem help_exits_0_witness:
  "[''-d'', ''disk.img''] \<noteq> [] \<and>
   getopt (''-h'' # [''-d'', ''disk.img'']) ''hd:r:i:o:'' =
     Return ([(''-h'', []), (''-d'', ''disk.img'')], []) \<and>
   main scenario_host scenario_pil (''main.py'' # ''-h'' # [''-d'', ''disk.img'']) =
     (Exit 0, \<lparr>result = [], stdout = [Usage ''main.py''], files = []\<rparr>)"
proof -
  have g: "getopt (''-h'' # [''-d'', ''disk.img'']) ''hd:r:i:o:'' =
      Return ([(''-h'', []), (''-d'', ''disk.img'')], [])"
    by (simp add: evaluate)
  from help_exits_0 [OF _ g, of scenario_host scenario_pil "''main.py''"] g show ?thesis
    by (simp add: evaluate)
qed

text \<open>
  \<^bold>\<open>C20\<close> (the defaults). With the options \<^verbatim>\<open>-d\<close> and \<^verbatim>\<open>-r\<close>
  only, the program scans with threshold 10 and without an output folder, prints the final
  report of the state the scan leaves and exits with code 0, unless the scan raises.
\<close>

theorem main_defaults:
  assumes "disk \<noteq> []" and "folder \<noteq> []"
  shows "main host pil [prog, ''-d'', disk, ''-r'', folder] =
     (case find_similar_images host pil disk folder 10 [] initial of
        (Inl e, s) \<Rightarrow> (Uncaught e, s)
      | (Inr r, s) \<Rightarrow> (Exit 0, final_report s))"
  using assms by (simp add: main_simps)

theorem main_defaults_witness:
  "''disk.img'' \<noteq> [] \<and> ''refs'' \<noteq> [] \<and>
   main scenario_host scenario_pil [''main.py'', ''-d'', ''disk.img'', ''-r'', ''refs''] =
     (Exit 0,
      \<lparr>result = [(''refs/ref1.jpg'', [(''/pics/a.jpg'', Finite 0)])],
       stdout = [FileSystemParseCompleted, ReferenceImagesLoadingCompleted,
                 DiskRootDirectoryLoadingCompleted, StartScanning, SimilarImageIdentified,
                 FinalReport, ForReferenceImage ''refs/ref1.jpg'',
                 Stat ''/pics/a.jpg'' (Finite 0)],
       files = []\<rparr>)"
proof -
  have "find_similar_images scenario_host scenario_pil ''disk.img'' ''refs'' 10 [] initial =
     (Return None,
      \<lparr>result = [(''refs/ref1.jpg'', [(''/pics/a.jpg'', Finite 0)])],
       stdout = [FileSystemParseCompleted, ReferenceImagesLoadingCompleted,
                 DiskRootDirectoryLoadingCompleted, StartScanning, SimilarImageIdentified],
       files = []\<rparr>)"
    by (simp add: evaluate)
  with main_defaults [of "''disk.img''" "''refs''" scenario_host scenario_pil "''main.py''"]
  show ?thesis by (simp add: final_report_def py_print_def)
qed

text \<open>
  \<^bold>\<open>C29\<close> (the threshold option). The argument of \<^verbatim>\<open>-i\<close>, a string of
  decimal digits that is not longer than the interpreter's limit for the conversion of
  integers, is the threshold of the scan.
\<close>

theorem threshold_option:
  assumes "disk \<noteq> []" and "folder \<noteq> []" and "ds \<noteq> []" and "list_all is_digit ds"
    and "length ds \<le> int_max_str_digits"
  shows "main host pil [prog, ''-d'', disk, ''-r'', folder, ''-i'', ds] =
     (case find_similar_images host pil disk folder (int (decimal ds)) [] initial of
        (Inl e, s) \<Rightarrow> (Uncaught e, s)
      | (Inr r, s) \<Rightarrow> (Exit 0, final_report s))"
  using assms by (simp add: main_simps py_int_decimal)

theorem threshold_option_witness:
  "''disk.img'' \<noteq> [] \<and> ''refs'' \<noteq> [] \<and> ''5'' \<noteq> [] \<and> list_all is_digit ''5'' \<and>
   length ''5'' \<le> int_max_str_digits \<and> decimal ''5'' = 5 \<and>
   main two_reference_host scenario_pil
       [''main.py'', ''-d'', ''disk.img'', ''-r'', ''refs'', ''-i'', ''5''] =
     (Exit 0,
      \<lparr>result = [(''refs/ref1.jpg'', [(''/pics/near.PNG'', Finite 3)]), (''refs/ref2.jpg'', [])],
       stdout = [FileSystemParseCompleted, ReferenceImagesLoadingCompleted,
                 DiskRootDirectoryLoadingCompleted, StartScanning, SimilarImageIdentified,
                 FinalReport, ForReferenceImage ''refs/ref1.jpg'',
                 Stat ''/pics/near.PNG'' (Finite 3)],
       files = []\<rparr>)"
proof -
  have d: "list_all is_digit ''5''" and v: "decimal ''5'' = 5"
    and n: "length ''5'' \<le> int_max_str_digits"
    by (simp_all add: is_digit_def decimal_def digit_value_def int_max_str_digits_def)
  have "find_similar_images two_reference_host scenario_pil ''disk.img'' ''refs'' 5 [] initial =
     (Return None,
      \<lparr>result = [(''refs/ref1.jpg'', [(''/pics/near.PNG'', Finite 3)]), (''refs/ref2.jpg'', [])],
       stdout = [FileSystemParseCompleted, ReferenceImagesLoadingCompleted,
                 DiskRootDirectoryLoadingCompleted, StartScanning, SimilarImageIdentified],
       files = []\<rparr>)"
    by (simp add: evaluate)
  with threshold_option [OF _ _ _ d n, of "''disk.img''" "''refs''" two_reference_host
      scenario_pil "''main.py''"] d v n
  show ?thesis by (simp add: final_report_def py_print_def)
qed

text \<open>
  \<^bold>\<open>C30\<close> (a threshold that is no integer). When \<^verbatim>\<open>int(arg)\<close> raises, the
  exception is not caught: the program ends with a traceback and exit code 1, without
  usage line and without scanning.
\<close>

theorem invalid_threshold_is_uncaught:
  assumes "py_int arg = Raise e"
  shows "main host pil [prog, ''-d'', disk, ''-r'', folder, ''-i'', arg] = (Uncaught ValueError, initial)"
  using assms py_int_Raise [OF assms]
  by (simp add: main_simps)

theorem invalid_threshold_is_uncaught_witness:
  "py_int ''ten'' = Raise ValueError \<and>
   main scenario_host scenario_pil [''main.py'', ''-d'', ''disk.img'', ''-r'', ''refs'', ''-i'', ''ten''] =
     (Uncaught ValueError, \<lparr>result = [], stdout = [], files = []\<rparr>) \<and>
   exit_code (Uncaught ValueError) = 1"
proof -
  have p: "py_int ''ten'' = Raise ValueError"
    by (simp add: evaluate)
  from invalid_threshold_is_uncaught [OF p, of scenario_host scenario_pil "''main.py''"
      "''disk.img''" "''refs''"] p
  show ?thesis by (simp add: evaluate)
qed

text \<open>
  \<^bold>\<open>An output folder that cannot be created.\<close> When
  \<^verbatim>\<open>os.makedirs\<close> raises \<^verbatim>\<open>OSError\<close> for the folder of
  \<^verbatim>\<open>-o\<close>, the program raises \<^verbatim>\<open>RuntimeError\<close>, which nothing catches:
  it ends with a traceback, before the required parameters are checked and before
  anything is printed or scanned.
\<close>

theorem output_folder_failure:
  assumes "makedirs host arg = Some OSError"
  shows "main host pil [prog, ''-o'', arg] = (Uncaught RuntimeError, initial)"
  using assms by (simp add: main_simps)

theorem output_folder_failure_witness:
  "makedirs scenario_host ''/proc/out'' = Some OSError \<and>
   main scenario_host scenario_pil [''main.py'', ''-o'', ''/proc/out''] =
     (Uncaught RuntimeError, \<lparr>result = [], stdout = [], files = []\<rparr>)"
proof -
  have m: "makedirs scenario_host ''/proc/out'' = Some OSError"
    by (simp add: evaluate)
  from output_folder_failure [OF m, of scenario_pil "''main.py''"] m show ?thesis
    by (simp add: evaluate)
qed

text \<open>
  \<^bold>\<open>C28\<close> (no reference images: exit code 0). When the reference folder holds no
  file with an image suffix and every directory of the disk image lists, the program
  runs \<^verbatim>\<open>is_image_similar\<close> on every leaf of the tree against no reference,
  prints the notice that no similar image was identified, leaves the result empty and
  exits with code 0.
\<close>

theorem zero_references_exit_0:
  assumes "disk \<noteq> []" and "folder \<noteq> []"
    and "OpenFileSystem host disk = Return file_system"
    and "listdir host folder = Return filenames"
    and "reference_paths folder filenames = []"
    and "GetRootFileEntry file_system = Return (Some root_file_entry)"
    and "readable root_file_entry"
  shows "main host pil [prog, ''-d'', disk, ''-r'', folder] =
     (Exit 0,
      py_print [NoSimilarImagesIdentified]
        (visit_all pil [] 10 [] (leaves root_file_entry)
           (py_print [FileSystemParseCompleted, ReferenceImagesLoadingCompleted,
              DiskRootDirectoryLoadingCompleted, StartScanning] initial))) \<and>
    result (snd (main host pil [prog, ''-d'', disk, ''-r'', folder])) = []"
proof -
  let ?s = "visit_all pil [] 10 [] (leaves root_file_entry)
    (py_print [FileSystemParseCompleted, ReferenceImagesLoadingCompleted,
       DiskRootDirectoryLoadingCompleted, StartScanning] initial)"
  from assms(3-7) have "find_similar_images host pil disk folder 10 [] initial = (Return None, ?s)"
    by (simp add: find_similar_images_def load_reference_images_def load_reference_files_none
        traverse_walk walk_readable py_print_def)
  moreover have "result ?s = []"
    by (simp add: visit_all_no_keys initial_def)
  ultimately show ?thesis
    using assms(1,2) by (simp add: main_simps final_report_eq report_lines_def)
qed

theorem zero_references_exit_0_witness:
  "''disk.img'' \<noteq> [] \<and> ''refs'' \<noteq> [] \<and>
   OpenFileSystem (host_of [''notes.txt''] corrupt_root) ''disk.img'' =
     Return (FileSystem (Return (Some corrupt_root))) \<and>
   listdir (host_of [''notes.txt''] corrupt_root) ''refs'' = Return [''notes.txt''] \<and>
   reference_paths ''refs'' [''notes.txt''] = [] \<and>
   GetRootFileEntry (FileSystem (Return (Some corrupt_root))) = Return (Some corrupt_root) \<and>
   readable corrupt_root \<and>
   main (host_of [''notes.txt''] corrupt_root) scenario_pil
       [''main.py'', ''-d'', ''disk.img'', ''-r'', ''refs''] =
     (Exit 0,
      \<lparr>result = [],
       stdout = [FileSystemParseCompleted, ReferenceImagesLoadingCompleted,
                 DiskRootDirectoryLoadingCompleted, StartScanning,
                 ErrorWhileComparingImage ''/pics/broken.jpg'',
                 ErrorDetails UnidentifiedImageError, Traceback UnidentifiedImageError,
                 NoSimilarImagesIdentified],
       files = []\<rparr>)"
proof -
  let ?host = "host_of [''notes.txt''] corrupt_root"
  have o: "OpenFileSystem ?host ''disk.img'' = Return (FileSystem (Return (Some corrupt_root)))"
    and l: "listdir ?host ''refs'' = Return [''notes.txt'']"
    and p: "reference_paths ''refs'' [''notes.txt''] = []"
    and g: "GetRootFileEntry (FileSystem (Return (Some corrupt_root))) = Return (Some corrupt_root)"
    and r: "readable corrupt_root"
    by (simp_all add: evaluate)
  have "visit_all scenario_pil [] 10 [] (leaves corrupt_root)
      (py_print [FileSystemParseCompleted, ReferenceImagesLoadingCompleted,
         DiskRootDirectoryLoadingCompleted, StartScanning] initial) =
      \<lparr>result = [],
       stdout = [FileSystemParseCompleted, ReferenceImagesLoadingCompleted,
                 DiskRootDirectoryLoadingCompleted, StartScanning,
                 ErrorWhileComparingImage ''/pics/broken.jpg'',
                 ErrorDetails UnidentifiedImageError, Traceback UnidentifiedImageError],
       files = []\<rparr>"
    by (simp add: evaluate)
  with zero_references_exit_0 [OF _ _ o l p g r, of scenario_pil "''main.py''"] o l p g r
  show ?thesis by (simp add: py_print_def)
qed

text \<open>
  \<^bold>\<open>C40\<close> (a reference folder that cannot be listed: exit code 0). When
  \<^verbatim>\<open>os.listdir\<close> raises for the reference folder, the exception is caught with
  the errors of the reference images: the program prints the error, does not open the
  root of the disk image, prints the notice that no similar image was identified and
  exits with code 0.
\<close>

theorem listing_failure_exit_0:
  assumes "disk \<noteq> []" and "folder \<noteq> []"
    and "OpenFileSystem host disk = Return file_system"
    and "listdir host folder = Raise e"
  shows "main host pil [prog, ''-d'', disk, ''-r'', folder] =
     (Exit 0,
      py_print [FileSystemParseCompleted, ErrorWhileLoadingImage, ErrorDetails e, Traceback e,
        NoSimilarImagesIdentified] initial)"
  using assms
  by (simp add: main_simps find_similar_images_listing_fails final_report_eq report_lines_def
      initial_def)

theorem listing_failure_exit_0_witness:
  "''disk.img'' \<noteq> [] \<and> ''gone'' \<noteq> [] \<and>
   OpenFileSystem scenario_host ''disk.img'' = Return (FileSystem (Return (Some disk_root))) \<and>
   listdir scenario_host ''gone'' = Raise OSError \<and>
   main scenario_host scenario_pil [''main.py'', ''-d'', ''disk.img'', ''-r'', ''gone''] =
     (Exit 0,
      \<lparr>result = [],
       stdout = [FileSystemParseCompleted, ErrorWhileLoadingImage, ErrorDetails OSError,
                 Traceback OSError, NoSimilarImagesIdentified],
       files = []\<rparr>)"
proof -
  have o: "OpenFileSystem scenario_host ''disk.img'' = Return (FileSystem (Return (Some disk_root)))"
    and l: "listdir scenario_host ''gone'' = Raise OSError"
    by (simp_all add: evaluate)
  from listing_failure_exit_0 [OF _ _ o l, of scenario_pil "''main.py''"] o l show ?thesis
    by (simp add: evaluate)
qed

section \<open>Properties of the report\<close>

text \<open>
  \<^bold>\<open>C21\<close> (the report lists every match). The lines of the final report carry
  exactly the tuples of the result, reference by reference in the order of the
  dictionary and, under a reference, in the order in which they were recorded; and the
  references that the report names in a header are exactly those with a match, in the
  order of the dictionary.
\<close>

theorem report_lists_every_match:
  "stats (stdout (final_report s)) = stats (stdout s) @ concat (map snd (result s)) \<and>
   headers (stdout (final_report s)) =
     headers (stdout s) @ map fst (filter (\<lambda>p. snd p \<noteq> []) (result s))"
  by (simp add: final_report_eq stats_report_lines headers_report_lines)

text \<open>
  \<^bold>\<open>C27\<close> (a scan without matches). When nothing matched, the report is one line:
  \<^verbatim>\<open>Final Report:\<close> and nothing else when references were loaded, and the
  notice that no similar image was identified only when the result has no key at all.
\<close>

theorem no_match_prints_header_only:
  assumes "match_count s = 0"
  shows "final_report s =
     py_print [if result s = [] then NoSimilarImagesIdentified else FinalReport] s"
  using assms by (simp add: final_report_eq report_lines_no_match match_count_0_iff)

theorem no_match_prints_header_only_witness:
  "match_count (loaded one_reference) = 0 \<and>
   final_report (loaded one_reference) =
     \<lparr>result = [(''refs/ref1.jpg'', [])], stdout = [FinalReport], files = []\<rparr> \<and>
   match_count (initial :: grid state) = 0 \<and>
   final_report (initial :: grid state) =
     \<lparr>result = [], stdout = [NoSimilarImagesIdentified], files = []\<rparr>"
proof -
  have m: "match_count (loaded one_reference) = 0" and m': "match_count (initial :: grid state) = 0"
    by (simp_all add: evaluate)
  from no_match_prints_header_only [OF m] no_match_prints_header_only [OF m'] m m' show ?thesis
    by (simp add: evaluate)
qed

end
