(* ===== verification/Spec2Isabelle.thy ===== *)
theory Spec2Isabelle
  imports Cli
begin

text \<open>
  \<^bold>\<open>A verification development for the fuzzy-hashing forensic tool\<close> (\<^verbatim>\<open>src/main.py\<close>).

  \<^bold>\<open>The program.\<close> \<^verbatim>\<open>main.py\<close> scans the file system inside a raw disk image for
  files that look like one of a folder of reference images. The main block parses the
  command line and calls \<^verbatim>\<open>find_similar_images\<close>, which opens the file system
  (dfvfs), loads every reference image of the folder into a dictionary and enters the
  caller's \<^verbatim>\<open>result\<close> dictionary under the same key with an empty list, then calls
  \<^verbatim>\<open>traverse_file_entries\<close> on the root entry. That function recurses through
  the directories and calls \<^verbatim>\<open>is_image_similar\<close> on every entry that is not a
  directory. \<^verbatim>\<open>is_image_similar\<close> rejects entries without an image extension,
  reads and decodes the others (Pillow) and compares the decoded image with every
  reference through \<^verbatim>\<open>img_similarity_check\<close>, the mean of the pixel-wise
  absolute difference (numpy) tested against the threshold. A match is appended to the
  reference's list in \<^verbatim>\<open>result\<close>, reported on standard output, and saved to the
  output folder if one was given. One \<^verbatim>\<open>try\<close> block around the body of
  \<^verbatim>\<open>is_image_similar\<close> turns every exception of an entry into three printed
  lines. Back in the main block, the final report prints the result.

  \<^bold>\<open>The theories.\<close>
  \<^item> \<open>Prelude\<close>: exceptions (\<open>exn\<close>), outcomes of calls that may raise, Python
    dictionaries as insertion-ordered association lists (\<open>dict_getitem\<close>,
    \<open>dict_setitem\<close>, \<open>dict_append\<close>), the orders \<open>grows\<close> and \<open>embeds\<close> on
    dictionaries of lists, and the fact collections the component proofs share.
  \<^item> \<open>Py_Path\<close>: \<^verbatim>\<open>str.lower\<close>, \<^verbatim>\<open>str.endswith\<close>, \<^verbatim>\<open>os.path.splitext\<close>,
    \<^verbatim>\<open>os.path.join\<close>, from the documented behaviour of the standard library.
  \<^item> \<open>Imaging\<close>: the interface \<open>pil\<close> to Pillow and numpy, \<open>np_mean\<close> and the
    comparison \<open>float_lt\<close>, and the pixel-grid codec \<open>grid_pil\<close> of the specification.
  \<^item> \<open>Scorer\<close>: \<open>img_similarity_check\<close> (lines 14 to 30) and its contract \<open>score\<close>.
  \<^item> \<open>Vfs\<close>: the entries of the virtual file system (\<open>file_entry\<close>), the interface
    \<open>host\<close> to the environment, the walker \<open>walk\<close>, the leaves of a tree and the
    work-list walker \<open>walk_stack\<close>.
  \<^item> \<open>State\<close>: the state of a run (\<open>result\<close>, \<open>stdout\<close>, \<open>files\<close>), the
    messages printed, and the counts of matches recorded and announced.
  \<^item> \<open>Scenarios\<close>: the data of the specification's scenarios, to which the witnesses
    apply the theorems.
  \<^item> \<open>Matcher\<close>: \<open>is_candidate\<close>, \<open>record_match\<close>, \<open>export_match\<close>,
    \<open>compare_references\<close>, \<open>try_is_image_similar\<close> and \<open>is_image_similar\<close> (lines 87
    to 130), and the contract of one entry (\<open>matches\<close>, \<open>entry_effect\<close>,
    \<open>apply_effect\<close>).
  \<^item> \<open>Traversal\<close>: \<open>traverse_file_entries\<close> (lines 133 to 147) and the contract of
    a scan, \<open>scan_effects\<close>.
  \<^item> \<open>Scan\<close>: the reference loader and \<open>find_similar_images\<close> (lines 33 to 84).
  \<^item> \<open>Cli\<close>: \<open>print_usage\<close> and the main block (lines 150 to 214): \<open>main\<close>,
    \<open>option_loop\<close>, \<open>final_report\<close>, with \<open>getopt\<close> and \<open>py_int\<close> from the
    standard library.
  \<^item> This theory: the properties that span components.

  \<^bold>\<open>How the model corresponds to the code.\<close> Every function of \<^verbatim>\<open>main.py\<close> is a
  definition of the same name with the same parameters in the same order, preceded by the
  interface it calls into (\<open>host\<close>, \<open>pil\<close>) and followed by the state; the dictionary
  \<^verbatim>\<open>result\<close>, which the code mutates in place, is the field \<open>result\<close> of that state.
  A loop is a recursive function over the list it iterates (\<open>compare_references\<close>,
  \<open>load_reference_files\<close>, \<open>traverse_sub_file_entries\<close>, \<open>option_loop\<close>,
  \<open>print_references\<close>, \<open>print_stats\<close>). A statement that may raise is a case
  distinction on an \<open>outcome\<close>; an exception that leaves a function is returned beside
  the state reached, because what was appended and printed before it stays appended and
  printed. The \<^verbatim>\<open>try\<close> block of \<^verbatim>\<open>is_image_similar\<close> is the function
  \<open>try_is_image_similar\<close> and its handler the function \<open>except_comparing\<close>. The way
  the program ends is a \<open>status\<close>: an exit code passed to \<^verbatim>\<open>sys.exit\<close>, or the
  exception nothing caught. Local variables keep their names, except \<^verbatim>\<open>image\<close>
  (\<open>img\<close>), which is a constant of HOL.

  \<^bold>\<open>What is proved.\<close>
  \<^item> Scorer: the comparison is strict and monotone in the threshold, a score lies in
    \<open>[0, 255]\<close>, and for the pixel-grid codec identical images score 0 and the score
    is symmetric.
  \<^item> Matcher: from a \<open>ready\<close> state \<open>is_image_similar\<close> implements the contract
    \<open>entry_effect\<close> (\<open>is_image_similar_effect\<close>): entries that are no candidates leave
    the state alone, undecodable candidates only print, matches are appended in the order
    of the references with scores below the threshold, and the loop over the references
    ends at the first exception, so that with a save that fails a higher threshold can
    lose a match. Invariants of recording and exporting are invariants of
    the entry (\<open>compare_references_invariant\<close>, \<open>is_image_similar_invariant\<close>).
  \<^item> Traversal: the recursion visits the leaves \<open>walk\<close> yields, in depth-first order
    (\<open>traverse_walk\<close>); on a tree whose directories all list, these are the entries the
    work-list walker yields; a listing error ends the traversal and nothing behind the
    failing directory is visited; the result only grows.
  \<^item> Scan: the contract of the loader and of \<open>find_similar_images\<close>, the shape of a
    scan (\<open>find_similar_images_cases\<close>) and the rule for its invariants; what the
    function does when opening, listing or loading fails or the root entry is missing;
    every reference is a key; the strings on which the filter of the loader and the
    candidate filter differ.
  \<^item> Cli: \<open>getopt\<close> parses what \<open>option_words\<close> prints; the option loop leaves
    each variable with the argument of the last occurrence of its option; the exit codes
    of the main block on each of its paths, exit code 0 after a reference folder that
    cannot be listed or holds no image included; the report lists the tuples of the
    result and names the references with a match.
  \<^item> Across components (this theory): monotonicity of the result in the threshold
    without export, the balance of matches recorded and matches announced, and the report
    of a run from the command line: the matches of the leaves in depth-first order,
    reference by reference.

  \<^bold>\<open>Bounds and assumptions.\<close> A file tree is a finite datatype value, so the provider
  is acyclic and finite, as the specification assumes; no fuel is needed, every function is
  total by structural or size-based recursion (\<open>walk_stack\<close> and \<open>getopt_loop\<close> by a
  measure). \<open>float64\<close> values are exact rationals or \<open>NaN\<close> (see theory \<open>Imaging\<close>
  for when this agrees with IEEE doubles). Strings are byte sequences; \<open>str_lower\<close>
  changes ASCII letters only, which decides the extension tests as Python does because no
  other character lower-cases to an ASCII letter sequence that completes one of the six
  extensions; \<open>py_int\<close> reads ASCII digits and white space, up to the 4300 digits that
  CPython 3.11 and later convert by default. Paths follow POSIX. The depth
  of Python's call stack is not modelled: the recursion of \<open>traverse_file_entries\<close> is
  taken to succeed at every depth. The environment does not change during a run: every
  call of \<open>host\<close> and \<open>pil\<close> is a function of its arguments, so a save of one image
  to one path raises always or never, and the field \<open>files\<close> only records the saves
  that returned. The name and the location of an entry are strings, and reading them does
  not raise; the provider may return no root entry and no file object.

  \<^bold>\<open>Not modelled.\<close> The parsing of the disk image and of the file system (dfvfs, The
  Sleuth Kit), image decoding and encoding (Pillow), numpy: each is behind \<open>host\<close> or
  \<open>pil\<close>. The text of the printed lines and the formatting of floating-point numbers:
  a printed line is a constructor of \<open>msg\<close>. Long options of \<^verbatim>\<open>getopt\<close>, which the
  program does not use.

  \<^bold>\<open>Plan.\<close> A model of the call-stack limit, with the comparison of the recursion and
  the work-list walker on deep trees; the line formats of the report; an instance of
  \<open>pil\<close> with image modes and sizes that follows Pillow, where the difference of two
  images of one mode is taken on their common region and raises when the bands differ;
  an output folder whose state decides whether a save raises.
\<close>

section \<open>Properties of the whole scan\<close>

text \<open>
  \<^bold>\<open>C2\<close> (monotonicity in the threshold). Without an output folder, raising the
  threshold never loses a match: on the same disk image and reference folder the scan
  ends in the same way, and under every reference the matches recorded with the lower
  threshold are a subsequence of the matches recorded with the higher one.
\<close>

theorem threshold_monotone:
  assumes "t \<le> t'" and "wf_dict (result s)"
  shows "fst (find_similar_images host pil disk folder t [] s) =
      fst (find_similar_images host pil disk folder t' [] s) \<and>
    embeds (result (snd (find_similar_images host pil disk folder t [] s)))
      (result (snd (find_similar_images host pil disk folder t' [] s)))"
  using assms(2)
proof (cases rule: find_similar_images_cases [of s host pil disk folder])
  case (stopped r s')
  then show ?thesis by simp
next
  case (scanned root_file_entry refs s')
  with assms(1) show ?thesis
    by (simp add: traverse_monotone) (simp add: traverse_walk)
qed

theorem threshold_monotone_witness:
  "(5 :: int) \<le> 10 \<and> wf_dict (result (initial :: grid state)) \<and>
   result (snd (find_similar_images two_reference_host scenario_pil ''disk.img'' ''refs'' 5 []
     initial)) =
     [(''refs/ref1.jpg'', [(''/pics/near.PNG'', Finite 3)]), (''refs/ref2.jpg'', [])] \<and>
   result (snd (find_similar_images two_reference_host scenario_pil ''disk.img'' ''refs'' 10 []
     initial)) =
     [(''refs/ref1.jpg'', [(''/pics/near.PNG'', Finite 3)]),
      (''refs/ref2.jpg'', [(''/pics/near.PNG'', Finite 7)])] \<and>
   embeds [(''refs/ref1.jpg'', [(''/pics/near.PNG'', Finite 3)]), (''refs/ref2.jpg'', [])]
     [(''refs/ref1.jpg'', [(''/pics/near.PNG'', Finite 3)]),
      (''refs/ref2.jpg'', [(''/pics/near.PNG'', Finite (7 :: rat))])]"
proof -
  have le: "(5 :: int) \<le> 10" by simp
  have wf: "wf_dict (result (initial :: grid state))" by (simp add: evaluate)
  have low: "result (snd (find_similar_images two_reference_host scenario_pil ''disk.img''
      ''refs'' 5 [] initial)) =
      [(''refs/ref1.jpg'', [(''/pics/near.PNG'', Finite 3)]), (''refs/ref2.jpg'', [])]"
    by (simp add: evaluate)
  have high: "result (snd (find_similar_images two_reference_host scenario_pil ''disk.img''
      ''refs'' 10 [] initial)) =
      [(''refs/ref1.jpg'', [(''/pics/near.PNG'', Finite 3)]),
       (''refs/ref2.jpg'', [(''/pics/near.PNG'', Finite 7)])]"
    by (simp add: evaluate)
  from threshold_monotone [OF le wf, of two_reference_host scenario_pil "''disk.img''" "''refs''"]
    wf low high
  show ?thesis by simp
qed

text \<open>
  \<^bold>\<open>C16\<close> (matches recorded and matches announced). Starting from a result
  without matches, \<^verbatim>\<open>find_similar_images\<close> leaves as many tuples in the result
  as it has printed \<^verbatim>\<open>Similar image identified!\<close> lines, whatever fails on the
  way.
\<close>

theorem every_match_is_reported:
  fixes s :: "'img state"
  assumes "match_count s = 0"
  shows "match_count (snd (find_similar_images host pil disk folder t out_folder s)) +
      report_count s =
    report_count (snd (find_similar_images host pil disk folder t out_folder s))"
proof (rule find_similar_images_invariant
    [where I = "\<lambda>s'. match_count s' = 0 \<and> report_count s' = report_count s"])
  fix k and s' :: "'img state"
  assume "match_count s' = 0 \<and> report_count s' = report_count s"
  then show "match_count (s'\<lparr>result := dict_setitem k [] (result s')\<rparr>) = 0 \<and>
      report_count (s'\<lparr>result := dict_setitem k [] (result s')\<rparr>) = report_count s"
    using match_count_enter [of k s'] by simp
next
  fix root_file_entry refs and s' :: "'img state"
  assume "match_count s' = 0 \<and> report_count s' = report_count s"
  with traverse_counts [of pil root_file_entry refs t out_folder s']
  show "match_count (snd (traverse_file_entries pil root_file_entry refs t out_folder s')) +
      report_count s =
      report_count (snd (traverse_file_entries pil root_file_entry refs t out_folder s'))"
    by simp
qed (use assms in \<open>simp_all add: count_list_0_iff\<close>)

theorem every_match_is_reported_witness:
  "match_count (initial :: grid state) = 0 \<and>
   match_count (snd (find_similar_images two_reference_host scenario_pil ''disk.img'' ''refs''
     10 [] initial)) = 2 \<and>
   report_count (initial :: grid state) = 0 \<and>
   report_count (snd (find_similar_images two_reference_host scenario_pil ''disk.img'' ''refs''
     10 [] initial)) = 2"
proof -
  have m: "match_count (initial :: grid state) = 0"
    and r: "report_count (initial :: grid state) = 0"
    by (simp_all add: evaluate)
  have "match_count (snd (find_similar_images two_reference_host scenario_pil ''disk.img''
      ''refs'' 10 [] initial)) = 2"
    by (simp add: evaluate)
  with every_match_is_reported [OF m, of two_reference_host scenario_pil "''disk.img''"
      "''refs''" 10 "[]"] m r
  show ?thesis by simp
qed

section \<open>From the command line to the report\<close>

text \<open>
  \<^bold>\<open>C36\<close> (the report of a run). When the program is started with the options
  \<^verbatim>\<open>-d\<close> and \<^verbatim>\<open>-r\<close>, the disk image opens, the references load
  and every directory of the disk image lists, then the program exits with code 0 and the
  lines of its final report are, reference by reference in the order in which the
  references were loaded, the matches of the leaves of the disk image in depth-first
  order; every line reports a score strictly below the default threshold 10.
\<close>

theorem report_of_a_run:
  assumes "disk \<noteq> []" and "folder \<noteq> []"
    and "OpenFileSystem host disk = Return file_system"
    and "load_reference_images host pil folder (py_print [FileSystemParseCompleted] initial) =
      (Return refs, s')"
    and "GetRootFileEntry file_system = Return (Some root_file_entry)"
    and "readable root_file_entry"
  shows "fst (main host pil [prog, ''-d'', disk, ''-r'', folder]) = Exit 0 \<and>
    stats (stdout (snd (main host pil [prog, ''-d'', disk, ''-r'', folder]))) =
      concat (map (\<lambda>k. concat (map (found pil refs 10 [] k) (leaves root_file_entry)))
        (dict_keys refs)) \<and>
    list_all (\<lambda>stat. float_lt (snd stat) 10)
      (stats (stdout (snd (main host pil [prog, ''-d'', disk, ''-r'', folder]))))"
proof -
  let ?s = "scan_effects pil refs 10 [] (leaves root_file_entry)
    (py_print [ReferenceImagesLoadingCompleted, DiskRootDirectoryLoadingCompleted, StartScanning] s')"
  let ?report = "concat (map (\<lambda>k. concat (map (found pil refs 10 [] k) (leaves root_file_entry)))
    (dict_keys refs))"
  from assms(4) have ready: "ready refs s'"
    and fresh: "result s' = map (\<lambda>p. (fst p, [])) refs"
    by (auto simp: initial_def intro: load_reference_images_ready load_reference_images_fresh)
  from load_reference_images_frame(1) [of host pil folder "py_print [FileSystemParseCompleted] initial"]
    assms(4)
  have out: "stats (stdout s') = []"
    by (simp add: initial_def)
  from assms(3-6) ready have "find_similar_images host pil disk folder 10 [] initial = (Return None, ?s)"
    by (simp add: find_similar_images_def traverse_walk walk_readable visit_all_effects py_print_def)
  with assms(1,2) have run: "main host pil [prog, ''-d'', disk, ''-r'', folder] =
      (Exit 0, final_report ?s)"
    by (simp add: main_simps)
  have lines: "stats (stdout (final_report ?s)) = ?report"
    using out
    by (simp add: final_report_eq stats_report_lines stats_scan_effects result_scan_effects fresh
        comp_def dict_keys_def)
  have "list_all (\<lambda>stat. float_lt (snd stat) 10) ?report"
    by (auto simp: list_all_iff dest: found_below)
  with run lines show ?thesis by simp
qed

theorem report_of_a_run_witness:
  "''disk.img'' \<noteq> [] \<and> ''refs'' \<noteq> [] \<and>
   OpenFileSystem two_reference_host ''disk.img'' = Return (FileSystem (Return (Some near_root))) \<and>
   load_reference_images two_reference_host scenario_pil ''refs''
       (py_print [FileSystemParseCompleted] initial) =
     (Return two_references, py_print [FileSystemParseCompleted] (loaded two_references)) \<and>
   GetRootFileEntry (FileSystem (Return (Some near_root))) = Return (Some near_root) \<and>
   readable near_root \<and>
   main two_reference_host scenario_pil [''main.py'', ''-d'', ''disk.img'', ''-r'', ''refs''] =
     (Exit 0,
      \<lparr>result = [(''refs/ref1.jpg'', [(''/pics/near.PNG'', Finite 3)]),
                 (''refs/ref2.jpg'', [(''/pics/near.PNG'', Finite 7)])],
       stdout = [FileSystemParseCompleted, ReferenceImagesLoadingCompleted,
                 DiskRootDirectoryLoadingCompleted, StartScanning, SimilarImageIdentified,
                 SimilarImageIdentified, FinalReport, ForReferenceImage ''refs/ref1.jpg'',
                 Stat ''/pics/near.PNG'' (Finite 3), ForReferenceImage ''refs/ref2.jpg'',
                 Stat ''/pics/near.PNG'' (Finite 7)],
       files = []\<rparr>) \<and>
   concat (map (\<lambda>k. concat (map (found scenario_pil two_references 10 [] k) (leaves near_root)))
     (dict_keys two_references)) =
     [(''/pics/near.PNG'', Finite 3), (''/pics/near.PNG'', Finite 7)]"
proof -
  have o: "OpenFileSystem two_reference_host ''disk.img'' =
      Return (FileSystem (Return (Some near_root)))"
    and l: "load_reference_images two_reference_host scenario_pil ''refs''
        (py_print [FileSystemParseCompleted] initial) =
      (Return two_references, py_print [FileSystemParseCompleted] (loaded two_references))"
    and g: "GetRootFileEntry (FileSystem (Return (Some near_root))) = Return (Some near_root)"
    and r: "readable near_root"
    by (simp_all add: evaluate)
  have m: "main two_reference_host scenario_pil [''main.py'', ''-d'', ''disk.img'', ''-r'', ''refs''] =
     (Exit 0,
      \<lparr>result = [(''refs/ref1.jpg'', [(''/pics/near.PNG'', Finite 3)]),
                 (''refs/ref2.jpg'', [(''/pics/near.PNG'', Finite 7)])],
       stdout = [FileSystemParseCompleted, ReferenceImagesLoadingCompleted,
                 DiskRootDirectoryLoadingCompleted, StartScanning, SimilarImageIdentified,
                 SimilarImageIdentified, FinalReport, ForReferenceImage ''refs/ref1.jpg'',
                 Stat ''/pics/near.PNG'' (Finite 3), ForReferenceImage ''refs/ref2.jpg'',
                 Stat ''/pics/near.PNG'' (Finite 7)],
       files = []\<rparr>)"
    by (simp add: evaluate)
  from report_of_a_run [OF _ _ o l g r, of "''main.py''"] o l g r m show ?thesis
    by simp
qed

end
